(* ===== verification/Prelude.thy ===== *)
theory Prelude
  imports Main "HOL-Library.Sublist"
begin

text \<open>
  Shared vocabulary of the development: the Python exceptions the scrapers can raise
  (as values of a sum type, with a bind that stops at the first one), Python list
  indexing, and the string builtins the scrapers call (\<open>str.split()\<close>,
  \<open>str.strip()\<close>, \<open>" ".join\<close>, \<open>in\<close>, \<open>startswith\<close>, \<open>replace\<close>, \<open>lower\<close>,
  \<open>capitalize\<close>). A Python string is a list of code points; the model's \<open>char\<close>
  holds the code points 0 to 255 (Latin-1), which covers the ASCII markup and the Latin
  letters of the scraped names. Each builtin comes with the lemmas that the component
  proofs use, collected in \<open>str_simps\<close>.
\<close>

named_theorems str_simps "evaluation rules of the modelled string builtins"
named_theorems exc_simps "rules for the exception bind"

type_synonym url = string

section \<open>Exceptions\<close>

text \<open>
  The exceptions that the scrapers' own code can raise: \<open>IndexError\<close> from
  \<open>cols[i]\<close> or \<open>split()[0]\<close>, \<open>KeyError\<close> from \<open>tag['href']\<close> or a
  missing dictionary key, \<open>TypeError\<close> from an operation applied to a value of the
  wrong type (\<open>in\<close> or \<open>[key]\<close> on a decoded JSON value that is not a dictionary),
  \<open>AttributeError\<close> from the pandas \<open>.str\<close> accessor on a column without strings,
  \<open>FileNotFoundError\<close> from \<open>open\<close> or \<open>savefig\<close> in a directory that does not exist,
  \<open>EmptyDataError\<close> from \<open>pd.read_csv\<close> on an empty file.
\<close>

datatype exc = IndexError | KeyError | TypeError | AttributeError | FileNotFoundError | EmptyDataError

type_synonym 'a result = "exc + 'a"

definition ebind :: "'a result \<Rightarrow> ('a \<Rightarrow> 'b result) \<Rightarrow> 'b result" where
  "ebind r f = (case r of Inl e \<Rightarrow> Inl e | Inr x \<Rightarrow> f x)"

lemma ebind_Inl [simp, exc_simps]: "ebind (Inl e) f = Inl e"
  by (simp add: ebind_def)

lemma ebind_Inr [simp, exc_simps]: "ebind (Inr x) f = f x"
  by (simp add: ebind_def)

lemma ebind_eq_Inr [exc_simps]:
  "ebind r f = Inr y \<longleftrightarrow> (\<exists>x. r = Inr x \<and> f x = Inr y)"
  by (cases r) auto

text \<open>
  A loop body that can raise: it ends normally with its state, or raises with the state
  it had reached (a Python object mutated in place keeps the changes made before the
  exception).
\<close>

datatype 'a outcome = Normal 'a | Raised exc 'a

fun outcome_state :: "'a outcome \<Rightarrow> 'a" where
  "outcome_state (Normal s) = s"
| "outcome_state (Raised e s) = s"

text \<open>Python's \<open>xs[i]\<close> for a non-negative index.\<close>

definition py_index :: "'a list \<Rightarrow> nat \<Rightarrow> 'a result" where
  "py_index xs i = (if i < length xs then Inr (xs ! i) else Inl IndexError)"

lemma py_index_Inr [simp, exc_simps]: "i < length xs \<Longrightarrow> py_index xs i = Inr (xs ! i)"
  by (simp add: py_index_def)

lemma py_index_Inl [simp, exc_simps]: "length xs \<le> i \<Longrightarrow> py_index xs i = Inl IndexError"
  by (simp add: py_index_def)

text \<open>Python's \<open>xs[0]\<close>, the form in which the scrapers take the first word of a name.\<close>

definition py_head :: "'a list \<Rightarrow> 'a result" where
  "py_head xs = py_index xs 0"

lemma py_head_simps [simp, exc_simps]:
  "py_head [] = Inl IndexError" "py_head (x # xs) = Inr x"
  by (simp_all add: py_head_def)

section \<open>Whitespace and \<open>str.split()\<close>\<close>

text \<open>
  The code points for which Python's \<open>str.isspace\<close> holds, below 256: tab, line feed,
  vertical tab, form feed, carriage return, the four separators \<open>0x1c\<close> to \<open>0x1f\<close>,
  space, next line (\<open>0x85\<close>) and no-break space (\<open>0xa0\<close>).
\<close>

definition ws_codes :: "nat list" where
  "ws_codes = [9, 10, 11, 12, 13, 28, 29, 30, 31, 32, 133, 160]"

definition is_ws :: "char \<Rightarrow> bool" where
  "is_ws c \<longleftrightarrow> of_char c \<in> set ws_codes"

lemma is_ws_space [simp, str_simps]: "is_ws (CHR '' '')"
  by (simp add: is_ws_def ws_codes_def)

text \<open>
  \<open>str.split()\<close> with no separator: the maximal runs of non-whitespace characters, in
  order. The accumulator holds the current run, reversed.
\<close>

fun split_ws_acc :: "string \<Rightarrow> string \<Rightarrow> string list" where
  "split_ws_acc w [] = (if w = [] then [] else [rev w])"
| "split_ws_acc w (c # cs) =
     (if is_ws c then (if w = [] then split_ws_acc [] cs else rev w # split_ws_acc [] cs)
      else split_ws_acc (c # w) cs)"

definition split_ws :: "string \<Rightarrow> string list" where
  "split_ws s = split_ws_acc [] s"

text \<open>\<open>str.strip()\<close> with no argument: whitespace removed at both ends.\<close>

definition strip :: "string \<Rightarrow> string" where
  "strip s = rev (dropWhile is_ws (rev (dropWhile is_ws s)))"

text \<open>\<open>sep.join(xs)\<close>.\<close>

fun join :: "string \<Rightarrow> string list \<Rightarrow> string" where
  "join sep [] = []"
| "join sep [x] = x"
| "join sep (x # y # ys) = x @ sep @ join sep (y # ys)"

subsection \<open>Lemmas on \<open>split_ws\<close>, \<open>strip\<close> and \<open>join\<close>\<close>

text \<open>A word of the input without whitespace is carried into the accumulator.\<close>

definition is_word :: "string \<Rightarrow> bool" where
  "is_word x \<longleftrightarrow> x \<noteq> [] \<and> (\<forall>c\<in>set x. \<not> is_ws c)"

lemma split_ws_acc_append_word:
  "\<forall>c\<in>set w. \<not> is_ws c \<Longrightarrow> split_ws_acc acc (w @ cs) = split_ws_acc (rev w @ acc) cs"
  by (induction w arbitrary: acc) auto

lemma split_ws_acc_words:
  "\<forall>c\<in>set acc. \<not> is_ws c \<Longrightarrow> x \<in> set (split_ws_acc acc s) \<Longrightarrow> is_word x"
proof (induction s arbitrary: acc)
  case Nil
  then show ?case by (simp add: is_word_def split: if_splits)
next
  case (Cons c cs)
  show ?case
  proof (cases "is_ws c")
    case True
    then have "x \<in> set (split_ws_acc [] cs) \<or> (acc \<noteq> [] \<and> x = rev acc)"
      using Cons.prems(2) by (auto split: if_splits)
    then show ?thesis
    proof
      assume "x \<in> set (split_ws_acc [] cs)"
      then show ?thesis using Cons.IH [of "[]"] by simp
    next
      assume "acc \<noteq> [] \<and> x = rev acc"
      with Cons.prems(1) show ?thesis by (simp add: is_word_def)
    qed
  next
    case False
    then have "x \<in> set (split_ws_acc (c # acc) cs)"
      using Cons.prems(2) by simp
    moreover have "\<forall>d\<in>set (c # acc). \<not> is_ws d"
      using Cons.prems(1) False by simp
    ultimately show ?thesis using Cons.IH by blast
  qed
qed

text \<open>Every piece of \<open>str.split()\<close> is a non-empty run without whitespace.\<close>

lemma split_ws_is_word [str_simps]: "x \<in> set (split_ws s) \<Longrightarrow> is_word x"
  unfolding split_ws_def by (rule split_ws_acc_words) simp_all

text \<open>Splitting a space-joined list of words gives the words back.\<close>

lemma split_ws_join_words [str_simps]:
  "\<forall>x\<in>set xs. is_word x \<Longrightarrow> split_ws (join '' '' xs) = xs"
proof (induction xs rule: induct_list012)
  case 1
  then show ?case by (simp add: split_ws_def)
next
  case (2 x)
  then show ?case
    using split_ws_acc_append_word [of x "[]" "[]"] by (simp add: split_ws_def is_word_def)
next
  case (3 x y ys)
  then have x: "is_word x" and IH: "split_ws (join '' '' (y # ys)) = y # ys" by simp_all
  then have "split_ws (x @ '' '' @ join '' '' (y # ys)) = x # split_ws (join '' '' (y # ys))"
    using split_ws_acc_append_word [of x "[]"] by (simp add: split_ws_def is_word_def)
  with IH show ?case by simp
qed

lemma split_ws_acc_all_ws:
  "\<forall>c\<in>set t. is_ws c \<Longrightarrow> split_ws_acc acc t = split_ws_acc acc []"
  by (induction t arbitrary: acc) auto

lemma split_ws_acc_trailing_ws:
  "\<forall>c\<in>set t. is_ws c \<Longrightarrow> split_ws_acc acc (s @ t) = split_ws_acc acc s"
  by (induction s arbitrary: acc) (auto simp: split_ws_acc_all_ws)

lemma split_ws_dropWhile: "split_ws_acc [] (dropWhile is_ws s) = split_ws_acc [] s"
  by (induction s) auto

text \<open>\<open>strip\<close> before \<open>split()\<close> changes nothing.\<close>

lemma split_ws_strip [str_simps]: "split_ws (strip s) = split_ws s"
proof -
  let ?u = "dropWhile is_ws s"
  let ?t = "rev (takeWhile is_ws (rev ?u))"
  have "?u = rev (takeWhile is_ws (rev ?u) @ dropWhile is_ws (rev ?u))"
    by (simp only: takeWhile_dropWhile_id rev_rev_ident)
  then have u: "?u = rev (dropWhile is_ws (rev ?u)) @ ?t"
    by (simp only: rev_append)
  have t: "\<forall>c\<in>set ?t. is_ws c"
    by (auto dest: set_takeWhileD)
  have "split_ws_acc [] ?u = split_ws_acc [] (rev (dropWhile is_ws (rev ?u)) @ ?t)"
    using u by (rule arg_cong)
  also have "\<dots> = split_ws_acc [] (rev (dropWhile is_ws (rev ?u)))"
    by (rule split_ws_acc_trailing_ws [OF t])
  finally show ?thesis
    by (simp add: split_ws_def strip_def split_ws_dropWhile)
qed

section \<open>Prefixes, substrings and \<open>str.replace\<close>\<close>

text \<open>\<open>s.startswith(p)\<close>, executable.\<close>

fun starts_with :: "string \<Rightarrow> string \<Rightarrow> bool" where
  "starts_with [] s = True"
| "starts_with (p # ps) [] = False"
| "starts_with (p # ps) (c # cs) = (p = c \<and> starts_with ps cs)"

lemma starts_with_prefix [str_simps]: "starts_with p s \<longleftrightarrow> prefix p s"
  by (induction p s rule: starts_with.induct) auto

text \<open>\<open>needle in hay\<close> for strings: a contiguous occurrence.\<close>

fun contains :: "string \<Rightarrow> string \<Rightarrow> bool" where
  "contains n [] = (n = [])"
| "contains n (c # cs) = (starts_with n (c # cs) \<or> contains n cs)"

lemma contains_sublist [str_simps]: "contains n s \<longleftrightarrow> sublist n s"
proof (induction s)
  case Nil
  then show ?case by simp
next
  case (Cons c cs)
  then show ?case by (auto simp: starts_with_prefix sublist_Cons_right)
qed

text \<open>
  \<open>s.replace(old, new)\<close> for a non-empty \<open>old\<close>: left to right, every
  non-overlapping occurrence. (Every call in the sources passes a non-empty literal.)
\<close>

function replace_all :: "string \<Rightarrow> string \<Rightarrow> string \<Rightarrow> string" where
  "replace_all old new [] = []"
| "replace_all old new (c # cs) =
     (if old \<noteq> [] \<and> starts_with old (c # cs)
      then new @ replace_all old new (drop (length old) (c # cs))
      else c # replace_all old new cs)"
  by pat_completeness auto
termination
  by (relation "measure (\<lambda>(old, new, s). length s)") auto

text \<open>Nothing to replace: the string is unchanged.\<close>

lemma replace_all_no_occ: "\<not> contains old s \<Longrightarrow> replace_all old new s = s"
  by (induction old new s rule: replace_all.induct)
    (auto simp: contains_sublist starts_with_prefix sublist_Cons_right)

text \<open>An occurrence at the start is replaced, and the rest is processed after it.\<close>

lemma replace_all_prefix: "old \<noteq> [] \<Longrightarrow> replace_all old new (old @ s) = new @ replace_all old new s"
  by (cases old) (simp_all add: starts_with_prefix)

text \<open>\<open>s.split(sep)\<close> for a one-character separator: the pieces between separators.\<close>

fun split_on_acc :: "char \<Rightarrow> string \<Rightarrow> string \<Rightarrow> string list" where
  "split_on_acc sep w [] = [rev w]"
| "split_on_acc sep w (c # cs) =
     (if c = sep then rev w # split_on_acc sep [] cs else split_on_acc sep (c # w) cs)"

definition split_on :: "char \<Rightarrow> string \<Rightarrow> string list" where
  "split_on sep s = split_on_acc sep [] s"

lemma length_split_on_acc: "length (split_on_acc sep w s) = Suc (count_list s sep)"
  by (induction s arbitrary: w) auto

lemma length_split_on [str_simps]: "length (split_on sep s) = Suc (count_list s sep)"
  by (simp add: split_on_def length_split_on_acc)

lemma count_list_pos: "x \<in> set xs \<Longrightarrow> 0 < count_list xs x"
  by (induction xs) auto

section \<open>Maps\<close>

text \<open>A map that only grows keeps every entry it had (a dictionary filled, never changed).\<close>

lemma map_le_Some [intro]: "m \<subseteq>\<^sub>m m' \<Longrightarrow> m k = Some v \<Longrightarrow> m' k = Some v"
  by (auto simp: map_le_def dom_def)

section \<open>Effects\<close>

text \<open>
  The observable effects of a run, in order: an HTTP GET of a URL (a page, a name
  lookup, a detail document) and a politeness pause of so many milliseconds
  (\<open>time.sleep\<close>).
\<close>

datatype effect = Fetch url | Sleep nat

fun fetches :: "effect list \<Rightarrow> url list" where
  "fetches [] = []"
| "fetches (Fetch u # es) = u # fetches es"
| "fetches (Sleep n # es) = fetches es"

lemma fetches_append [simp]: "fetches (es @ fs) = fetches es @ fetches fs"
  by (induction es rule: fetches.induct) auto

section \<open>Case conversion\<close>

text \<open>
  \<open>str.lower\<close> and \<open>str.upper\<close> on Latin-1: the ASCII letters and the Latin-1
  letters \<open>0xc0\<close> to \<open>0xde\<close> (upper) and \<open>0xe0\<close> to \<open>0xfe\<close> (lower), without the
  multiplication and division signs, differ by 32. (\<open>0xdf\<close>, \<open>0xff\<close> and \<open>0xb5\<close>,
  whose upper forms lie outside Latin-1, are left unchanged.)
\<close>

definition is_upper_chr :: "char \<Rightarrow> bool" where
  "is_upper_chr c \<longleftrightarrow>
     (let n = of_char c :: nat in (65 \<le> n \<and> n \<le> 90) \<or> (192 \<le> n \<and> n \<le> 222 \<and> n \<noteq> 215))"

definition is_lower_chr :: "char \<Rightarrow> bool" where
  "is_lower_chr c \<longleftrightarrow>
     (let n = of_char c :: nat in (97 \<le> n \<and> n \<le> 122) \<or> (224 \<le> n \<and> n \<le> 254 \<and> n \<noteq> 247))"

definition lower_chr :: "char \<Rightarrow> char" where
  "lower_chr c = (if is_upper_chr c then char_of (of_char c + (32::nat)) else c)"

definition upper_chr :: "char \<Rightarrow> char" where
  "upper_chr c = (if is_lower_chr c then char_of (of_char c - (32::nat)) else c)"

definition lower :: "string \<Rightarrow> string" where
  "lower s = map lower_chr s"

text \<open>\<open>str.capitalize()\<close>: the first character upper case, the rest lower case.\<close>

fun capitalize :: "string \<Rightarrow> string" where
  "capitalize [] = []"
| "capitalize (c # cs) = upper_chr c # map lower_chr cs"

end
