(* ===== verification/Html.thy ===== *)
theory Html
  imports Prelude
begin

text \<open>
  The parsed page as BeautifulSoup presents it to the scrapers: a tree of elements
  (tag name, attributes, children) and text nodes. Element search follows BeautifulSoup:
  \<open>find_all\<close> returns the matching descendants in document order (pre-order, the
  order of the opening tags), \<open>find\<close> the first of them, \<open>find_previous\<close> the last
  matching element that opens before a given one (ancestors included, since their opening
  tags come first), \<open>.text\<close> the concatenation of all text below an element,
  \<open>get_text(strip=True)\<close> the concatenation of its stripped, non-empty text pieces, and
  \<open>.string\<close> the single text of an element with a single child. An element is identified
  by its position in the document order, so that two equal subtrees at different places
  stay apart. HTML parsing itself (\<open>BeautifulSoup(text, 'html.parser')\<close>) is not
  modelled: a page is given as its tree. Attribute lists are as the parser leaves them,
  one value per name.
\<close>

named_theorems html_simps "evaluation rules of the document model"

datatype node = Text string | Elem string "(string \<times> string) list" "node list"

type_synonym document = "node list"

section \<open>Elements and attributes\<close>

fun is_tag :: "string \<Rightarrow> node \<Rightarrow> bool" where
  "is_tag name (Elem t as cs) = (t = name)"
| "is_tag name (Text s) = False"

text \<open>\<open>tag.get(key)\<close>: \<open>None\<close> for a missing attribute and for a text node.\<close>

fun attr :: "string \<Rightarrow> node \<Rightarrow> string option" where
  "attr k (Elem t as cs) = map_of as k"
| "attr k (Text s) = None"

definition has_attr :: "string \<Rightarrow> node \<Rightarrow> bool" where
  "has_attr k n \<longleftrightarrow> attr k n \<noteq> None"

text \<open>\<open>tag[key]\<close>: a missing attribute raises \<open>KeyError\<close>.\<close>

definition attr_req :: "string \<Rightarrow> node \<Rightarrow> string result" where
  "attr_req k n = (case attr k n of None \<Rightarrow> Inl KeyError | Some v \<Rightarrow> Inr v)"

text \<open>\<open>tag.get(key, default)\<close>.\<close>

definition attr_get :: "string \<Rightarrow> string \<Rightarrow> node \<Rightarrow> string" where
  "attr_get k d n = (case attr k n of None \<Rightarrow> d | Some v \<Rightarrow> v)"

text \<open>
  \<open>class_=c\<close>: \<open>class\<close> is a multi-valued attribute, split on whitespace; the
  filter holds when \<open>c\<close> is one of its values.
\<close>

definition has_class :: "string \<Rightarrow> node \<Rightarrow> bool" where
  "has_class c n = (case attr ''class'' n of None \<Rightarrow> False | Some v \<Rightarrow> c \<in> set (split_ws v))"

definition tag_class :: "string \<Rightarrow> string \<Rightarrow> node \<Rightarrow> bool" where
  "tag_class name c n \<longleftrightarrow> is_tag name n \<and> has_class c n"

fun children :: "node \<Rightarrow> node list" where
  "children (Elem t as cs) = cs"
| "children (Text s) = []"

section \<open>Document order and search\<close>

fun preorder :: "node \<Rightarrow> node list" where
  "preorder (Text s) = [Text s]"
| "preorder (Elem t as cs) = Elem t as cs # concat (map preorder cs)"

text \<open>All nodes below a list of sibling subtrees, in document order.\<close>

definition descendants :: "node list \<Rightarrow> node list" where
  "descendants ns = concat (map preorder ns)"

text \<open>\<open>x.find_all(...)\<close> on a document (its top-level nodes) or an element (its children).\<close>

definition find_all :: "(node \<Rightarrow> bool) \<Rightarrow> node list \<Rightarrow> node list" where
  "find_all P ns = filter P (descendants ns)"

definition find_first :: "(node \<Rightarrow> bool) \<Rightarrow> node list \<Rightarrow> node option" where
  "find_first P ns = find P (descendants ns)"

text \<open>
  \<open>find_all\<close> on a whole document, each match with its position in document order,
  which is the element's identity for \<open>find_previous\<close>.
\<close>

definition find_all_pos :: "(node \<Rightarrow> bool) \<Rightarrow> document \<Rightarrow> (nat \<times> node) list" where
  "find_all_pos P doc = filter (\<lambda>(i, n). P n) (enumerate 0 (descendants doc))"

text \<open>\<open>element.find_previous(...)\<close> for the element at position \<open>i\<close>.\<close>

definition find_previous :: "(node \<Rightarrow> bool) \<Rightarrow> document \<Rightarrow> nat \<Rightarrow> node option" where
  "find_previous P doc i = find P (rev (take i (descendants doc)))"

section \<open>Text\<close>

text \<open>\<open>.text\<close> (that is \<open>get_text()\<close>): every text node below, concatenated.\<close>

fun text_leaves :: "node \<Rightarrow> string list" where
  "text_leaves (Text s) = [s]"
| "text_leaves (Elem t as cs) = concat (map text_leaves cs)"

definition node_text :: "node \<Rightarrow> string" where
  "node_text n = concat (text_leaves n)"

text \<open>\<open>get_text(strip=True)\<close>: each text piece stripped, empty ones dropped, no separator.\<close>

definition get_text_strip :: "node \<Rightarrow> string" where
  "get_text_strip n = concat (filter (\<lambda>s. s \<noteq> []) (map strip (text_leaves n)))"

text \<open>\<open>.string\<close>: the text of a node whose only descendant chain ends in one text.\<close>

fun tag_string :: "node \<Rightarrow> string option" where
  "tag_string (Text s) = Some s"
| "tag_string (Elem t as [c]) = tag_string c"
| "tag_string (Elem t as cs) = None"


section \<open>Search lemmas\<close>

lemma descendants_simps [simp, html_simps]:
  "descendants [] = []"
  "descendants (n # ns) = preorder n @ descendants ns"
  by (simp_all add: descendants_def)

lemma descendants_append [simp]: "descendants (ns @ ms) = descendants ns @ descendants ms"
  by (simp add: descendants_def)

text \<open>The positioned matches are the matches, in the same order.\<close>

lemma map_snd_find_all_pos [simp]: "map snd (find_all_pos P doc) = find_all P doc"
proof -
  have "\<And>k. map snd (filter (\<lambda>(i, n). P n) (enumerate k xs)) = filter P xs" for xs :: "node list"
    by (induction xs) auto
  then show ?thesis by (simp add: find_all_pos_def find_all_def)
qed

lemma find_all_pos_nth:
  "(i, n) \<in> set (find_all_pos P doc) \<Longrightarrow>
     i < length (descendants doc) \<and> descendants doc ! i = n \<and> P n"
  by (auto simp: find_all_pos_def in_set_enumerate_eq)

text \<open>
  \<open>find\<close> on the reversed prefix is the last match of the prefix: the nearest match
  before the position.
\<close>

lemma find_rev_last_filter:
  "find P (rev xs) = (if filter P xs = [] then None else Some (last (filter P xs)))"
  by (induction xs rule: rev_induct) auto

lemma find_previous_nearest:
  "find_previous P doc i =
     (let ps = filter P (take i (descendants doc)) in if ps = [] then None else Some (last ps))"
  by (simp add: find_previous_def find_rev_last_filter Let_def)

lemma find_previous_Some:
  "find_previous P doc i = Some h \<Longrightarrow> P h \<and> h \<in> set (take i (descendants doc))"
  by (auto simp: find_previous_nearest Let_def split: if_splits
      intro: last_in_set dest: last_in_set[of "filter P _"])


end
