(* ===== verification/Normalize.thy ===== *)
theory Normalize
  imports Html
begin

text \<open>
  The record normaliser: the functions that turn a table cell into a field value.
  \<open>clean_text\<close> (\<open>aarhus_scraper.py\<close>) collapses whitespace runs; the profile link of
  a Aarhus row is made absolute; the Pisa row's email is rebuilt from the three attributes
  of its \<open>cryptml\<close> anchor, its website is the first anchor's \<open>href\<close> and its phone
  number loses every \<open>tel.\<close>. The lemmas show that \<open>clean_text\<close> keeps the words and
  leaves single spaces between them only, that it is idempotent, and that the email is
  rebuilt exactly from its parts (and its local part can be read back).
\<close>

section \<open>\<open>clean_text\<close>\<close>

definition clean_text :: "string \<Rightarrow> string" where
  "clean_text text = (if text \<noteq> [] then join '' '' (split_ws (strip text)) else [])"

section \<open>Links, email, website and phone\<close>

text \<open>
  Aarhus, the profile link of the name cell: the anchor's \<open>href\<close> (a \<open>KeyError\<close> when
  it has none), \<open>""\<close> when the cell has no anchor; a non-empty link that does not start
  with \<open>http\<close> gets the site origin \<open>https://cs.au.dk\<close> in front.
\<close>

definition absolutize_profile :: "string \<Rightarrow> string" where
  "absolutize_profile l =
     (if l \<noteq> [] \<and> \<not> starts_with ''http'' l then ''https://cs.au.dk'' @ l else l)"

definition profile_link_of :: "node option \<Rightarrow> string result" where
  "profile_link_of name_col =
     ebind (case name_col of None \<Rightarrow> Inr [] | Some a \<Rightarrow> attr_req ''href'' a)
       (\<lambda>l. Inr (absolutize_profile l))"

text \<open>
  Pisa, the email cell: the first \<open>a.cryptml\<close> anchor carries the address in three
  attributes; the address is \<open>name@domain.tld\<close> when the name part is non-empty,
  otherwise, and when there is no such anchor, the placeholder \<open>N/A\<close>.
\<close>

definition email_from_tag :: "node \<Rightarrow> string" where
  "email_from_tag t =
     (let name_part = attr_get ''data-name'' [] t;
          domain_part = attr_get ''data-domain'' [] t;
          tld_part = attr_get ''data-tld'' [] t
      in if name_part \<noteq> [] then name_part @ ''@'' @ domain_part @ ''.'' @ tld_part else ''N/A'')"

definition pisa_email :: "node \<Rightarrow> string" where
  "pisa_email col =
     (case find_first (tag_class ''a'' ''cryptml'') (children col) of
        None \<Rightarrow> ''N/A''
      | Some email_tag \<Rightarrow> email_from_tag email_tag)"

text \<open>Pisa, the website cell: the first anchor's \<open>href\<close>, or \<open>N/A\<close>.\<close>

definition pisa_website :: "node \<Rightarrow> string" where
  "pisa_website col =
     (case find_first (is_tag ''a'') (children col) of
        None \<Rightarrow> ''N/A''
      | Some web_tag \<Rightarrow> (if has_attr ''href'' web_tag then attr_get ''href'' [] web_tag else ''N/A''))"

text \<open>Pisa, the phone cell: its stripped text, every \<open>tel.\<close> removed, stripped again.\<close>

definition pisa_phone :: "node \<Rightarrow> string" where
  "pisa_phone col = strip (replace_all ''tel.'' [] (get_text_strip col))"

text \<open>The anchor of the Pisa email cell, as a test input.\<close>

definition cryptml_cell :: "string \<Rightarrow> string \<Rightarrow> string \<Rightarrow> node" where
  "cryptml_cell n d t =
     Elem ''td'' [] [Elem ''a'' [(''class'', ''cryptml''), (''data-name'', n),
                                 (''data-domain'', d), (''data-tld'', t)] [Text ''email'']]"

section \<open>Lemmas on \<open>clean_text\<close>\<close>

lemma clean_text_join: "clean_text s = join '' '' (split_ws s)"
  by (cases "s = []") (simp_all add: clean_text_def split_ws_strip, simp add: split_ws_def)

lemma all_is_word_split_ws: "\<forall>x\<in>set (split_ws s). is_word x"
  using split_ws_is_word by blast

subsection \<open>Space-joined words\<close>

lemma join_Cons_nonempty: "x \<noteq> [] \<Longrightarrow> join sep (x # xs) \<noteq> []"
  by (cases xs) auto

lemma join_space_ws:
  "\<forall>x\<in>set xs. is_word x \<Longrightarrow> c \<in> set (join '' '' xs) \<Longrightarrow> is_ws c \<Longrightarrow> c = CHR '' ''"
  by (induction xs rule: induct_list012) (auto simp: is_word_def)

lemma join_space_hd_last:
  "\<forall>x\<in>set xs. is_word x \<Longrightarrow> join '' '' xs \<noteq> [] \<Longrightarrow>
     \<not> is_ws (hd (join '' '' xs)) \<and> \<not> is_ws (last (join '' '' xs))"
proof (induction xs rule: induct_list012)
  case 1
  then show ?case by simp
next
  case (2 x)
  then show ?case by (auto simp: is_word_def)
next
  case (3 x y ys)
  then have x: "is_word x" and y: "is_word y" by auto
  have ne: "join '' '' (y # ys) \<noteq> []"
    using y join_Cons_nonempty by (auto simp: is_word_def)
  with 3 have IH: "\<not> is_ws (last (join '' '' (y # ys)))" by simp
  from x have "hd (join '' '' (x # y # ys)) = hd x" and "hd x \<in> set x"
    by (simp_all add: is_word_def)
  moreover from ne have "last (join '' '' (x # y # ys)) = last (join '' '' (y # ys))"
    by simp
  ultimately show ?case using x IH by (auto simp: is_word_def)
qed

lemma contains_dbl_space_word:
  "\<forall>c\<in>set x. \<not> is_ws c \<Longrightarrow> contains ''  '' (x @ r) = contains ''  '' r"
proof (induction x)
  case Nil
  then show ?case by simp
next
  case (Cons c x)
  then have "c \<noteq> CHR '' ''" using is_ws_space by auto
  with Cons show ?case by simp
qed

lemma join_space_no_double:
  "\<forall>x\<in>set xs. is_word x \<Longrightarrow> \<not> contains ''  '' (join '' '' xs)"
proof (induction xs rule: induct_list012)
  case 1
  then show ?case by simp
next
  case (2 x)
  then show ?case
    using contains_dbl_space_word [of x "[]"] by (simp add: is_word_def)
next
  case (3 x y ys)
  have x: "is_word x" and y: "is_word y" using "3.prems" by auto
  have IH: "\<not> contains ''  '' (join '' '' (y # ys))" using 3 by simp
  have ne: "join '' '' (y # ys) \<noteq> []"
    using y join_Cons_nonempty by (auto simp: is_word_def)
  have hd: "\<not> is_ws (hd (join '' '' (y # ys)))"
    using join_space_hd_last [of "y # ys"] "3.prems" ne by simp
  have "hd (join '' '' (y # ys)) \<noteq> CHR '' ''"
    using hd is_ws_space by metis
  with ne IH have "\<not> contains ''  '' (CHR '' '' # join '' '' (y # ys))"
    by (cases "join '' '' (y # ys)") auto
  with x show ?case
    using contains_dbl_space_word [of x] by (simp add: is_word_def)
qed


section \<open>Properties of the normaliser\<close>

text \<open>
  C28: \<open>clean_text\<close> keeps exactly the words of its input (the maximal runs of
  non-whitespace characters, in order), and normalising twice is normalising once.
\<close>

theorem clean_text_words_idem:
  "split_ws (clean_text s) = split_ws s \<and> clean_text (clean_text s) = clean_text s"
proof -
  have w: "split_ws (clean_text s) = split_ws s"
    by (simp add: clean_text_join split_ws_join_words all_is_word_split_ws)
  have "clean_text (clean_text s) = join '' '' (split_ws (clean_text s))"
    by (rule clean_text_join)
  with w have "clean_text (clean_text s) = clean_text s"
    by (simp add: clean_text_join [of s])
  with w show ?thesis by simp
qed

text \<open>
  C29: The output of \<open>clean_text\<close> has no whitespace but single spaces: no
  other whitespace character, no two spaces in a row, and none at either end.
\<close>

theorem clean_text_spacing:
  "(\<forall>c\<in>set (clean_text s). is_ws c \<longrightarrow> c = CHR '' '') \<and>
   \<not> contains ''  '' (clean_text s) \<and>
   (clean_text s \<noteq> [] \<longrightarrow> \<not> is_ws (hd (clean_text s)) \<and> \<not> is_ws (last (clean_text s)))"
  unfolding clean_text_join
  using join_space_ws [OF all_is_word_split_ws] join_space_no_double [OF all_is_word_split_ws]
    join_space_hd_last [OF all_is_word_split_ws]
  by blast

theorem clean_text_spacing_witness:
  "clean_text (''  Doe,'' @ [CHR 0x0A] @ '' Jane '') \<noteq> [] \<and>
   \<not> is_ws (hd (clean_text (''  Doe,'' @ [CHR 0x0A] @ '' Jane ''))) \<and>
   \<not> is_ws (last (clean_text (''  Doe,'' @ [CHR 0x0A] @ '' Jane ''))) \<and>
   clean_text (''  Doe,'' @ [CHR 0x0A] @ '' Jane '') = ''Doe, Jane''"
proof -
  have c: "clean_text (''  Doe,'' @ [CHR 0x0A] @ '' Jane '') = ''Doe, Jane''"
    by (simp add: clean_text_def strip_def split_ws_def is_ws_def ws_codes_def)
  then have ne: "clean_text (''  Doe,'' @ [CHR 0x0A] @ '' Jane '') \<noteq> []" by simp
  show ?thesis
    using clean_text_spacing [of "''  Doe,'' @ [CHR 0x0A] @ '' Jane ''"] ne c by blast
qed

lemma has_class_cryptml [simp]:
  "has_class ''cryptml'' (Elem ''a'' ((''class'', ''cryptml'') # as) cs)"
  by (simp add: has_class_def split_ws_def is_ws_def ws_codes_def)

text \<open>
  C30: The Pisa email is \<open>name@domain.tld\<close>, built from the three
  attributes of the \<open>cryptml\<close> anchor, exactly when the name part is non-empty, and the
  placeholder \<open>N/A\<close> (never a malformed address) when it is empty.
\<close>

theorem pisa_email_rebuild:
  "pisa_email (cryptml_cell n d t) = (if n = [] then ''N/A'' else n @ ''@'' @ d @ ''.'' @ t)"
  by (simp add: pisa_email_def cryptml_cell_def find_first_def tag_class_def email_from_tag_def
      attr_get_def)

text \<open>
  When the name part holds no \<open>@\<close>, the rebuilt address splits at its
  first \<open>@\<close> into the name part and \<open>domain.tld\<close>.
\<close>

theorem pisa_email_roundtrip:
  assumes "n \<noteq> []" and "CHR ''@'' \<notin> set n"
  shows "takeWhile (\<lambda>c. c \<noteq> CHR ''@'') (pisa_email (cryptml_cell n d t)) = n \<and>
         drop (Suc (length n)) (pisa_email (cryptml_cell n d t)) = d @ ''.'' @ t"
proof -
  have "\<forall>x\<in>set n. x \<noteq> CHR ''@''" using assms(2) by blast
  with assms(1) show ?thesis
    by (simp add: pisa_email_def cryptml_cell_def find_first_def tag_class_def email_from_tag_def
        attr_get_def)
qed

theorem pisa_email_roundtrip_witness:
  "takeWhile (\<lambda>c. c \<noteq> CHR ''@'') (pisa_email (cryptml_cell ''alice'' ''example'' ''com'')) = ''alice'' \<and>
   drop (Suc (length ''alice'')) (pisa_email (cryptml_cell ''alice'' ''example'' ''com'')) =
     ''example'' @ ''.'' @ ''com''"
  by (rule pisa_email_roundtrip) simp_all

end
