(* ===== verification/Dedup.thy ===== *)
theory Dedup
  imports Prelude
begin

text \<open>
  The deduplicator of \<open>aarhus_scraper.py\<close>: a row's identity is its email, or its name
  when the email is empty; the run keeps the set \<open>seen_ids\<close> of identities admitted so
  far, and a row whose identity is in it is skipped (\<open>continue\<close>), otherwise the identity
  is added and the row kept. \<open>dedup_run\<close> is that loop over a list of rows with a key
  function; it is shown equal to the reference \<open>nub_by\<close> (keep an element, drop every
  later one with its key), and its results keep distinct keys, the first occurrence of each.
\<close>

section \<open>Identity and admission\<close>

definition unique_id :: "string \<Rightarrow> string \<Rightarrow> string" where
  "unique_id email name = (if email \<noteq> [] then email else name)"

text \<open>\<open>None\<close>: the identity was seen, the row is dropped; \<open>Some\<close>: the new set.\<close>

definition admit :: "string \<Rightarrow> string set \<Rightarrow> string set option" where
  "admit uid seen_ids = (if uid \<in> seen_ids then None else Some (insert uid seen_ids))"

fun dedup_run :: "('a \<Rightarrow> string) \<Rightarrow> string set \<Rightarrow> 'a list \<Rightarrow> 'a list \<times> string set" where
  "dedup_run key seen_ids [] = ([], seen_ids)"
| "dedup_run key seen_ids (x # xs) =
     (case admit (key x) seen_ids of
        None \<Rightarrow> dedup_run key seen_ids xs
      | Some seen' \<Rightarrow> (let (out, s) = dedup_run key seen' xs in (x # out, s)))"

section \<open>Reference: the first element of each key\<close>

function nub_by :: "('a \<Rightarrow> 'k) \<Rightarrow> 'a list \<Rightarrow> 'a list" where
  "nub_by key [] = []"
| "nub_by key (x # xs) = x # nub_by key (filter (\<lambda>y. key y \<noteq> key x) xs)"
  by pat_completeness auto
termination
  by (relation "measure (\<lambda>(key, xs). length xs)") (auto simp: le_imp_less_Suc)

lemma dedup_run_Cons_seen [simp]:
  "key x \<in> s \<Longrightarrow> dedup_run key s (x # xs) = dedup_run key s xs"
  by (simp add: admit_def)

lemma dedup_run_Cons_new [simp]:
  "key x \<notin> s \<Longrightarrow> dedup_run key s (x # xs) =
     (x # fst (dedup_run key (insert (key x) s) xs), snd (dedup_run key (insert (key x) s) xs))"
  by (simp add: admit_def split_def Let_def)

declare dedup_run.simps(2) [simp del]

lemma admit_None [simp]: "uid \<in> s \<Longrightarrow> admit uid s = None"
  by (simp add: admit_def)

lemma admit_Some [simp]: "uid \<notin> s \<Longrightarrow> admit uid s = Some (insert uid s)"
  by (simp add: admit_def)

lemma nub_by_set: "set (nub_by key xs) \<subseteq> set xs"
  by (induction key xs rule: nub_by.induct) auto

lemma nub_by_keys: "set (map key (nub_by key xs)) = set (map key xs)"
  by (induction key xs rule: nub_by.induct) auto

lemma nub_by_distinct: "distinct (map key (nub_by key xs))"
proof (induction key xs rule: nub_by.induct)
  case (1 key)
  then show ?case by simp
next
  case (2 key x xs)
  have "key x \<notin> set (map key (nub_by key (filter (\<lambda>y. key y \<noteq> key x) xs)))"
    by (simp only: nub_by_keys) auto
  with 2 show ?case by simp
qed

lemma nub_by_subseq: "subseq (nub_by key xs) xs"
proof (induction key xs rule: nub_by.induct)
  case (1 key)
  then show ?case by simp
next
  case (2 key x xs)
  then have "subseq (nub_by key (filter (\<lambda>y. key y \<noteq> key x) xs)) xs"
    using subseq_order.trans subseq_filter_left by blast
  then show ?case by simp
qed


section \<open>Properties of the deduplicator\<close>

lemma dedup_run_seen: "snd (dedup_run key s xs) = s \<union> key ` set xs"
proof (induction xs arbitrary: s)
  case Nil
  then show ?case by simp
next
  case (Cons x xs)
  then show ?case by (cases "key x \<in> s") auto
qed

lemma dedup_run_fresh:
  "distinct (map key (fst (dedup_run key s xs))) \<and> key ` set (fst (dedup_run key s xs)) \<inter> s = {}"
proof (induction xs arbitrary: s)
  case Nil
  then show ?case by simp
next
  case (Cons x xs)
  show ?case
  proof (cases "key x \<in> s")
    case True
    with Cons.IH show ?thesis by simp
  next
    case False
    with Cons.IH [of "insert (key x) s"] show ?thesis by auto
  qed
qed

text \<open>
  C26: The deduplication loop, started with the identities \<open>s\<close> already seen,
  keeps exactly what the reference keeps of the rows whose identity is not in \<open>s\<close>: the
  first row of each identity, in input order.
\<close>

theorem dedup_run_nub_by:
  "fst (dedup_run key s xs) = nub_by key (filter (\<lambda>y. key y \<notin> s) xs)"
proof (induction xs arbitrary: s)
  case Nil
  then show ?case by simp
next
  case (Cons x xs)
  show ?case
  proof (cases "key x \<in> s")
    case True
    with Cons.IH show ?thesis by simp
  next
    case False
    have "filter (\<lambda>y. key y \<noteq> key x) (filter (\<lambda>y. key y \<notin> s) xs) =
          filter (\<lambda>y. key y \<notin> insert (key x) s) xs"
      by (auto intro: filter_cong)
    with False Cons.IH [of "insert (key x) s"] show ?thesis
      by simp
  qed
qed

text \<open>
  C27: Identities stay unique: the kept rows have pairwise distinct identities,
  none of them was seen before the run, and afterwards the seen set is the old one with
  every identity of the input added.
\<close>

theorem dedup_run_unique:
  "distinct (map key (fst (dedup_run key s xs))) \<and>
   (\<forall>x\<in>set (fst (dedup_run key s xs)). key x \<notin> s) \<and>
   snd (dedup_run key s xs) = s \<union> key ` set xs"
  using dedup_run_fresh [of key s xs] dedup_run_seen [of key s xs] by auto

theorem dedup_run_unique_witness:
  "distinct (map id (fst (dedup_run id {''a''} [''a'', ''b'', ''b'', ''c'']))) \<and>
   fst (dedup_run id {''a''} [''a'', ''b'', ''b'', ''c'']) = [''b'', ''c'']"
  using dedup_run_unique [of id "{''a''}" "[''a'', ''b'', ''b'', ''c'']"]
  by (simp add: admit_def)

end
