(* ===== verification/Gender.thy ===== *)
theory Gender
  imports Complex_Main Prelude
begin

text \<open>
  The enrichment resolver: a name is mapped to a gender label, by one of two strategies.
  \<^item> Aarhus (\<open>get_gender(full_name, detector)\<close>): the first word of the given name
    (after the comma of \<open>Lastname, Firstname\<close>), capitalised, is looked up in the
    offline \<open>gender_guesser\<close> detector; its answer is read as \<open>Female\<close>,
    \<open>Male\<close> or \<open>Unknown\<close>. The detector is a parameter of the model.
  \<^item> Pisa (\<open>get_gender(first_name)\<close>): the first word is sent to the genderize.io
    service; its gender is accepted only with a probability above 0.8, and every failure
    is \<open>unknown\<close>. The service is a parameter (a function from the queried name to its
    reply), and the query is recorded as a \<open>Fetch\<close> effect.
  The Pisa main loop memoises the lookup in \<open>gender_cache\<close>, keyed by the lower-cased
  first word, and pauses 100 ms after every real lookup (\<open>cached_gender\<close>, one row).
\<close>

section \<open>Aarhus: offline heuristic\<close>

text \<open>\<open>detector.get_gender(name)\<close>: one of \<open>male\<close>, \<open>female\<close>, \<open>mostly_male\<close>, ...\<close>

type_synonym detector = "string \<Rightarrow> string"

text \<open>
  The given-name part: after the first comma, stripped, when the name has a comma
  (\<open>full_name.split(",")[1].strip()\<close>), else the whole name.
\<close>

definition name_part :: "string \<Rightarrow> string result" where
  "name_part full_name =
     (if CHR '','' \<in> set full_name
      then ebind (py_index (split_on CHR '','' full_name) 1) (\<lambda>p. Inr (strip p))
      else Inr full_name)"

definition classify_guess :: "string \<Rightarrow> string" where
  "classify_guess guess =
     (if contains ''female'' guess then ''Female''
      else if contains ''male'' guess then ''Male''
      else ''Unknown'')"

definition aarhus_get_gender :: "detector \<Rightarrow> string \<Rightarrow> string result" where
  "aarhus_get_gender d full_name =
     (if full_name = [] then Inr ''Unknown''
      else ebind (name_part full_name) (\<lambda>np.
           ebind (py_head (split_ws np)) (\<lambda>w.
             Inr (classify_guess (d (capitalize w))))))"

section \<open>Pisa: networked lookup\<close>

text \<open>
  A genderize.io reply: the HTTP status, the \<open>gender\<close> field (\<open>None\<close> for JSON
  \<open>null\<close> or a missing field, which both end in \<open>unknown\<close>), and the
  \<open>probability\<close> field (\<open>None\<close> when missing, a \<open>KeyError\<close> caught as
  \<open>unknown\<close>); or a failure of the request or of the JSON decoding. The probability
  is a real number: the comparison with the literal 0.8 is exact.
\<close>

datatype genderize_reply = Reply nat "string option" "real option" | RequestFailed

type_synonym genderize_api = "string \<Rightarrow> genderize_reply"

definition genderize_url :: "string \<Rightarrow> url" where
  "genderize_url clean_name = ''https://api.genderize.io?name='' @ clean_name @ ''&country_id=IT''"

definition reply_gender :: "genderize_reply \<Rightarrow> string" where
  "reply_gender r =
     (case r of
        RequestFailed \<Rightarrow> ''unknown''
      | Reply status g p \<Rightarrow>
          (if status = 200 then
             (case g of
                None \<Rightarrow> ''unknown''
              | Some gs \<Rightarrow>
                  (if gs = [] then ''unknown''
                   else (case p of
                           None \<Rightarrow> ''unknown''
                         | Some pr \<Rightarrow> (if pr > 0.8 then gs else ''unknown''))))
           else ''unknown''))"

text \<open>
  The lookup with its effects: no request when the name has no word (the
  \<open>IndexError\<close> of \<open>split()[0]\<close> is caught), otherwise one request for the first word.
\<close>

definition pisa_get_gender :: "genderize_api \<Rightarrow> string \<Rightarrow> string \<times> effect list" where
  "pisa_get_gender api first_name =
     (case split_ws first_name of
        [] \<Rightarrow> (''unknown'', [])
      | clean_name # _ \<Rightarrow> (reply_gender (api clean_name), [Fetch (genderize_url clean_name)]))"

section \<open>Pisa: the cache\<close>

type_synonym gender_cache = "string \<rightharpoonup> string"

text \<open>
  One row's lookup through the cache. \<open>first_name.split()[0]\<close> raises \<open>IndexError\<close>
  on a name without a word; the Pisa loop does not catch it.
\<close>

definition cached_gender ::
  "genderize_api \<Rightarrow> gender_cache \<Rightarrow> string \<Rightarrow> (string \<times> gender_cache \<times> effect list) result" where
  "cached_gender api cache first_name =
     ebind (py_head (split_ws first_name)) (\<lambda>w.
       (let name_key = lower w in
        case cache name_key of
          Some g \<Rightarrow> Inr (g, cache, [])
        | None \<Rightarrow>
            (let (g, effs) = pisa_get_gender api first_name
             in Inr (g, cache(name_key \<mapsto> g), effs @ [Sleep 100]))))"

text \<open>The cache key of a first name, for a name with a word.\<close>

definition name_key :: "string \<Rightarrow> string" where
  "name_key n = lower (hd (split_ws n))"

section \<open>Properties of the resolver\<close>

text \<open>The Aarhus lookup answers with one of the three labels the code writes.\<close>

lemma aarhus_get_gender_label:
  "aarhus_get_gender d n = Inr g \<Longrightarrow> g \<in> {''Male'', ''Female'', ''Unknown''}"
  by (auto simp: aarhus_get_gender_def classify_guess_def ebind_eq_Inr split: if_splits)

lemma split_on_no_sep: "sep \<notin> set s \<Longrightarrow> split_on_acc sep w s = [rev w @ s]"
  by (induction s arbitrary: w) auto

lemma split_on_one_sep:
  "sep \<notin> set l \<Longrightarrow> sep \<notin> set f \<Longrightarrow> split_on sep (l @ sep # f) = [l, f]"
proof -
  assume l: "sep \<notin> set l" and f: "sep \<notin> set f"
  have "split_on_acc sep w (l @ sep # f) = (rev w @ l) # split_on_acc sep [] f" for w
    using l by (induction l arbitrary: w) auto
  then show ?thesis using f by (simp add: split_on_def split_on_no_sep)
qed

lemma name_part_comma:
  "CHR '','' \<notin> set l \<Longrightarrow> CHR '','' \<notin> set f \<Longrightarrow> name_part (l @ CHR '','' # f) = Inr (strip f)"
  by (simp add: name_part_def split_on_one_sep)

text \<open>
  What a lookup that returns did: the name has a first word; its lower-cased form is
  now cached with the returned label; no entry was changed; and there was a request
  followed by a pause exactly when the key was new.
\<close>

lemma cached_gender_Inr:
  assumes "cached_gender api c n = Inr (g, c', effs)"
  shows "\<exists>w ws. split_ws n = w # ws \<and> name_key n = lower w \<and> c' (lower w) = Some g \<and>
           c \<subseteq>\<^sub>m c' \<and> dom c' = insert (lower w) (dom c) \<and>
           (if lower w \<in> dom c then effs = [] \<and> c' = c
            else effs = [Fetch (genderize_url w), Sleep 100])"
proof (cases "split_ws n")
  case Nil
  with assms show ?thesis by (simp add: cached_gender_def)
next
  case (Cons w ws)
  with assms show ?thesis
    by (cases "c (lower w)") (auto simp: cached_gender_def pisa_get_gender_def name_key_def map_le_def)
qed

lemma cached_gender_word:
  "split_ws n \<noteq> [] \<Longrightarrow> \<exists>g c' effs. cached_gender api c n = Inr (g, c', effs)"
  by (cases "split_ws n"; cases "c (lower (hd (split_ws n)))")
    (auto simp: cached_gender_def split_def Let_def)

lemma cached_gender_no_word: "split_ws n = [] \<Longrightarrow> cached_gender api c n = Inl IndexError"
  by (simp add: cached_gender_def)

text \<open>
  C31: For a name \<open>Lastname, Firstname\<close> with one comma, the detector is asked
  about the first word of the given-name part, capitalised, and its answer is classified;
  when the part after the comma holds no word (as in \<open>Smith,\<close>) the lookup raises
  \<open>IndexError\<close>, which ends the Aarhus crawl.
\<close>

theorem aarhus_get_gender_comma:
  assumes "CHR '','' \<notin> set l" and "CHR '','' \<notin> set f"
  shows "aarhus_get_gender d (l @ CHR '','' # f) =
           (case split_ws f of
              [] \<Rightarrow> Inl IndexError
            | w # ws \<Rightarrow> Inr (classify_guess (d (capitalize w))))"
  using assms by (simp add: aarhus_get_gender_def name_part_comma split_ws_strip split: list.split)

theorem aarhus_get_gender_comma_witness:
  "aarhus_get_gender (\<lambda>_. ''mostly_female'') (''Jensen'' @ CHR '','' # '' anna maria'') = Inr ''Female'' \<and>
   aarhus_get_gender (\<lambda>_. ''male'') (''Smith'' @ [CHR '','']) = Inl IndexError"
proof -
  have "split_ws '' anna maria'' = [''anna'', ''maria'']" and "split_ws [] = []"
    by (simp_all add: split_ws_def is_ws_def ws_codes_def)
  then show ?thesis
    using aarhus_get_gender_comma [of "''Jensen''" "'' anna maria''" "\<lambda>_. ''mostly_female''"]
      aarhus_get_gender_comma [of "''Smith''" "[]" "\<lambda>_. ''male''"]
    by (simp add: classify_guess_def)
qed

text \<open>
  The six answers of the detector are read as the code intends: the
  \<open>female\<close> test comes first, so \<open>female\<close> and \<open>mostly_female\<close> (which also contain
  \<open>male\<close>) are \<open>Female\<close>; \<open>andy\<close> (androgynous) and \<open>unknown\<close> are \<open>Unknown\<close>.
\<close>

theorem classify_guess_answers:
  "map classify_guess [''male'', ''female'', ''mostly_male'', ''mostly_female'', ''andy'', ''unknown''] =
     [''Male'', ''Female'', ''Male'', ''Female'', ''Unknown'', ''Unknown'']"
  by (simp add: classify_guess_def)

text \<open>
  C32: A genderize.io answer is accepted only with status 200, a non-empty gender
  and a probability strictly above 0.8: a probability of exactly 0.8 gives \<open>unknown\<close>.
\<close>

theorem pisa_get_gender_threshold:
  assumes "split_ws n = w # ws" and "api w = Reply 200 (Some g) (Some p)"
  shows "pisa_get_gender api n =
           ((if g \<noteq> [] \<and> 0.8 < p then g else ''unknown''), [Fetch (genderize_url w)])"
  using assms by (simp add: pisa_get_gender_def reply_gender_def)

theorem pisa_get_gender_threshold_witness:
  "pisa_get_gender (\<lambda>_. Reply 200 (Some ''female'') (Some 0.8)) ''Anna'' =
     (''unknown'', [Fetch (genderize_url ''Anna'')]) \<and>
   pisa_get_gender (\<lambda>_. Reply 200 (Some ''female'') (Some 0.81)) ''Anna'' =
     (''female'', [Fetch (genderize_url ''Anna'')])"
proof -
  have w: "split_ws ''Anna'' = [''Anna'']"
    by (simp add: split_ws_def is_ws_def ws_codes_def)
  show ?thesis
    using pisa_get_gender_threshold [OF w, where api = "\<lambda>_. Reply 200 (Some ''female'') (Some 0.8)"
        and g = "''female''" and p = "0.8"]
      pisa_get_gender_threshold [OF w, where api = "\<lambda>_. Reply 200 (Some ''female'') (Some 0.81)"
        and g = "''female''" and p = "0.81"]
    by simp
qed

text \<open>
  C33: A label other than \<open>unknown\<close> only ever comes from a successful
  lookup: a status-200 reply for the first word of the name, with that label as its
  gender and a probability above 0.8. Failed requests, other statuses, missing fields and
  names without a word all end in \<open>unknown\<close>.
\<close>

theorem pisa_get_gender_accepted:
  assumes "fst (pisa_get_gender api n) \<noteq> ''unknown''"
  shows "\<exists>w ws p. split_ws n = w # ws \<and> 0.8 < p \<and>
           api w = Reply 200 (Some (fst (pisa_get_gender api n))) (Some p)"
  using assms
  by (auto simp: pisa_get_gender_def reply_gender_def
      split: list.splits genderize_reply.splits if_splits option.splits)

theorem pisa_get_gender_accepted_witness:
  "\<exists>w ws p. split_ws ''Marco'' = w # ws \<and> 0.8 < p \<and>
     (\<lambda>_. Reply 200 (Some ''male'') (Some 0.99)) w =
       Reply 200 (Some (fst (pisa_get_gender (\<lambda>_. Reply 200 (Some ''male'') (Some 0.99)) ''Marco''))) (Some p)"
proof (rule pisa_get_gender_accepted)
  have "split_ws ''Marco'' = [''Marco'']"
    by (simp add: split_ws_def is_ws_def ws_codes_def)
  then show "fst (pisa_get_gender (\<lambda>_. Reply 200 (Some ''male'') (Some 0.99)) ''Marco'') \<noteq> ''unknown''"
    by (simp add: pisa_get_gender_def reply_gender_def)
qed

end
