(* ===== verification/Aarhus.thy ===== *)
theory Aarhus
  imports Normalize Dedup Gender
begin

text \<open>
  \<open>aarhus_scraper.py\<close>, \<open>scrape_aarhus\<close>: the pagination walker and the Schema-A list
  extractor. A page holds person containers (\<open>div.pure5-persons\<close>); the category of a
  container is the \<open>h2\<close> of the nearest preceding \<open>div.csc-header\<close>; each row
  (\<open>tr\<close>) of the container's \<open>table.pure-persons-table\<close> gives six cells: name (with
  profile link), job title, email, phone, mobile, building. A row is deduplicated by its
  identity (\<open>Dedup\<close>), enriched with a gender (\<open>Gender\<close>) and appended. The walker
  follows the \<open>Next\<close> anchor of the browse box, stops when there is none, when it points
  back at the page just fetched, when a fetch fails, or when the page's code raises (the
  \<open>except Exception\<close> around the loop body); it pauses one second before every
  further page.

  The state is the function's locals (\<open>all_staff_data\<close>, \<open>seen_ids\<close>,
  \<open>current_url\<close>, \<open>page_count\<close>) with the trace of fetches and pauses. The site is a
  function from URL to the page's tree, \<open>None\<close> for a failed request or an error status.
  The \<open>while\<close> loop has no bound of its own: \<open>aarhus_crawl\<close> takes fuel, \<open>None\<close>
  when it runs out, and the lemmas below give the fuel that suffices.
\<close>

section \<open>Rows\<close>

text \<open>The row dictionary appended to \<open>all_staff_data\<close>, one field per CSV column.\<close>

record staff_row =
  r_category :: string
  r_name :: string
  r_gender :: string
  r_job_title :: string
  r_email :: string
  r_phone :: string
  r_mobile :: string
  r_building :: string
  r_profile_link :: string

text \<open>The six cells of a table row as read by the loop body, before the gender lookup.\<close>

record raw_row =
  rr_name :: string
  rr_profile_link :: string
  rr_job_title :: string
  rr_email :: string
  rr_phone :: string
  rr_mobile :: string
  rr_building :: string

definition cell_text :: "node \<Rightarrow> string" where
  "cell_text c = clean_text (node_text c)"

text \<open>The name and the email: the text of the cell's first anchor, or of the cell.\<close>

definition anchor_or_cell_text :: "node \<Rightarrow> string" where
  "anchor_or_cell_text c =
     (case find_first (is_tag ''a'') (children c) of
        Some a \<Rightarrow> cell_text a
      | None \<Rightarrow> cell_text c)"

text \<open>
  \<open>cols[0]\<close> to \<open>cols[5]\<close>, in the order the code reads them: a row with fewer than six
  cells raises \<open>IndexError\<close>, a name anchor without \<open>href\<close> raises \<open>KeyError\<close>.
\<close>

definition extract_row :: "node list \<Rightarrow> raw_row result" where
  "extract_row cols =
     ebind (py_index cols 0) (\<lambda>c0.
     ebind (profile_link_of (find_first (is_tag ''a'') (children c0))) (\<lambda>link.
     ebind (py_index cols 1) (\<lambda>c1.
     ebind (py_index cols 2) (\<lambda>c2.
     ebind (py_index cols 3) (\<lambda>c3.
     ebind (py_index cols 4) (\<lambda>c4.
     ebind (py_index cols 5) (\<lambda>c5.
       Inr \<lparr>rr_name = anchor_or_cell_text c0, rr_profile_link = link,
            rr_job_title = cell_text c1, rr_email = anchor_or_cell_text c2,
            rr_phone = cell_text c3, rr_mobile = cell_text c4,
            rr_building = cell_text c5\<rparr>)))))))"

definition rr_uid :: "raw_row \<Rightarrow> string" where
  "rr_uid r = unique_id (rr_email r) (rr_name r)"

definition mk_row :: "string \<Rightarrow> string \<Rightarrow> raw_row \<Rightarrow> staff_row" where
  "mk_row category g r =
     \<lparr>r_category = category, r_name = rr_name r, r_gender = g, r_job_title = rr_job_title r,
      r_email = rr_email r, r_phone = rr_phone r, r_mobile = rr_mobile r,
      r_building = rr_building r, r_profile_link = rr_profile_link r\<rparr>"

definition row_uid :: "staff_row \<Rightarrow> string" where
  "row_uid r = unique_id (r_email r) (r_name r)"

section \<open>State\<close>

record aarhus_state =
  all_staff_data :: "staff_row list"
  seen_ids :: "string set"
  current_url :: url
  page_count :: nat
  effects :: "effect list"

definition start_url :: url where
  "start_url = ''https://cs.au.dk/contact/people''"

definition aarhus_init :: aarhus_state where
  "aarhus_init = \<lparr>all_staff_data = [], seen_ids = {}, current_url = start_url, page_count = 1,
                  effects = []\<rparr>"

section \<open>The rows of one container\<close>

text \<open>
  The inner \<open>for row in rows\<close>: a row without cells is skipped; a duplicate identity is
  skipped; otherwise the identity is recorded before the gender lookup (which may raise),
  and the row appended.
\<close>

fun process_rows :: "detector \<Rightarrow> string \<Rightarrow> node list \<Rightarrow> aarhus_state \<Rightarrow> aarhus_state outcome" where
  "process_rows d category [] st = Normal st"
| "process_rows d category (row # rows) st =
     (let cols = find_all (is_tag ''td'') (children row) in
      if cols = [] then process_rows d category rows st
      else (case extract_row cols of
              Inl e \<Rightarrow> Raised e st
            | Inr r \<Rightarrow>
                (case admit (rr_uid r) (seen_ids st) of
                   None \<Rightarrow> process_rows d category rows st
                 | Some seen' \<Rightarrow>
                     (let st1 = st\<lparr>seen_ids := seen'\<rparr> in
                      case aarhus_get_gender d (rr_name r) of
                        Inl e \<Rightarrow> Raised e st1
                      | Inr g \<Rightarrow>
                          process_rows d category rows
                            (st1\<lparr>all_staff_data := all_staff_data st1 @ [mk_row category g r]\<rparr>)))))"

section \<open>Containers and categories\<close>

definition is_person_list :: "node \<Rightarrow> bool" where
  "is_person_list n \<longleftrightarrow> tag_class ''div'' ''pure5-persons'' n"

definition is_header :: "node \<Rightarrow> bool" where
  "is_header n \<longleftrightarrow> tag_class ''div'' ''csc-header'' n"

text \<open>The category a header gives: the cleaned text of its first \<open>h2\<close>, else \<open>Unknown\<close>.\<close>

definition header_category :: "node \<Rightarrow> string" where
  "header_category h =
     (case find_first (is_tag ''h2'') (children h) of
        None \<Rightarrow> ''Unknown''
      | Some h2 \<Rightarrow> clean_text (node_text h2))"

definition container_category :: "document \<Rightarrow> nat \<Rightarrow> string" where
  "container_category doc i =
     (case find_previous is_header doc i of
        None \<Rightarrow> ''Unknown''
      | Some header_div \<Rightarrow> header_category header_div)"

text \<open>The outer \<open>for container in person_lists\<close>; a container without its table is skipped.\<close>

fun process_containers ::
  "detector \<Rightarrow> document \<Rightarrow> (nat \<times> node) list \<Rightarrow> aarhus_state \<Rightarrow> aarhus_state outcome" where
  "process_containers d doc [] st = Normal st"
| "process_containers d doc ((i, container) # cs) st =
     (case find_first (tag_class ''table'' ''pure-persons-table'') (children container) of
        None \<Rightarrow> process_containers d doc cs st
      | Some table \<Rightarrow>
          (case process_rows d (container_category doc i) (find_all (is_tag ''tr'') (children table)) st of
             Raised e st' \<Rightarrow> Raised e st'
           | Normal st' \<Rightarrow> process_containers d doc cs st'))"

section \<open>The next page\<close>

text \<open>\<open>box.find('a', string=lambda t: t and "Next" in t)\<close>.\<close>

definition is_next_anchor :: "node \<Rightarrow> bool" where
  "is_next_anchor n \<longleftrightarrow>
     is_tag ''a'' n \<and> (case tag_string n of None \<Rightarrow> False | Some t \<Rightarrow> t \<noteq> [] \<and> contains ''Next'' t)"

text \<open>The first browse box with a \<open>Next\<close> anchor gives its \<open>href\<close> (\<open>KeyError\<close> without).\<close>

fun find_next_link :: "node list \<Rightarrow> string option result" where
  "find_next_link [] = Inr None"
| "find_next_link (box # boxes) =
     (case find_first is_next_anchor (children box) of
        None \<Rightarrow> find_next_link boxes
      | Some candidate \<Rightarrow> ebind (attr_req ''href'' candidate) (\<lambda>h. Inr (Some h)))"

text \<open>
  \<open>urljoin("https://cs.au.dk/", link)\<close> for a link that does not start with \<open>http\<close>.
  As in \<open>urllib.parse.urlsplit\<close>, a scheme is the text before the first colon when it
  starts with an ASCII letter and holds only letters, digits, \<open>+\<close>, \<open>-\<close> and \<open>.\<close>. A
  link with a scheme other than \<open>https\<close> is kept as it is; an \<open>https\<close> link written
  in another case (\<open>HTTPS:...\<close>) is resolved like the rest after the colon, with the
  scheme lower-cased. Without a scheme, a network-path reference (\<open>//host/...\<close>) takes
  the scheme, an absolute path the origin, a query or fragment the base URL, and a
  relative path is appended to the base path \<open>/\<close>. (Dot segments, which \<open>urljoin\<close>
  also removes, are not modelled.)
\<close>

definition scheme_char :: "char \<Rightarrow> bool" where
  "scheme_char c \<longleftrightarrow>
     (let n = of_char c :: nat in (65 \<le> n \<and> n \<le> 90) \<or> (97 \<le> n \<and> n \<le> 122) \<or> (48 \<le> n \<and> n \<le> 57)
        \<or> c = CHR ''+'' \<or> c = CHR ''-'' \<or> c = CHR ''.'')"

definition has_scheme :: "string \<Rightarrow> bool" where
  "has_scheme l \<longleftrightarrow>
     (let s = takeWhile scheme_char l; n = of_char (hd s) :: nat in
      s \<noteq> [] \<and> ((65 \<le> n \<and> n \<le> 90) \<or> (97 \<le> n \<and> n \<le> 122))
      \<and> take 1 (drop (length s) l) = '':'')"

definition base_url :: url where
  "base_url = ''https://cs.au.dk/''"

definition urljoin_path :: "string \<Rightarrow> url" where
  "urljoin_path l =
     (if l = [] then base_url
      else if starts_with ''//'' l then ''https:'' @ l
      else if starts_with ''/'' l then ''https://cs.au.dk'' @ l
      else base_url @ l)"

definition urljoin_base :: "string \<Rightarrow> url" where
  "urljoin_base l =
     (if has_scheme l then
        (let sch = takeWhile scheme_char l in
         if lower sch = ''https'' then urljoin_path (drop (Suc (length sch)) l) else l)
      else urljoin_path l)"

definition resolve_next :: "string \<Rightarrow> url" where
  "resolve_next l = (if starts_with ''http'' l then l else urljoin_base l)"

section \<open>The walker\<close>

type_synonym site = "url \<Rightarrow> document option"

definition person_lists :: "document \<Rightarrow> (nat \<times> node) list" where
  "person_lists doc = find_all_pos is_person_list doc"

definition browse_boxes :: "document \<Rightarrow> node list" where
  "browse_boxes doc = find_all (tag_class ''div'' ''tx-pure-pure5-browsebox'') doc"

text \<open>
  One iteration of \<open>while current_url\<close>, given the fetched page: the containers, then
  the next link. \<open>Inl\<close>: the loop ends with this state; \<open>Inr\<close>: it goes on with it.
\<close>

definition aarhus_page :: "detector \<Rightarrow> document \<Rightarrow> aarhus_state \<Rightarrow> aarhus_state + aarhus_state" where
  "aarhus_page d doc st =
     (case process_containers d doc (person_lists doc) st of
        Raised e st1 \<Rightarrow> Inl st1
      | Normal st1 \<Rightarrow>
          (case find_next_link (browse_boxes doc) of
             Inl e \<Rightarrow> Inl st1
           | Inr None \<Rightarrow> Inl st1
           | Inr (Some l) \<Rightarrow>
               (if l = [] then Inl st1
                else (let next_link = resolve_next l in
                      if next_link = current_url st then Inl st1
                      else Inr (st1\<lparr>current_url := next_link, page_count := page_count st1 + 1,
                                    effects := effects st1 @ [Sleep 1000]\<rparr>)))))"

fun aarhus_crawl :: "nat \<Rightarrow> site \<Rightarrow> detector \<Rightarrow> aarhus_state \<Rightarrow> aarhus_state option" where
  "aarhus_crawl 0 site d st = None"
| "aarhus_crawl (Suc n) site d st =
     (if current_url st = [] then Some st
      else (let st0 = st\<lparr>effects := effects st @ [Fetch (current_url st)]\<rparr> in
            case site (current_url st) of
              None \<Rightarrow> Some st0
            | Some doc \<Rightarrow>
                (case aarhus_page d doc st0 of
                   Inl st1 \<Rightarrow> Some st1
                 | Inr st1 \<Rightarrow> aarhus_crawl n site d st1)))"

section \<open>Unfolding the walker\<close>

text \<open>The three ways an iteration starts: no URL, a failed fetch, a fetched page.\<close>

lemma aarhus_crawl_no_url:
  "current_url st = [] \<Longrightarrow> aarhus_crawl (Suc n) site d st = Some st"
  by simp

lemma aarhus_crawl_fetch_failed:
  "current_url st \<noteq> [] \<Longrightarrow> site (current_url st) = None \<Longrightarrow>
     aarhus_crawl (Suc n) site d st = Some (st\<lparr>effects := effects st @ [Fetch (current_url st)]\<rparr>)"
  by simp

lemma aarhus_crawl_page:
  "current_url st \<noteq> [] \<Longrightarrow> site (current_url st) = Some doc \<Longrightarrow>
     aarhus_crawl (Suc n) site d st =
       (case aarhus_page d doc (st\<lparr>effects := effects st @ [Fetch (current_url st)]\<rparr>) of
          Inl st1 \<Rightarrow> Some st1
        | Inr st1 \<Rightarrow> aarhus_crawl n site d st1)"
  by simp

lemmas aarhus_crawl_cases = aarhus_crawl_no_url aarhus_crawl_fetch_failed aarhus_crawl_page

declare aarhus_crawl.simps(2) [simp del]

section \<open>Identity invariant\<close>

named_theorems aarhus_frame "fields a step leaves alone"

text \<open>
  Every kept row has its own identity, and every identity of a kept row is in
  \<open>seen_ids\<close>.
\<close>

definition uid_inv :: "aarhus_state \<Rightarrow> bool" where
  "uid_inv st \<longleftrightarrow>
     distinct (map row_uid (all_staff_data st)) \<and> set (map row_uid (all_staff_data st)) \<subseteq> seen_ids st"

lemma row_uid_mk_row [simp]: "row_uid (mk_row c g r) = rr_uid r"
  by (simp add: row_uid_def mk_row_def rr_uid_def)

lemma uid_inv_init: "uid_inv aarhus_init"
  by (simp add: uid_inv_def aarhus_init_def)

lemma uid_inv_seen: "uid_inv st \<Longrightarrow> uid_inv (st\<lparr>seen_ids := insert u (seen_ids st)\<rparr>)"
  by (auto simp: uid_inv_def)

lemma uid_inv_append:
  "uid_inv st \<Longrightarrow> rr_uid r \<in> seen_ids st \<Longrightarrow> rr_uid r \<notin> set (map row_uid (all_staff_data st)) \<Longrightarrow>
     uid_inv (st\<lparr>all_staff_data := all_staff_data st @ [mk_row c g r]\<rparr>)"
  by (auto simp: uid_inv_def)

lemma uid_inv_frame [simp]:
  "uid_inv (st\<lparr>effects := es\<rparr>) = uid_inv st"
  "uid_inv (st\<lparr>current_url := u\<rparr>) = uid_inv st"
  "uid_inv (st\<lparr>page_count := k\<rparr>) = uid_inv st"
  by (simp_all add: uid_inv_def)

text \<open>A new identity is kept; the row is appended after it is recorded.\<close>

lemma uid_inv_admit:
  assumes "uid_inv st" and "rr_uid r \<notin> seen_ids st"
  shows "uid_inv (st\<lparr>seen_ids := insert (rr_uid r) (seen_ids st)\<rparr>)"
    and "uid_inv (st\<lparr>seen_ids := insert (rr_uid r) (seen_ids st),
                    all_staff_data := all_staff_data st @ [mk_row c g r]\<rparr>)"
proof -
  show "uid_inv (st\<lparr>seen_ids := insert (rr_uid r) (seen_ids st)\<rparr>)"
    using assms(1) by (rule uid_inv_seen)
  have "rr_uid r \<notin> set (map row_uid (all_staff_data st))"
    using assms by (auto simp: uid_inv_def)
  then show "uid_inv (st\<lparr>seen_ids := insert (rr_uid r) (seen_ids st),
                    all_staff_data := all_staff_data st @ [mk_row c g r]\<rparr>)"
    using assms by (auto simp: uid_inv_def)
qed

lemma process_rows_uid_inv:
  "uid_inv st \<Longrightarrow> uid_inv (outcome_state (process_rows d c rows st))"
proof (induction rows arbitrary: st)
  case Nil
  then show ?case by simp
next
  case (Cons row rows)
  show ?case
    using Cons.IH Cons.prems uid_inv_admit [OF Cons.prems]
    by (auto simp: Let_def admit_def split: sum.split option.split)
qed

text \<open>
  A property of the records and the seen identities that the loop over a container's rows
  keeps is kept by the loop over containers, by a page step and by the whole crawl: the
  other fields (URL, page count, trace) do not matter to it.
\<close>

lemma process_containers_pres:
  assumes rows: "\<And>c rows s. P s \<Longrightarrow> P (outcome_state (process_rows d c rows s))"
  shows "P st \<Longrightarrow> P (outcome_state (process_containers d doc cs st))"
proof (induction cs arbitrary: st)
  case Nil
  then show ?case by simp
next
  case (Cons ic cs)
  obtain i container where ic: "ic = (i, container)" by fastforce
  show ?case
  proof (cases "find_first (tag_class ''table'' ''pure-persons-table'') (children container)")
    case None
    with Cons ic show ?thesis by simp
  next
    case (Some table)
    let ?r = "process_rows d (container_category doc i) (find_all (is_tag ''tr'') (children table)) st"
    have "P (outcome_state ?r)" using Cons.prems by (rule rows)
    with Cons.IH Some ic show ?thesis by (cases ?r) simp_all
  qed
qed

lemma aarhus_page_pres:
  assumes rows: "\<And>c rows s. P s \<Longrightarrow> P (outcome_state (process_rows d c rows s))"
    and frame: "\<And>s s'. P s \<Longrightarrow> all_staff_data s' = all_staff_data s \<Longrightarrow> seen_ids s' = seen_ids s \<Longrightarrow> P s'"
    and "P st"
  shows "case aarhus_page d doc st of Inl st' \<Rightarrow> P st' | Inr st' \<Rightarrow> P st'"
proof -
  have "P (outcome_state (process_containers d doc (person_lists doc) st))"
    using process_containers_pres [where P = P, OF rows] assms(3) by blast
  moreover have "P s \<Longrightarrow> P (s\<lparr>current_url := u, page_count := k, effects := es\<rparr>)" for s u k es
    by (erule frame) simp_all
  ultimately show ?thesis
    by (auto simp: aarhus_page_def Let_def split: outcome.split sum.split option.split)
qed

lemma aarhus_crawl_pres:
  assumes rows: "\<And>c rows s. P s \<Longrightarrow> P (outcome_state (process_rows d c rows s))"
    and frame: "\<And>s s'. P s \<Longrightarrow> all_staff_data s' = all_staff_data s \<Longrightarrow> seen_ids s' = seen_ids s \<Longrightarrow> P s'"
  shows "P st \<Longrightarrow> aarhus_crawl n site d st = Some st' \<Longrightarrow> P st'"
proof (induction n arbitrary: st)
  case 0
  then show ?case by simp
next
  case (Suc n)
  let ?st0 = "st\<lparr>effects := effects st @ [Fetch (current_url st)]\<rparr>"
  have inv0: "P ?st0" using Suc.prems(1) by (rule frame) simp_all
  consider (no_url) "current_url st = []"
    | (failed) "current_url st \<noteq> []" "site (current_url st) = None"
    | (page) doc where "current_url st \<noteq> []" "site (current_url st) = Some doc"
    by auto
  then show ?case
  proof cases
    case no_url
    with Suc.prems show ?thesis by (simp add: aarhus_crawl_no_url)
  next
    case failed
    with Suc.prems inv0 show ?thesis by (auto simp: aarhus_crawl_fetch_failed)
  next
    case page
    have "case aarhus_page d doc ?st0 of Inl st' \<Rightarrow> P st' | Inr st' \<Rightarrow> P st'"
      using rows frame inv0 by (rule aarhus_page_pres)
    then show ?thesis
      using Suc.prems(2) aarhus_crawl_page [where site = site and doc = doc, OF page] Suc.IH
      by (auto split: sum.splits)
  qed
qed

lemma uid_inv_same:
  "uid_inv s \<Longrightarrow> all_staff_data s' = all_staff_data s \<Longrightarrow> seen_ids s' = seen_ids s \<Longrightarrow> uid_inv s'"
  by (simp add: uid_inv_def)

lemma aarhus_crawl_uid_inv:
  "uid_inv st \<Longrightarrow> aarhus_crawl n site d st = Some st' \<Longrightarrow> uid_inv st'"
  by (rule aarhus_crawl_pres [where P = uid_inv, OF process_rows_uid_inv uid_inv_same])

section \<open>What a page step does\<close>

text \<open>Rows are only ever appended: the records before a step are a prefix of those after.\<close>

text \<open>
  The loop over rows changes the state only by recording an identity and appending a
  row: a reflexive, transitive relation that both steps respect holds from the state
  before the loop to the state after it, whether the loop ends normally or raises.
\<close>

lemma process_rows_rel:
  assumes refl: "\<And>s. R s s" and trans: "\<And>a b c. R a b \<Longrightarrow> R b c \<Longrightarrow> R a c"
    and seen: "\<And>s u. R s (s\<lparr>seen_ids := u\<rparr>)"
    and app: "\<And>s g r. R s (s\<lparr>all_staff_data := all_staff_data s @ [mk_row c g r]\<rparr>)"
  shows "R st (outcome_state (process_rows d c rows st))"
proof (induction rows arbitrary: st)
  case Nil
  then show ?case by (simp add: refl)
next
  case (Cons row rows)
  have step: "R s (s\<lparr>seen_ids := u, all_staff_data := all_staff_data s @ [mk_row c g r']\<rparr>)"
    for s u g r'
    using trans [OF seen [of s u] app [of "s\<lparr>seen_ids := u\<rparr>" g r']] by simp
  show ?case
    using Cons.IH
    by (auto simp: Let_def refl seen split: option.split sum.split
             intro: trans [OF step Cons.IH] trans [OF app Cons.IH])
qed

lemma process_rows_prefix:
  "prefix (all_staff_data st) (all_staff_data (outcome_state (process_rows d c rows st)))"
  by (rule process_rows_rel [where R = "\<lambda>s t. prefix (all_staff_data s) (all_staff_data t)"])
    (auto intro: prefix_order.trans)

lemma process_containers_prefix:
  "prefix (all_staff_data st) (all_staff_data (outcome_state (process_containers d doc cs st)))"
proof (induction d doc cs st rule: process_containers.induct)
  case (1 d doc st)
  then show ?case by simp
next
  case (2 d doc i container cs st)
  show ?case
  proof (cases "find_first (tag_class ''table'' ''pure-persons-table'') (children container)")
    case None
    with 2 show ?thesis by simp
  next
    case (Some table)
    let ?r = "process_rows d (container_category doc i) (find_all (is_tag ''tr'') (children table)) st"
    have p: "prefix (all_staff_data st) (all_staff_data (outcome_state ?r))"
      by (rule process_rows_prefix)
    show ?thesis
    proof (cases ?r)
      case (Normal st')
      with p Some "2.IH" show ?thesis by (auto intro: prefix_order.trans)
    next
      case (Raised e st')
      with p Some show ?thesis by simp
    qed
  qed
qed

lemma aarhus_page_prefix:
  "case aarhus_page d doc st of
     Inl st' \<Rightarrow> prefix (all_staff_data st) (all_staff_data st')
   | Inr st' \<Rightarrow> prefix (all_staff_data st) (all_staff_data st')"
  using process_containers_prefix [of st d doc "person_lists doc"]
  by (auto simp: aarhus_page_def Let_def split: outcome.split sum.split option.split)

text \<open>A page step continues only along a non-empty \<open>Next\<close> link that leads elsewhere.\<close>

lemma aarhus_page_Inr:
  assumes "aarhus_page d doc st = Inr st'"
  shows "\<exists>l. find_next_link (browse_boxes doc) = Inr (Some l) \<and> l \<noteq> [] \<and>
           resolve_next l \<noteq> current_url st \<and> current_url st' = resolve_next l"
  using assms
  by (auto simp: aarhus_page_def Let_def split: outcome.splits sum.splits option.splits if_splits)

text \<open>The state after a page whose containers were processed without an exception.\<close>

lemma aarhus_page_Normal:
  assumes "process_containers d doc (person_lists doc) st = Normal st1"
  shows "aarhus_page d doc st =
           (case find_next_link (browse_boxes doc) of
              Inr (Some l) \<Rightarrow>
                (if l = [] \<or> resolve_next l = current_url st then Inl st1
                 else Inr (st1\<lparr>current_url := resolve_next l, page_count := page_count st1 + 1,
                               effects := effects st1 @ [Sleep 1000]\<rparr>))
            | _ \<Rightarrow> Inl st1)"
  using assms by (auto simp: aarhus_page_def Let_def split: sum.split option.split)

section \<open>Properties of the walker\<close>

text \<open>
  C6: Records are never dropped or reordered once accumulated: whatever stops the
  crawl (no next link, the cycle guard, a failed fetch, an exception on a page), the
  records gathered before are a prefix of the records returned.
\<close>

theorem aarhus_crawl_prefix:
  "aarhus_crawl n site d st = Some st' \<Longrightarrow> prefix (all_staff_data st) (all_staff_data st')"
proof (induction n arbitrary: st)
  case 0
  then show ?case by simp
next
  case (Suc n)
  let ?st0 = "st\<lparr>effects := effects st @ [Fetch (current_url st)]\<rparr>"
  consider (no_url) "current_url st = []"
    | (failed) "current_url st \<noteq> []" "site (current_url st) = None"
    | (page) doc where "current_url st \<noteq> []" "site (current_url st) = Some doc"
    by auto
  then show ?case
  proof cases
    case no_url
    with Suc.prems show ?thesis by (simp add: aarhus_crawl_no_url)
  next
    case failed
    with Suc.prems show ?thesis by (auto simp: aarhus_crawl_fetch_failed)
  next
    case page
    show ?thesis
      using Suc.prems aarhus_crawl_page [where site = site and doc = doc, OF page]
        aarhus_page_prefix [where d = d and doc = doc and st = ?st0] Suc.IH
      by (auto split: sum.splits intro: prefix_order.trans)
  qed
qed

text \<open>
  C3: When the \<open>Next\<close> link of a fetched page resolves to the URL just
  fetched, the walker stops after that page, with that page's records, whatever fuel is
  left.
\<close>

theorem aarhus_crawl_cycle_guard:
  assumes "current_url st \<noteq> []" and "site (current_url st) = Some doc"
    and "process_containers d doc (person_lists doc)
           (st\<lparr>effects := effects st @ [Fetch (current_url st)]\<rparr>) = Normal st1"
    and "find_next_link (browse_boxes doc) = Inr (Some l)" and "l \<noteq> []"
    and "resolve_next l = current_url st"
  shows "aarhus_crawl (Suc n) site d st = Some st1"
  using assms(4-6)
  by (simp add: aarhus_crawl_page [where site = site and doc = doc, OF assms(1,2)]
      aarhus_page_Normal [OF assms(3)])

text \<open>
  C4: The walker returns when every \<open>Next\<close> link that leads elsewhere lowers
  some measure of the URL (as on any site whose pages are numbered in order): fuel above
  the measure of the start URL suffices.
\<close>

theorem aarhus_crawl_terminates:
  assumes dec: "\<forall>u doc l. site u = Some doc \<longrightarrow> find_next_link (browse_boxes doc) = Inr (Some l) \<longrightarrow>
                  l \<noteq> [] \<longrightarrow> resolve_next l \<noteq> u \<longrightarrow> m (resolve_next l) < m u"
    and fuel: "m (current_url st) < n"
  shows "\<exists>st'. aarhus_crawl n site d st = Some st'"
  using fuel
proof (induction n arbitrary: st)
  case 0
  then show ?case by simp
next
  case (Suc n)
  let ?st0 = "st\<lparr>effects := effects st @ [Fetch (current_url st)]\<rparr>"
  consider (no_url) "current_url st = []"
    | (failed) "current_url st \<noteq> []" "site (current_url st) = None"
    | (page) doc where "current_url st \<noteq> []" "site (current_url st) = Some doc"
    by auto
  then show ?case
  proof cases
    case no_url
    then show ?thesis by (simp add: aarhus_crawl_no_url)
  next
    case failed
    then show ?thesis by (simp add: aarhus_crawl_fetch_failed)
  next
    case page
    show ?thesis
    proof (cases "aarhus_page d doc ?st0")
      case (Inl st1)
      then show ?thesis by (simp add: aarhus_crawl_page [where site = site and doc = doc, OF page])
    next
      case (Inr st1)
      then obtain l where l: "find_next_link (browse_boxes doc) = Inr (Some l)" "l \<noteq> []"
          "resolve_next l \<noteq> current_url st" "current_url st1 = resolve_next l"
        using aarhus_page_Inr by fastforce
      with dec page have "m (current_url st1) < m (current_url st)"
        by auto
      with Suc.prems have "m (current_url st1) < n" by simp
      then obtain st' where "aarhus_crawl n site d st1 = Some st'"
        using Suc.IH by blast
      with Inr show ?thesis by (simp add: aarhus_crawl_page [where site = site and doc = doc, OF page])
    qed
  qed
qed

section \<open>Categories\<close>

text \<open>
  The reference for categories: one left-to-right pass over the page in document order,
  carrying the current category, which every header sets (to its \<open>h2\<close> text, or
  \<open>Unknown\<close> without one) and every container takes.
\<close>

fun scan_categories :: "string \<Rightarrow> node list \<Rightarrow> string list" where
  "scan_categories cur [] = []"
| "scan_categories cur (n # ns) =
     (if is_person_list n then [cur] else []) @
     scan_categories (if is_header n then header_category n else cur) ns"

definition category_after :: "node list \<Rightarrow> string" where
  "category_after p = (case find is_header (rev p) of None \<Rightarrow> ''Unknown'' | Some h \<Rightarrow> header_category h)"

lemma category_after_snoc:
  "category_after (p @ [x]) = (if is_header x then header_category x else category_after p)"
  by (simp add: category_after_def)

lemma container_category_prefix: "container_category doc i = category_after (take i (descendants doc))"
  by (simp add: container_category_def category_after_def find_previous_def)

lemma scan_categories_prefix:
  "map (\<lambda>(i, c). category_after (take i (p @ xs))) (filter (\<lambda>(i, n). is_person_list n) (enumerate (length p) xs)) =
     scan_categories (category_after p) xs"
proof (induction xs arbitrary: p)
  case Nil
  then show ?case by simp
next
  case (Cons x xs)
  have "map (\<lambda>(i, c). category_after (take i ((p @ [x]) @ xs)))
          (filter (\<lambda>(i, n). is_person_list n) (enumerate (length (p @ [x])) xs)) =
        scan_categories (category_after (p @ [x])) xs"
    by (rule Cons.IH)
  then show ?case
    by (simp add: category_after_snoc)
qed

text \<open>
  C9: The backward search of the code (\<open>find_previous\<close> from each
  container) gives the same categories, container by container, as the single forward
  pass: the nearest preceding header decides, and a page without one gives \<open>Unknown\<close>.
\<close>

theorem container_categories_scan:
  "map (\<lambda>(i, c). container_category doc i) (person_lists doc) =
     scan_categories ''Unknown'' (descendants doc)"
  using scan_categories_prefix [of "[]" "descendants doc"]
  by (simp add: person_lists_def find_all_pos_def container_category_prefix category_after_def)

text \<open>
  C10: Every row a container adds carries the container's category, whether
  the loop over its rows ends normally or raises.
\<close>

theorem process_rows_category:
  "\<forall>r\<in>set (drop (length (all_staff_data st)) (all_staff_data (outcome_state (process_rows d c rows st)))).
     r_category r = c"
proof -
  let ?R = "\<lambda>s t. prefix (all_staff_data s) (all_staff_data t) \<and>
              (\<forall>r\<in>set (drop (length (all_staff_data s)) (all_staff_data t)). r_category r = c)"
  have "?R st (outcome_state (process_rows d c rows st))"
  proof (rule process_rows_rel)
    fix a b e
    assume ab: "?R a b" and be: "?R b e"
    then obtain u v where "all_staff_data b = all_staff_data a @ u" "all_staff_data e = all_staff_data b @ v"
      by (auto elim!: prefixE)
    with ab be show "?R a e" by auto
  qed (auto simp: mk_row_def)
  then show ?thesis by blast
qed

section \<open>Malformed rows\<close>

lemma extract_row_short:
  assumes "cols \<noteq> []" and "length cols < 6"
  shows "\<exists>e. extract_row cols = Inl e"
proof -
  have "0 < length cols" using assms(1) by simp
  then have "length cols = 1 \<or> length cols = 2 \<or> length cols = 3 \<or> length cols = 4 \<or> length cols = 5"
    using assms(2) by arith
  then show ?thesis
    by (auto simp: extract_row_def ebind_def split: sum.split)
qed

text \<open>
  C8: A row with between one and five cells does not get skipped: reading its
  cells raises (\<open>IndexError\<close>, or \<open>KeyError\<close> for a name anchor without \<open>href\<close>),
  and the row loop stops with the state it had before the row: the records gathered so
  far, and none of the rows after it.
\<close>

theorem process_rows_short_row:
  assumes "find_all (is_tag ''td'') (children row) \<noteq> []"
    and "length (find_all (is_tag ''td'') (children row)) < 6"
  shows "\<exists>e. process_rows d c (row # rows) st = Raised e st"
  using extract_row_short [OF assms] assms(1) by (auto simp: Let_def)

theorem process_rows_short_row_witness:
  "\<exists>e. process_rows (\<lambda>_. ''male'') ''Faculty''
         [Elem ''tr'' [] [Elem ''td'' [] [Text ''Doe, Jane''], Elem ''td'' [] [Text ''Professor'']]]
         aarhus_init = Raised e aarhus_init"
  by (rule process_rows_short_row) (simp_all add: find_all_def)

section \<open>A container's rows against the deduplicator\<close>

text \<open>The rows that have cells, read; the first failure ends the reading.\<close>

fun extract_all :: "node list \<Rightarrow> raw_row list result" where
  "extract_all [] = Inr []"
| "extract_all (row # rows) =
     (let cols = find_all (is_tag ''td'') (children row) in
      if cols = [] then extract_all rows
      else ebind (extract_row cols) (\<lambda>r. ebind (extract_all rows) (\<lambda>rs. Inr (r # rs))))"

text \<open>
  C2: When every row of a container can be read and every name has a gender
  (\<open>gf\<close>), the loop over the rows is the deduplicator applied to the read rows, with
  identity \<open>email or name\<close>: the kept rows are appended in order and their identities
  recorded.
\<close>

theorem process_rows_dedup:
  assumes "extract_all rows = Inr raws"
    and "\<forall>r\<in>set raws. aarhus_get_gender d (rr_name r) = Inr (gf r)"
  shows "process_rows d c rows st =
           Normal (st\<lparr>seen_ids := snd (dedup_run rr_uid (seen_ids st) raws),
                      all_staff_data := all_staff_data st @
                        map (\<lambda>r. mk_row c (gf r) r) (fst (dedup_run rr_uid (seen_ids st) raws))\<rparr>)"
  using assms
proof (induction rows arbitrary: raws st)
  case Nil
  then show ?case by simp
next
  case (Cons row rows)
  let ?cols = "find_all (is_tag ''td'') (children row)"
  show ?case
  proof (cases "?cols = []")
    case True
    with Cons show ?thesis by simp
  next
    case False
    with Cons.prems(1) obtain r rs where r: "extract_row ?cols = Inr r"
      and rs: "extract_all rows = Inr rs" and raws: "raws = r # rs"
      by (auto simp: Let_def ebind_eq_Inr)
    show ?thesis
    proof (cases "rr_uid r \<in> seen_ids st")
      case True
      with False r raws Cons.IH [OF rs] Cons.prems(2) show ?thesis by simp
    next
      case new: False
      have g: "aarhus_get_gender d (rr_name r) = Inr (gf r)"
        using Cons.prems(2) raws by simp
      with False r raws new Cons.IH [OF rs] Cons.prems(2) show ?thesis by simp
    qed
  qed
qed

end
