(* ===== verification/AarhusRuns.thy ===== *)
theory AarhusRuns
  imports Aarhus
begin

text \<open>
  Whole runs of the Aarhus walker on small directories written in the site's markup:
  the end-to-end scenario, the cycle guard, a pair of pages that link to each other (on
  which the walker never stops), and the witnesses of the walker's theorems.
\<close>


section \<open>Test directories\<close>

text \<open>
  Small pages in the markup the scraper expects, for the witnesses: a header and a
  person container with its table, rows of six cells, and a browse box with a
  \<open>Next\<close> anchor.
\<close>

definition td :: "string \<Rightarrow> node" where
  "td s = Elem ''td'' [] [Text s]"

definition staff_tr :: "string \<Rightarrow> string \<Rightarrow> node" where
  "staff_tr nm em = Elem ''tr'' [] [td nm, td ''Professor'', td em, td ''8715 0000'', td [], td ''Nygaard'']"

definition section_nodes :: "string \<Rightarrow> node list \<Rightarrow> node list" where
  "section_nodes h rows =
     [Elem ''div'' [(''class'', ''csc-header'')] [Elem ''h2'' [] [Text h]],
      Elem ''div'' [(''class'', ''pure5-persons'')]
        [Elem ''table'' [(''class'', ''pure-persons-table'')] rows]]"

definition next_box :: "string \<Rightarrow> node" where
  "next_box l = Elem ''div'' [(''class'', ''tx-pure-pure5-browsebox'')] [Elem ''a'' [(''href'', l)] [Text ''Next'']]"

definition page2_url :: url where
  "page2_url = ''https://cs.au.dk/contact/people?page=2''"

text \<open>Two pages; the third row of page 1 and the first of page 2 share an email.\<close>

definition two_page_site :: site where
  "two_page_site u =
     (if u = start_url then
        Some (section_nodes ''Faculty''
                [staff_tr ''Doe, Jane'' ''jd@cs.au.dk'', staff_tr ''Roe, Rick'' ''rr@cs.au.dk'',
                 staff_tr ''Poe, Ann'' ''ap@cs.au.dk'']
              @ [next_box ''/contact/people?page=2''])
      else if u = page2_url then
        Some (section_nodes ''Staff''
                [staff_tr ''Poe, Anna'' ''ap@cs.au.dk'', staff_tr ''Moe, Max'' ''mm@cs.au.dk''])
      else None)"

text \<open>One page whose \<open>Next\<close> link points back at itself.\<close>

definition self_site :: site where
  "self_site u =
     (if u = start_url then
        Some (section_nodes ''Faculty'' [staff_tr ''Doe, Jane'' ''jd@cs.au.dk'']
              @ [next_box ''/contact/people''])
      else None)"

text \<open>Two pages whose \<open>Next\<close> links point at each other.\<close>

definition cycle_site :: site where
  "cycle_site u =
     (if u = start_url then Some [next_box ''/contact/people?page=2'']
      else if u = page2_url then Some [next_box ''/contact/people'']
      else None)"


text \<open>A detector for the closed examples.\<close>

definition test_detector :: detector where
  "test_detector n = (if n = ''Jane'' then ''female'' else ''male'')"

section \<open>Whole crawls\<close>

lemma next_box_page:
  "person_lists [next_box l] = []" "browse_boxes [next_box l] = [next_box l]"
  "find_next_link [next_box l] = Inr (Some l)"
  by (simp_all add: person_lists_def find_all_pos_def browse_boxes_def find_all_def next_box_def
      is_person_list_def tag_class_def has_class_def split_ws_def is_ws_def ws_codes_def
      find_first_def is_next_anchor_def attr_req_def)

lemma resolve_test_links:
  "resolve_next ''/contact/people?page=2'' = page2_url" "resolve_next ''/contact/people'' = start_url"
  "start_url \<noteq> page2_url" "page2_url \<noteq> start_url"
  by code_simp+

lemma aarhus_page_next_box:
  "aarhus_page d [next_box l] st =
     (if l = [] \<or> resolve_next l = current_url st then Inl st
      else Inr (st\<lparr>current_url := resolve_next l, page_count := page_count st + 1,
                   effects := effects st @ [Sleep 1000]\<rparr>))"
proof -
  have "process_containers d [next_box l] (person_lists [next_box l]) st = Normal st"
    by (simp add: next_box_page)
  then show ?thesis
    by (simp add: aarhus_page_Normal next_box_page del: find_next_link.simps)
qed

lemma cycle_site_diverges:
  "current_url st = start_url \<or> current_url st = page2_url \<Longrightarrow> aarhus_crawl n cycle_site d st = None"
proof (induction n arbitrary: st)
  case 0
  then show ?case by simp
next
  case (Suc n)
  have ne: "current_url st \<noteq> []" using Suc.prems by (auto simp: start_url_def page2_url_def)
  from Suc.prems show ?case
  proof
    assume u: "current_url st = start_url"
    then have "cycle_site (current_url st) = Some [next_box ''/contact/people?page=2'']"
      by (simp add: cycle_site_def)
    with ne u Suc.IH show ?thesis
      by (simp add: aarhus_crawl_page aarhus_page_next_box resolve_test_links)
  next
    assume u: "current_url st = page2_url"
    then have "cycle_site (current_url st) = Some [next_box ''/contact/people'']"
      using resolve_test_links(3) by (simp add: cycle_site_def)
    with ne u Suc.IH show ?thesis
      using resolve_test_links(3) by (simp add: aarhus_crawl_page aarhus_page_next_box resolve_test_links)
  qed
qed

text \<open>
  C5: The cycle guard compares the next link with the page just fetched only:
  on two pages that link to each other the walker never stops, whatever the fuel.
\<close>

theorem aarhus_crawl_two_cycle: "aarhus_crawl n cycle_site d aarhus_init = None"
  by (rule cycle_site_diverges) (simp add: aarhus_init_def)

text \<open>
  The two-page directory, for any detector: four records in page-then-row
  order, the page-2 row with the duplicate email dropped, each with its page's
  category; two fetches with the one-second pause between them.
\<close>

theorem aarhus_two_pages:
  "map_option (\<lambda>st. (map (\<lambda>r. (r_category r, r_name r, r_email r)) (all_staff_data st), effects st))
     (aarhus_crawl 3 two_page_site d aarhus_init) =
   Some ([(''Faculty'', ''Doe, Jane'', ''jd@cs.au.dk''), (''Faculty'', ''Roe, Rick'', ''rr@cs.au.dk''),
          (''Faculty'', ''Poe, Ann'', ''ap@cs.au.dk''), (''Staff'', ''Moe, Max'', ''mm@cs.au.dk'')],
         [Fetch start_url, Sleep 1000, Fetch page2_url])"
  by code_simp

lemma two_page_site_returns: "aarhus_crawl 3 two_page_site d aarhus_init \<noteq> None"
  by code_simp


text \<open>
  C1: From the start state, every crawl that returns keeps at most one record
  per identity (email, or name when the email is empty).
\<close>

theorem aarhus_crawl_unique_ids:
  assumes "aarhus_crawl n site d aarhus_init = Some st"
  shows "distinct (map row_uid (all_staff_data st))"
  using aarhus_crawl_uid_inv [OF uid_inv_init assms] by (simp add: uid_inv_def)

theorem aarhus_crawl_unique_ids_witness:
  "\<exists>st. aarhus_crawl 3 two_page_site test_detector aarhus_init = Some st \<and>
        distinct (map row_uid (all_staff_data st))"
proof -
  obtain st where st: "aarhus_crawl 3 two_page_site test_detector aarhus_init = Some st"
    using two_page_site_returns by blast
  then show ?thesis using aarhus_crawl_unique_ids [OF st] by blast
qed

lemma two_page_recrawl:
  "aarhus_crawl 3 two_page_site test_detector (the (aarhus_crawl 3 two_page_site test_detector aarhus_init)) \<noteq> None \<and> all_staff_data (the (aarhus_crawl 3 two_page_site test_detector aarhus_init)) \<noteq> []"
  by code_simp

theorem aarhus_crawl_prefix_witness:
  "\<exists>st. aarhus_crawl 3 two_page_site test_detector (the (aarhus_crawl 3 two_page_site test_detector aarhus_init)) = Some st \<and>
        all_staff_data (the (aarhus_crawl 3 two_page_site test_detector aarhus_init)) \<noteq> [] \<and>
        prefix (all_staff_data (the (aarhus_crawl 3 two_page_site test_detector aarhus_init))) (all_staff_data st)"
proof -
  obtain st where st: "aarhus_crawl 3 two_page_site test_detector (the (aarhus_crawl 3 two_page_site test_detector aarhus_init)) = Some st"
    using two_page_recrawl by blast
  then show ?thesis using aarhus_crawl_prefix [OF st] two_page_recrawl by blast
qed

lemma self_site_page:
  "\<exists>st1. process_containers test_detector (the (self_site start_url)) (person_lists (the (self_site start_url)))
           (aarhus_init\<lparr>effects := effects aarhus_init @ [Fetch (current_url aarhus_init)]\<rparr>) = Normal st1"
proof -
  have "case process_containers test_detector (the (self_site start_url)) (person_lists (the (self_site start_url)))
           (aarhus_init\<lparr>effects := effects aarhus_init @ [Fetch (current_url aarhus_init)]\<rparr>) of
          Normal st1 \<Rightarrow> True | Raised e st1 \<Rightarrow> False"
    by code_simp
  then show ?thesis by (auto split: outcome.splits)
qed

theorem aarhus_crawl_cycle_guard_witness:
  "\<exists>st1. aarhus_crawl (Suc 0) self_site test_detector aarhus_init = Some st1 \<and>
     process_containers test_detector (the (self_site start_url)) (person_lists (the (self_site start_url)))
       (aarhus_init\<lparr>effects := effects aarhus_init @ [Fetch (current_url aarhus_init)]\<rparr>) = Normal st1"
proof -
  obtain st1 where pc: "process_containers test_detector (the (self_site start_url)) (person_lists (the (self_site start_url)))
       (aarhus_init\<lparr>effects := effects aarhus_init @ [Fetch (current_url aarhus_init)]\<rparr>) = Normal st1"
    using self_site_page by blast
  have u: "current_url aarhus_init = start_url" "current_url aarhus_init \<noteq> []"
    by (simp_all add: aarhus_init_def start_url_def)
  have doc: "self_site (current_url aarhus_init) = Some (the (self_site start_url))"
    by (simp add: u self_site_def)
  have nl: "find_next_link (browse_boxes (the (self_site start_url))) = Inr (Some ''/contact/people'')"
    by code_simp
  have "aarhus_crawl (Suc 0) self_site test_detector aarhus_init = Some st1"
    by (rule aarhus_crawl_cycle_guard [where site = self_site, OF u(2) doc pc nl])
      (simp_all add: u resolve_test_links)
  with pc show ?thesis by blast
qed

lemma two_page_site_links:
  "two_page_site u = Some doc \<Longrightarrow> find_next_link (browse_boxes doc) = Inr (Some l) \<Longrightarrow>
     u = start_url \<and> resolve_next l = page2_url"
proof -
  assume s: "two_page_site u = Some doc" and l: "find_next_link (browse_boxes doc) = Inr (Some l)"
  have n2: "find_next_link (browse_boxes (the (two_page_site page2_url))) = Inr None"
    by code_simp
  have n1: "find_next_link (browse_boxes (the (two_page_site start_url))) =
              Inr (Some ''/contact/people?page=2'')"
    by code_simp
  consider "u = start_url" | "u = page2_url" | "u \<noteq> start_url" "u \<noteq> page2_url" by blast
  then show ?thesis
  proof cases
    case 1
    with s l n1 show ?thesis by (simp add: resolve_test_links)
  next
    case 2
    with s l n2 show ?thesis by simp
  next
    case 3
    with s show ?thesis by (simp add: two_page_site_def)
  qed
qed

theorem aarhus_crawl_terminates_witness:
  "\<exists>st'. aarhus_crawl 2 two_page_site test_detector aarhus_init = Some st'"
proof (rule aarhus_crawl_terminates [where m = "\<lambda>u. if u = start_url then 1 else 0"])
  show "\<forall>u doc l. two_page_site u = Some doc \<longrightarrow> find_next_link (browse_boxes doc) = Inr (Some l) \<longrightarrow>
          l \<noteq> [] \<longrightarrow> resolve_next l \<noteq> u \<longrightarrow>
          (if resolve_next l = start_url then 1 else 0) < (if u = start_url then 1 else (0::nat))"
    using two_page_site_links resolve_test_links(4) by fastforce
  show "(if current_url aarhus_init = start_url then 1 else 0) < (2::nat)"
    by simp
qed

theorem process_rows_category_witness:
  "map r_category (drop (length (all_staff_data aarhus_init))
     (all_staff_data (outcome_state (process_rows test_detector ''Faculty'' [staff_tr ''Doe, Jane'' ''jd@cs.au.dk''] aarhus_init))))
   = [''Faculty'']"
proof -
  let ?L = "drop (length (all_staff_data aarhus_init))
     (all_staff_data (outcome_state (process_rows test_detector ''Faculty'' [staff_tr ''Doe, Jane'' ''jd@cs.au.dk''] aarhus_init)))"
  have len: "length ?L = 1" by code_simp
  have "\<exists>r. xs = [r]" if "length xs = 1" for xs :: "staff_row list"
    using that by (cases xs) auto
  then obtain r where L: "?L = [r]" using len by blast
  have "\<forall>r\<in>set ?L. r_category r = ''Faculty''" by (rule process_rows_category)
  with L show ?thesis by simp
qed

lemma dup_rows_extract:
  "case extract_all [staff_tr ''Poe, Ann'' ''ap@cs.au.dk'', staff_tr ''Poe, Anna'' ''ap@cs.au.dk''] of
     Inl e \<Rightarrow> False
   | Inr raws \<Rightarrow> (\<forall>r\<in>set raws. aarhus_get_gender (\<lambda>_. ''female'') (rr_name r) = Inr ''Female'')"
  by code_simp

theorem process_rows_dedup_witness:
  "\<exists>raws. extract_all [staff_tr ''Poe, Ann'' ''ap@cs.au.dk'', staff_tr ''Poe, Anna'' ''ap@cs.au.dk''] = Inr raws \<and>
     list_all (\<lambda>r. aarhus_get_gender (\<lambda>_. ''female'') (rr_name r) = Inr ''Female'') raws \<and>
     process_rows (\<lambda>_. ''female'') ''Staff''
       [staff_tr ''Poe, Ann'' ''ap@cs.au.dk'', staff_tr ''Poe, Anna'' ''ap@cs.au.dk''] aarhus_init =
     Normal (aarhus_init\<lparr>seen_ids := snd (dedup_run rr_uid (seen_ids aarhus_init) raws),
                all_staff_data := all_staff_data aarhus_init @
                  map (\<lambda>r. mk_row ''Staff'' ''Female'' r) (fst (dedup_run rr_uid (seen_ids aarhus_init) raws))\<rparr>)"
proof -
  obtain raws where e: "extract_all [staff_tr ''Poe, Ann'' ''ap@cs.au.dk'', staff_tr ''Poe, Anna'' ''ap@cs.au.dk''] = Inr raws"
    and g: "list_all (\<lambda>r. aarhus_get_gender (\<lambda>_. ''female'') (rr_name r) = Inr ''Female'') raws"
  proof (cases "extract_all [staff_tr ''Poe, Ann'' ''ap@cs.au.dk'', staff_tr ''Poe, Anna'' ''ap@cs.au.dk'']")
    case (Inl e)
    with dup_rows_extract show ?thesis by (simp only: sum.case)
  next
    case (Inr raws)
    have "list_all (\<lambda>r. aarhus_get_gender (\<lambda>_. ''female'') (rr_name r) = Inr ''Female'') raws"
      using dup_rows_extract unfolding Inr sum.case by (simp only: list_all_iff)
    with Inr show ?thesis by (rule that)
  qed
  show ?thesis
    using e g process_rows_dedup [OF e, where gf = "\<lambda>_. ''Female''" and d = "\<lambda>_. ''female''"]
    by (simp add: list_all_iff)
qed

end
