(* ===== verification/Walker.thy ===== *)
theory Walker
  imports AarhusRuns
begin

text \<open>
  The \<open>while current_url\<close> loop of \<open>scrape_aarhus\<close> (\<open>src/aarhus_scraper.py\<close>, lines
  48--127) as a state machine: the walker is running on a state or has stopped with one,
  and \<open>walk_step\<close> is one iteration of the loop (the loop test, the fetch, the page,
  and the \<open>break\<close>s or the move to the next page). The fuelled function
  \<open>aarhus_crawl\<close> of \<open>Aarhus\<close> computes this relation: with fuel \<open>n\<close> it returns
  exactly the states the walker stops with in at most \<open>n\<close> iterations, so more fuel
  never changes the result, and the invariants of the crawl hold of every state the
  walker passes through, by rule induction.
\<close>

datatype walker = Running aarhus_state | Stopped aarhus_state

primrec walker_state :: "walker \<Rightarrow> aarhus_state" where
  "walker_state (Running st) = st"
| "walker_state (Stopped st) = st"

text \<open>\<open>requests.get(current_url)\<close> recorded in the trace.\<close>

definition fetched :: "aarhus_state \<Rightarrow> aarhus_state" where
  "fetched st = st\<lparr>effects := effects st @ [Fetch (current_url st)]\<rparr>"

inductive walk_step :: "site \<Rightarrow> detector \<Rightarrow> walker \<Rightarrow> walker \<Rightarrow> bool" for site d where
  walk_done: "current_url st = [] \<Longrightarrow> walk_step site d (Running st) (Stopped st)"
| walk_failed: "current_url st \<noteq> [] \<Longrightarrow> site (current_url st) = None \<Longrightarrow>
    walk_step site d (Running st) (Stopped (fetched st))"
| walk_last: "current_url st \<noteq> [] \<Longrightarrow> site (current_url st) = Some doc \<Longrightarrow>
    aarhus_page d doc (fetched st) = Inl st' \<Longrightarrow> walk_step site d (Running st) (Stopped st')"
| walk_next: "current_url st \<noteq> [] \<Longrightarrow> site (current_url st) = Some doc \<Longrightarrow>
    aarhus_page d doc (fetched st) = Inr st' \<Longrightarrow> walk_step site d (Running st) (Running st')"

code_pred walk_step .

inductive_cases walk_step_RunningE: "walk_step site d (Running st) w"
inductive_cases walk_step_StoppedE [elim!]: "walk_step site d (Stopped st) w"

section \<open>Lemmas\<close>

lemma walk_step_progress: "\<exists>w. walk_step site d (Running st) w"
proof (cases "current_url st = []")
  case True
  then show ?thesis by (blast intro: walk_done)
next
  case False
  then show ?thesis
    by (cases "site (current_url st)"; cases "aarhus_page d (the (site (current_url st))) (fetched st)")
       (auto intro: walk_step.intros)
qed

lemma walk_step_deterministic: "walk_step site d w w1 \<Longrightarrow> walk_step site d w w2 \<Longrightarrow> w1 = w2"
  by (induction rule: walk_step.induct) (auto elim: walk_step_RunningE)

lemma aarhus_crawl_step:
  assumes "walk_step site d (Running st) w"
  shows "aarhus_crawl (Suc n) site d st =
           (case w of Stopped st' \<Rightarrow> Some st' | Running st' \<Rightarrow> aarhus_crawl n site d st')"
  using assms
proof (cases rule: walk_step.cases)
  case walk_done
  then show ?thesis by (simp add: aarhus_crawl_no_url)
next
  case walk_failed
  then show ?thesis by (simp add: aarhus_crawl_fetch_failed fetched_def)
next
  case (walk_last doc st')
  then show ?thesis by (simp add: aarhus_crawl_page [where doc = doc] fetched_def)
next
  case (walk_next doc st')
  then show ?thesis by (simp add: aarhus_crawl_page [where doc = doc] fetched_def)
qed

lemma walk_stopped_power: "(walk_step site d ^^ k) (Stopped st) w \<Longrightarrow> w = Stopped st"
proof (induction k arbitrary: w)
  case 0
  then show ?case by simp
next
  case (Suc k)
  then show ?case by (auto elim: relpowp_Suc_E)
qed

lemma aarhus_crawl_walk_sound:
  "aarhus_crawl n site d st = Some st' \<Longrightarrow> \<exists>k\<le>n. (walk_step site d ^^ k) (Running st) (Stopped st')"
proof (induction n arbitrary: st)
  case 0
  then show ?case by simp
next
  case (Suc n)
  obtain w where w: "walk_step site d (Running st) w" using walk_step_progress by blast
  show ?case
  proof (cases w)
    case (Running st1)
    then have "aarhus_crawl n site d st1 = Some st'" using Suc.prems aarhus_crawl_step [OF w] by simp
    then obtain k where k: "k \<le> n" "(walk_step site d ^^ k) (Running st1) (Stopped st')" using Suc.IH by blast
    have "(walk_step site d ^^ Suc k) (Running st) (Stopped st')"
      using w Running k(2) by (blast intro: relpowp_Suc_I2)
    then show ?thesis using k(1) by (intro exI [of _ "Suc k"]) simp
  next
    case (Stopped st1)
    then have "st1 = st'" using Suc.prems aarhus_crawl_step [OF w] by simp
    then show ?thesis using w Stopped by (intro exI [of _ 1]) (simp add: relcompp_apply)
  qed
qed

lemma aarhus_crawl_walk_complete:
  "(walk_step site d ^^ k) (Running st) (Stopped st') \<Longrightarrow> k \<le> n \<Longrightarrow> aarhus_crawl n site d st = Some st'"
proof (induction k arbitrary: st n)
  case 0
  then show ?case by simp
next
  case (Suc k)
  obtain w where w: "walk_step site d (Running st) w" "(walk_step site d ^^ k) w (Stopped st')"
    using relpowp_Suc_D2 [OF Suc.prems(1)] by blast
  obtain m where n: "n = Suc m" "k \<le> m" using Suc.prems(2) by (cases n) auto
  show ?case
  proof (cases w)
    case (Running st1)
    then show ?thesis using w n Suc.IH by (simp add: aarhus_crawl_step [OF w(1)])
  next
    case (Stopped st1)
    then show ?thesis using w n walk_stopped_power by (fastforce simp: aarhus_crawl_step [OF w(1)])
  qed
qed

lemma aarhus_crawl_mono:
  "aarhus_crawl n site d st = Some st' \<Longrightarrow> n \<le> m \<Longrightarrow> aarhus_crawl m site d st = Some st'"
  by (metis aarhus_crawl_walk_sound aarhus_crawl_walk_complete order_trans)

lemma walk_step_pres:
  assumes rows: "\<And>c rows s. P s \<Longrightarrow> P (outcome_state (process_rows d c rows s))"
    and frame: "\<And>s s'. P s \<Longrightarrow> all_staff_data s' = all_staff_data s \<Longrightarrow> seen_ids s' = seen_ids s \<Longrightarrow> P s'"
  shows "walk_step site d w w' \<Longrightarrow> P (walker_state w) \<Longrightarrow> P (walker_state w')"
proof (induction rule: walk_step.induct)
  case (walk_done st)
  then show ?case by simp
next
  case (walk_failed st)
  then show ?case unfolding fetched_def by (auto intro: frame)
next
  case (walk_last st doc st')
  have "P (fetched st)" using walk_last.prems unfolding fetched_def by (auto intro: frame)
  with rows frame have "case aarhus_page d doc (fetched st) of Inl s \<Rightarrow> P s | Inr s \<Rightarrow> P s"
    by (rule aarhus_page_pres)
  with walk_last.hyps(3) show ?case by simp
next
  case (walk_next st doc st')
  have "P (fetched st)" using walk_next.prems unfolding fetched_def by (auto intro: frame)
  with rows frame have "case aarhus_page d doc (fetched st) of Inl s \<Rightarrow> P s | Inr s \<Rightarrow> P s"
    by (rule aarhus_page_pres)
  with walk_next.hyps(3) show ?case by simp
qed

lemma two_page_site_walks:
  "\<exists>st. aarhus_crawl 3 two_page_site test_detector aarhus_init = Some st"
  using two_page_site_returns by blast

section \<open>Properties of the walker\<close>

text \<open>
  The fuelled crawl computes the loop: with fuel \<open>n\<close> it returns a state exactly
  when the walker, started on the same state, stops with it after at most \<open>n\<close>
  iterations. Fuel only bounds the number of pages; more fuel never changes the result.
\<close>

theorem aarhus_crawl_walk:
  "aarhus_crawl n site d st = Some st' \<longleftrightarrow> (\<exists>k\<le>n. (walk_step site d ^^ k) (Running st) (Stopped st'))"
  using aarhus_crawl_walk_sound aarhus_crawl_walk_complete by blast

theorem aarhus_crawl_walk_witness:
  "\<exists>st. aarhus_crawl 3 two_page_site test_detector aarhus_init = Some st \<and>
     (\<exists>k\<le>3. (walk_step two_page_site test_detector ^^ k) (Running aarhus_init) (Stopped st))"
proof -
  obtain st where st: "aarhus_crawl 3 two_page_site test_detector aarhus_init = Some st"
    using two_page_site_walks by blast
  then show ?thesis using aarhus_crawl_walk [of 3 two_page_site test_detector aarhus_init st] by blast
qed

text \<open>
  C7: Identities are unique in every state the walker reaches from the start, whether
  it is still running (between two pages) or has stopped, by rule induction on the
  steps of the loop.
\<close>

theorem walk_reachable_unique:
  assumes "(walk_step site d)\<^sup>*\<^sup>* (Running aarhus_init) w"
  shows "distinct (map row_uid (all_staff_data (walker_state w)))"
proof -
  have "uid_inv (walker_state w)"
    using assms
  proof (induction rule: rtranclp_induct)
    case base
    then show ?case by (simp add: uid_inv_init)
  next
    case (step w1 w2)
    show ?case
      by (rule walk_step_pres [where P = uid_inv, OF _ _ step.hyps(2) step.IH])
        (blast intro: process_rows_uid_inv uid_inv_same)+
  qed
  then show ?thesis by (simp add: uid_inv_def)
qed

theorem walk_reachable_unique_witness:
  "\<exists>st. (walk_step two_page_site test_detector)\<^sup>*\<^sup>* (Running aarhus_init) (Stopped st) \<and>
     distinct (map row_uid (all_staff_data st))"
proof -
  obtain st where "aarhus_crawl 3 two_page_site test_detector aarhus_init = Some st"
    using two_page_site_walks by blast
  then obtain k where "(walk_step two_page_site test_detector ^^ k) (Running aarhus_init) (Stopped st)"
    using aarhus_crawl_walk_sound by blast
  then have r: "(walk_step two_page_site test_detector)\<^sup>*\<^sup>* (Running aarhus_init) (Stopped st)"
    by (rule relpowp_imp_rtranclp)
  have "distinct (map row_uid (all_staff_data (walker_state (Stopped st))))"
    using walk_reachable_unique [OF r] .
  with r show ?thesis by auto
qed

end
