(* ===== verification/Frame.thy ===== *)
theory Frame
  imports Prelude "HOL-Library.Multiset"
begin

text \<open>
  The part of pandas both chart scripts use (\<open>src/pisa_visualizer.py\<close>,
  \<open>src/aarhus_visualizer.py\<close>): \<open>pd.read_csv\<close> on a file whose first line is the
  header, column access \<open>df[name]\<close> and \<open>value_counts()\<close>. A cell whose text is one of
  pandas' default missing markers (\<open>''\<close>, \<open>N/A\<close>, \<open>NA\<close>, \<open>nan\<close>, \<open>None\<close>, ...)
  is read as \<open>NaN\<close>, every other cell as its text (\<open>cell\<close>); numeric conversion of a
  column is not modelled (the scripts only count values and split rooms into words).
  \<open>value_counts\<close> counts the values of a column, leaving out \<open>NaN\<close>; the counts are a
  multiset.
\<close>

datatype cell = Str string | NaN

definition na_values :: "string list" where
  "na_values = [[], ''#N/A'', ''#N/A N/A'', ''#NA'', ''-1.#IND'', ''-1.#QNAN'', ''-NaN'', ''-nan'',
                ''1.#IND'', ''1.#QNAN'', ''<NA>'', ''N/A'', ''NA'', ''NULL'', ''NaN'', ''None'',
                ''n/a'', ''nan'', ''null'']"

definition read_cell :: "string \<Rightarrow> cell" where
  "read_cell s = (if s \<in> set na_values then NaN else Str s)"

fun col_index :: "string \<Rightarrow> string list \<Rightarrow> nat option" where
  "col_index name [] = None"
| "col_index name (h # hs) = (if h = name then Some 0 else map_option Suc (col_index name hs))"

text \<open>\<open>df[name]\<close> for a file whose first line is the header; a short line is padded with \<open>NaN\<close>.\<close>

definition column :: "string list list \<Rightarrow> string \<Rightarrow> cell list option" where
  "column csv name =
     (case csv of
        [] \<Rightarrow> None
      | header # lines \<Rightarrow>
          map_option (\<lambda>i. map (\<lambda>l. if i < length l then read_cell (l ! i) else NaN) lines)
            (col_index name header))"

text \<open>The values of a column that are not \<open>NaN\<close>, in file order.\<close>

definition present :: "cell list \<Rightarrow> string list" where
  "present cs = List.map_filter (\<lambda>c. case c of Str s \<Rightarrow> Some s | NaN \<Rightarrow> None) cs"

definition value_counts :: "cell list \<Rightarrow> string multiset" where
  "value_counts cs = mset (present cs)"

section \<open>Reading a file\<close>

lemma read_cell_NaN [simp]: "read_cell s = NaN \<longleftrightarrow> s \<in> set na_values"
  by (simp add: read_cell_def)

lemma size_value_counts: "size (value_counts cs) = length (filter (\<lambda>c. c \<noteq> NaN) cs)"
  by (induction cs) (auto simp: value_counts_def present_def List.map_filter_simps split: cell.split)

lemma present_read_cells:
  "list_all (\<lambda>s. s \<notin> set na_values) xs \<Longrightarrow> present (map read_cell xs) = xs"
  by (induction xs) (auto simp: present_def List.map_filter_simps read_cell_def)

lemma present_Nil [simp]: "present [] = []"
  by (simp add: present_def List.map_filter_simps)

lemma present_map_read_cell:
  "present (map (\<lambda>x. read_cell (f x)) xs) = filter (\<lambda>s. s \<notin> set na_values) (map f xs)"
  by (induction xs) (auto simp: present_def List.map_filter_simps read_cell_def)

lemma present_map_cell:
  "present (map (\<lambda>x. case g x of Str s \<Rightarrow> Str (f s) | NaN \<Rightarrow> NaN) xs) = map f (present (map g xs))"
  by (induction xs) (auto simp: present_def List.map_filter_simps split: cell.split)

lemma present_map_Str: "present (map (\<lambda>x. Str (f x)) xs) = map f xs"
  by (induction xs) (auto simp: present_def List.map_filter_simps)

lemma map_cell_NaN [simp]: "(case c of Str s \<Rightarrow> Str (f s) | NaN \<Rightarrow> NaN) = NaN \<longleftrightarrow> c = NaN"
  by (cases c) simp_all

lemma column_header:
  assumes "col_index name header = Some i" and "list_all (\<lambda>l. i < length l) lines"
  shows "column (header # lines) name = Some (map (\<lambda>l. read_cell (l ! i)) lines)"
  using assms by (auto simp: column_def list_all_iff)

end
