(* ===== verification/AarhusCharts.thy ===== *)
theory AarhusCharts
  imports AarhusRuns Frame
begin

text \<open>
  What happens to the Aarhus records after the crawl. \<open>scrape_aarhus\<close> writes them, only
  when there are any, with a \<open>csv.DictWriter\<close>: the header, then one line per record in
  the order of \<open>all_staff_data\<close> (\<open>aarhus_csv\<close>, lines 129--135 of
  \<open>src/aarhus_scraper.py\<close>). \<open>create_charts\<close> of \<open>src/aarhus_visualizer.py\<close> reads the
  file back (as in \<open>Frame\<close>; a missing file is reported and nothing is drawn) and draws
  four charts: the genders, the categories, and the ten most frequent job titles and
  buildings (\<open>value_counts().nlargest(10)\<close>, then the rows whose value is among them).
  pandas leaves the order of values with equal counts open; \<open>top_values\<close> keeps them in
  the order of their first appearance, and its correctness lemma holds for any choice
  among equal counts. The plotting itself is not modelled.
\<close>

section \<open>The file\<close>

definition aarhus_headers :: "string list" where
  "aarhus_headers = [''Category'', ''Name'', ''Gender'', ''Job Title'', ''Email'', ''Phone'', ''Mobile'',
                     ''Building'', ''Profile Link'']"

text \<open>\<open>writer.writerow(record)\<close>: the record's values in the order of the field names.\<close>

definition staff_line :: "staff_row \<Rightarrow> string list" where
  "staff_line r = [r_category r, r_name r, r_gender r, r_job_title r, r_email r, r_phone r, r_mobile r,
                   r_building r, r_profile_link r]"

definition aarhus_csv :: "staff_row list \<Rightarrow> string list list option" where
  "aarhus_csv rows = (if rows = [] then None else Some (aarhus_headers # map staff_line rows))"

section \<open>The charts\<close>

text \<open>\<open>value_counts().nlargest(n).index\<close> on the values of a column.\<close>

definition top_values :: "nat \<Rightarrow> string list \<Rightarrow> string list" where
  "top_values n xs = take n (sort_key (\<lambda>v. - int (count_list xs v)) (remdups xs))"

record aarhus_charts =
  gender_chart :: "string multiset"
  category_chart :: "string multiset"
  top_jobs :: "string list"
  job_chart :: "string multiset"
  top_buildings :: "string list"
  building_chart :: "string multiset"

text \<open>
  \<open>create_charts()\<close>: \<open>None\<close> when the file is missing (\<open>FileNotFoundError\<close> is caught),
  \<open>EmptyDataError\<close> when it is empty, \<open>KeyError\<close> when a column is missing.
\<close>

definition create_charts :: "string list list option \<Rightarrow> aarhus_charts result option" where
  "create_charts file =
     map_option (\<lambda>csv. if csv = [] then Inl EmptyDataError else
       (case (column csv ''Gender'', column csv ''Category'', column csv ''Job Title'', column csv ''Building'') of
          (Some gs, Some cs, Some js, Some bs) \<Rightarrow>
            (let tj = top_values 10 (present js); tb = top_values 10 (present bs) in
             Inr \<lparr>gender_chart = value_counts gs, category_chart = value_counts cs,
                  top_jobs = tj, job_chart = filter_mset (\<lambda>j. j \<in> set tj) (value_counts js),
                  top_buildings = tb, building_chart = filter_mset (\<lambda>b. b \<in> set tb) (value_counts bs)\<rparr>)
        | _ \<Rightarrow> Inl KeyError)) file"

text \<open>Every record carries one of the three labels of the Aarhus lookup.\<close>

definition gender_labels :: "aarhus_state \<Rightarrow> bool" where
  "gender_labels st \<longleftrightarrow> list_all (\<lambda>r. r_gender r \<in> {''Male'', ''Female'', ''Unknown''}) (all_staff_data st)"

text \<open>A record as the crawl writes it, as a test input.\<close>

definition sample_staff :: staff_row where
  "sample_staff =
     \<lparr>r_category = ''Faculty'', r_name = ''Doe, Jane'', r_gender = ''Female'', r_job_title = ''Professor'',
      r_email = ''jd@cs.au.dk'', r_phone = [], r_mobile = [], r_building = ''Nygaard'',
      r_profile_link = ''https://cs.au.dk/jd''\<rparr>"

text \<open>
  What a chart of the \<open>n\<close> most frequent values promises, for the counts \<open>M\<close> of a
  column: at most \<open>n\<close> distinct values of the column; no value left out is more frequent
  than a value shown; a value is left out only when \<open>n\<close> are shown; and the bars count
  exactly the rows whose value is shown (\<open>df[df[col].isin(top)]\<close>).
\<close>

definition top_chart_ok :: "nat \<Rightarrow> string multiset \<Rightarrow> string list \<Rightarrow> string multiset \<Rightarrow> bool" where
  "top_chart_ok n M tops chart \<longleftrightarrow>
     distinct tops \<and> length tops \<le> n \<and> set tops \<subseteq> set_mset M \<and>
     (\<forall>v\<in>set tops. \<forall>w\<in>#M. w \<notin> set tops \<longrightarrow> count M w \<le> count M v) \<and>
     (\<forall>w\<in>#M. w \<notin> set tops \<longrightarrow> length tops = n) \<and>
     chart = filter_mset (\<lambda>x. x \<in> set tops) M"

definition sample_staff2 :: staff_row where
  "sample_staff2 =
     \<lparr>r_category = ''Staff'', r_name = ''Moe, Max'', r_gender = ''Male'', r_job_title = ''Postdoc'',
      r_email = ''mm@cs.au.dk'', r_phone = [], r_mobile = [], r_building = ''Turing'',
      r_profile_link = ''https://cs.au.dk/mm''\<rparr>"

section \<open>Lemmas\<close>

lemma col_index_nth: "distinct hs \<Longrightarrow> i < length hs \<Longrightarrow> col_index (hs ! i) hs = Some i"
proof (induction hs arbitrary: i)
  case Nil
  then show ?case by simp
next
  case (Cons h hs)
  then show ?case by (cases i) (auto simp: nth_mem)
qed

lemma aarhus_headers_index: "i < 9 \<Longrightarrow> col_index (aarhus_headers ! i) aarhus_headers = Some i"
  by (rule col_index_nth) (simp_all add: aarhus_headers_def)

lemma aarhus_file_column:
  "list_all (\<lambda>l. length l = 9) lines \<Longrightarrow> i < 9 \<Longrightarrow>
     column (aarhus_headers # lines) (aarhus_headers ! i) = Some (map (\<lambda>l. read_cell (l ! i)) lines)"
  by (simp add: column_header [OF aarhus_headers_index] list_all_iff)

lemma aarhus_csv_column:
  "i < 9 \<Longrightarrow> column (aarhus_headers # map staff_line rs) (aarhus_headers ! i) =
     Some (map (\<lambda>r. read_cell (staff_line r ! i)) rs)"
  by (simp add: aarhus_file_column list_all_iff staff_line_def)

lemma aarhus_headers_nth:
  "aarhus_headers ! 0 = ''Category''" "aarhus_headers ! 2 = ''Gender''"
  "aarhus_headers ! 3 = ''Job Title''" "aarhus_headers ! 7 = ''Building''"
  by (simp_all add: aarhus_headers_def)

lemma process_rows_gender:
  "gender_labels st \<Longrightarrow> gender_labels (outcome_state (process_rows d c rows st))"
proof (induction rows arbitrary: st)
  case Nil
  then show ?case by simp
next
  case (Cons row rows)
  then show ?case
    by (auto simp: Let_def gender_labels_def mk_row_def split: sum.split option.split
        dest: aarhus_get_gender_label)
qed

lemma aarhus_crawl_gender:
  "aarhus_crawl n site d aarhus_init = Some st \<Longrightarrow> gender_labels st"
  by (rule aarhus_crawl_pres [where P = gender_labels, OF process_rows_gender])
    (simp_all add: gender_labels_def aarhus_init_def)

text \<open>The charts of a file with the header and nine fields on every line are always drawn.\<close>

lemma create_charts_file:
  assumes "list_all (\<lambda>l. length l = 9) lines"
  shows "\<exists>c. create_charts (Some (aarhus_headers # lines)) = Some (Inr c) \<and>
           gender_chart c = value_counts (map (\<lambda>l. read_cell (l ! 2)) lines)"
proof -
  note c = aarhus_file_column [OF assms, of 0] aarhus_file_column [OF assms, of 2]
    aarhus_file_column [OF assms, of 3] aarhus_file_column [OF assms, of 7]
  show ?thesis using c by (simp add: create_charts_def aarhus_headers_nth Let_def)
qed

lemma top_values_sorted:
  "sorted (map (\<lambda>v. - int (count_list xs v)) (sort_key (\<lambda>v. - int (count_list xs v)) (remdups xs)))"
  by (rule sorted_sort_key)

section \<open>Properties of the file and the charts\<close>

text \<open>
  C35: Writing the records with the \<open>DictWriter\<close> and reading the file back with pandas
  gives every record's value under its own key: the column named \<open>Name\<close> holds the
  names, \<open>Gender\<close> the genders, and so on for all nine keys of the record dictionary,
  in record order, each read as pandas reads it (a missing marker as \<open>NaN\<close>); no file
  is written when there is no record.
\<close>

theorem aarhus_csv_roundtrip:
  assumes "rs \<noteq> []"
  shows "aarhus_csv [] = None \<and>
         (\<exists>csv. aarhus_csv rs = Some csv \<and>
            list_all (\<lambda>(h, f). column csv h = Some (map (\<lambda>r. read_cell (f r)) rs))
             [(''Category'', r_category), (''Name'', r_name), (''Gender'', r_gender), (''Job Title'', r_job_title),
              (''Email'', r_email), (''Phone'', r_phone), (''Mobile'', r_mobile), (''Building'', r_building),
              (''Profile Link'', r_profile_link)])"
  using assms by (simp add: aarhus_csv_def column_def aarhus_headers_def staff_line_def comp_def)

theorem aarhus_csv_roundtrip_witness:
  "aarhus_csv [] = None \<and>
   (\<exists>csv. aarhus_csv [sample_staff] = Some csv \<and>
      list_all (\<lambda>(h, f). column csv h = Some (map (\<lambda>r. read_cell (f r)) [sample_staff]))
       [(''Category'', r_category), (''Name'', r_name), (''Gender'', r_gender), (''Job Title'', r_job_title),
              (''Email'', r_email), (''Phone'', r_phone), (''Mobile'', r_mobile), (''Building'', r_building),
              (''Profile Link'', r_profile_link)])"
  by (rule aarhus_csv_roundtrip) simp

text \<open>
  A value left out of \<open>top_values\<close> is never more frequent than one kept, and a value
  is left out only when \<open>n\<close> values are kept.
\<close>

lemma top_values_dominance:
  assumes "v \<in> set (top_values n xs)" and "w \<in> set xs" and "w \<notin> set (top_values n xs)"
  shows "count_list xs w \<le> count_list xs v \<and> length (top_values n xs) = n"
proof -
  let ?f = "\<lambda>v. - int (count_list xs v)"
  let ?ys = "sort_key ?f (remdups xs)"
  have top: "top_values n xs = take n ?ys" by (simp only: top_values_def)
  have split: "set ?ys = set (take n ?ys) \<union> set (drop n ?ys)"
    by (metis append_take_drop_id set_append)
  have "w \<in> set ?ys" using assms(2) by (simp only: set_sort set_remdups)
  moreover have "w \<notin> set (take n ?ys)" using assms(3) top by metis
  ultimately have w: "w \<in> set (drop n ?ys)" using split by blast
  have "sorted (map ?f (take n ?ys) @ map ?f (drop n ?ys))"
    using top_values_sorted [of xs] by (metis append_take_drop_id map_append)
  then have "\<forall>x\<in>set (map ?f (take n ?ys)). \<forall>y\<in>set (map ?f (drop n ?ys)). x \<le> y"
    unfolding sorted_append by (elim conjE)
  then have "?f v \<le> ?f w" using assms(1) w top by fastforce
  moreover have "n < length ?ys"
    using w by (metis drop_all empty_iff list.set(1) not_le_imp_less)
  ultimately show ?thesis using top by simp
qed

lemma top_values_spec: "top_chart_ok n (mset xs) (top_values n xs) (filter_mset (\<lambda>x. x \<in> set (top_values n xs)) (mset xs))"
proof -
  let ?ys = "sort_key (\<lambda>v. - int (count_list xs v)) (remdups xs)"
  have top: "top_values n xs = take n ?ys" by (simp only: top_values_def)
  have d: "distinct (top_values n xs)" by (simp add: top)
  have l: "length (top_values n xs) \<le> n" by (simp add: top)
  have s: "set (top_values n xs) \<subseteq> set_mset (mset xs)"
    using set_take_subset [of n ?ys] by (simp add: top)
  have c: "\<forall>v\<in>set (top_values n xs). \<forall>w\<in>#mset xs. w \<notin> set (top_values n xs) \<longrightarrow>
             count (mset xs) w \<le> count (mset xs) v"
  proof (intro ballI impI)
    fix v w assume "v \<in> set (top_values n xs)" "w \<in># mset xs" "w \<notin> set (top_values n xs)"
    then have "count_list xs w \<le> count_list xs v"
      using top_values_dominance [of v n xs w] by simp
    then show "count (mset xs) w \<le> count (mset xs) v" by (simp only: count_mset)
  qed
  have f: "\<forall>w\<in>#mset xs. w \<notin> set (top_values n xs) \<longrightarrow> length (top_values n xs) = n"
  proof (intro ballI impI)
    fix w assume "w \<in># mset xs" "w \<notin> set (top_values n xs)"
    then have "w \<in> set ?ys" "w \<notin> set (take n ?ys)" by (simp_all add: top)
    then have "\<not> length ?ys \<le> n" by (metis take_all)
    then show "length (top_values n xs) = n" by (simp add: top)
  qed
  show ?thesis unfolding top_chart_ok_def using d l s c f by (intro conjI) simp_all
qed


text \<open>
  C36: The job and building charts are those of \<open>nlargest(10)\<close>: for the counts of the
  Job Title and Building columns, each chart shows at most ten distinct values of the
  column, none less frequent than a value left out, fewer than ten only when no value is
  left out, and its bars count exactly the rows whose value is shown.
\<close>

theorem create_charts_top_values:
  assumes "create_charts (Some csv) = Some (Inr c)"
    and "column csv ''Job Title'' = Some js" and "column csv ''Building'' = Some bs"
  shows "top_chart_ok 10 (value_counts js) (top_jobs c) (job_chart c) \<and>
         top_chart_ok 10 (value_counts bs) (top_buildings c) (building_chart c)"
  using assms top_values_spec [of 10 "present js"] top_values_spec [of 10 "present bs"]
  by (auto simp: create_charts_def value_counts_def Let_def split: if_splits option.splits)

theorem create_charts_top_values_witness:
  "top_chart_ok 10 (value_counts (the (column (aarhus_headers # map staff_line [sample_staff, sample_staff2, sample_staff]) ''Job Title'')))
     (top_jobs (projr (the (create_charts (Some (aarhus_headers # map staff_line [sample_staff, sample_staff2, sample_staff]))))))
     (job_chart (projr (the (create_charts (Some (aarhus_headers # map staff_line [sample_staff, sample_staff2, sample_staff])))))) \<and>
   top_chart_ok 10 (value_counts (the (column (aarhus_headers # map staff_line [sample_staff, sample_staff2, sample_staff]) ''Building'')))
     (top_buildings (projr (the (create_charts (Some (aarhus_headers # map staff_line [sample_staff, sample_staff2, sample_staff]))))))
     (building_chart (projr (the (create_charts (Some (aarhus_headers # map staff_line [sample_staff, sample_staff2, sample_staff]))))))"
  by (rule create_charts_top_values [where csv = "aarhus_headers # map staff_line [sample_staff, sample_staff2, sample_staff]"])
    code_simp+

text \<open>
  From crawl to chart: when a crawl returns with records, the file is written,
  the charts are drawn without an exception, and the gender pie counts exactly the
  records' genders, each one of \<open>Male\<close>, \<open>Female\<close>, \<open>Unknown\<close>.
\<close>

theorem aarhus_crawl_charts:
  assumes "aarhus_crawl n site d aarhus_init = Some st" and "all_staff_data st \<noteq> []"
  shows "\<exists>c. create_charts (aarhus_csv (all_staff_data st)) = Some (Inr c) \<and>
           gender_chart c = mset (map r_gender (all_staff_data st)) \<and>
           set_mset (gender_chart c) \<subseteq> {''Male'', ''Female'', ''Unknown''}"
proof -
  let ?rs = "all_staff_data st"
  have labels: "list_all (\<lambda>r. r_gender r \<in> {''Male'', ''Female'', ''Unknown''}) ?rs"
    using aarhus_crawl_gender [OF assms(1)] by (simp add: gender_labels_def)
  then have "list_all (\<lambda>s. s \<notin> set na_values) (map r_gender ?rs)"
    by (auto simp: list_all_iff na_values_def)
  then have g: "present (map (\<lambda>r. read_cell (staff_line r ! 2)) ?rs) = map r_gender ?rs"
    using present_read_cells [of "map r_gender ?rs"] by (simp add: staff_line_def comp_def)
  obtain c where c: "create_charts (Some (aarhus_headers # map staff_line ?rs)) = Some (Inr c)"
      "gender_chart c = value_counts (map (\<lambda>l. read_cell (l ! 2)) (map staff_line ?rs))"
    using create_charts_file [of "map staff_line ?rs"] by (auto simp: list_all_iff staff_line_def)
  show ?thesis
    using assms(2) labels c g by (auto simp: aarhus_csv_def value_counts_def comp_def list_all_iff)
qed


lemma two_page_site_records:
  "map_option (\<lambda>st. all_staff_data st \<noteq> []) (aarhus_crawl 3 two_page_site test_detector aarhus_init) = Some True"
  by code_simp

theorem aarhus_crawl_charts_witness:
  "\<exists>st. aarhus_crawl 3 two_page_site test_detector aarhus_init = Some st \<and>
     (\<exists>c. create_charts (aarhus_csv (all_staff_data st)) = Some (Inr c) \<and>
        gender_chart c = mset (map r_gender (all_staff_data st)) \<and>
        set_mset (gender_chart c) \<subseteq> {''Male'', ''Female'', ''Unknown''})"
proof -
  obtain st where st: "aarhus_crawl 3 two_page_site test_detector aarhus_init = Some st"
    using two_page_site_returns by blast
  moreover have "all_staff_data st \<noteq> []"
    using two_page_site_records st by simp
  ultimately show ?thesis using aarhus_crawl_charts by blast
qed

end
