(* ===== verification/Detail.thy ===== *)
theory Detail
  imports Html
begin

text \<open>
  The detail fetcher of the Pisa scraper (\<open>get_detailed_info(api_url)\<close> in
  \<open>src/pisa_scraper.py\<close>): one request to a person's detail endpoint, whose JSON reply
  holds, under \<open>unimap\<close>, two HTML fragments (\<open>arpi\<close>: publications,
  \<open>insegnamenti\<close>: courses). Each fragment is parsed, the stripped texts of its
  \<open>li\<close> elements are joined with \<open>" ; "\<close>; a missing or empty field gives \<open>N/A\<close>, and
  every exception (a failed request, an error status, a body that is not JSON, a JSON
  value of the wrong type) gives \<open>Error/Empty\<close> for both fields.

  The endpoint is a parameter (\<open>detail_api\<close>: the decoded reply, \<open>None\<close> when
  \<open>requests.get\<close>, \<open>raise_for_status\<close> or \<open>json()\<close> raises), and so is the HTML
  parser (\<open>html_parser\<close>, the tree \<open>BeautifulSoup(s, 'html.parser')\<close> builds from a
  string). A JSON object is the list of its entries with distinct keys, as the decoded
  dictionary holds them; numbers are kept only for their truth value. Parsing a
  fragment that is not a string (a number, a list, an object) raises inside
  BeautifulSoup; the model takes it to raise \<open>TypeError\<close>.
\<close>

section \<open>Decoded JSON and the Python operations on it\<close>

datatype json = JNull | JBool bool | JNum int | JStr string | JList "json list"
  | JObj "(string \<times> json) list"

text \<open>
  A member of a decoded object: the object keeps its members in document order, and
  \<open>json.loads\<close> keeps the last value of a repeated key.
\<close>

definition json_lookup :: "(string \<times> json) list \<Rightarrow> string \<Rightarrow> json option" where
  "json_lookup kvs k = map_of (rev kvs) k"

text \<open>
  \<open>key in value\<close>: key membership for a dictionary, element equality for a list,
  substring for a string, \<open>TypeError\<close> for \<open>None\<close>, a boolean or a number.
\<close>

fun json_in :: "string \<Rightarrow> json \<Rightarrow> bool result" where
  "json_in k (JObj kvs) = Inr (json_lookup kvs k \<noteq> None)"
| "json_in k (JList xs) = Inr (JStr k \<in> set xs)"
| "json_in k (JStr s) = Inr (contains k s)"
| "json_in k JNull = Inl TypeError"
| "json_in k (JBool b) = Inl TypeError"
| "json_in k (JNum n) = Inl TypeError"

text \<open>\<open>value[key]\<close> with a string key: only a dictionary can be indexed so.\<close>

fun json_get :: "json \<Rightarrow> string \<Rightarrow> json result" where
  "json_get (JObj kvs) k = (case json_lookup kvs k of None \<Rightarrow> Inl KeyError | Some v \<Rightarrow> Inr v)"
| "json_get (JList xs) k = Inl TypeError"
| "json_get (JStr s) k = Inl TypeError"
| "json_get JNull k = Inl TypeError"
| "json_get (JBool b) k = Inl TypeError"
| "json_get (JNum n) k = Inl TypeError"

text \<open>Python truth value (\<open>if pub_html:\<close>).\<close>

fun truthy :: "json \<Rightarrow> bool" where
  "truthy JNull = False"
| "truthy (JBool b) = b"
| "truthy (JNum n) = (n \<noteq> 0)"
| "truthy (JStr s) = (s \<noteq> [])"
| "truthy (JList xs) = (xs \<noteq> [])"
| "truthy (JObj kvs) = (kvs \<noteq> [])"

section \<open>The fetcher\<close>

type_synonym html_parser = "string \<Rightarrow> document"

type_synonym detail_api = "url \<Rightarrow> json option"

text \<open>\<open>[li.get_text(strip=True) for li in soup.find_all('li')]\<close>.\<close>

definition li_texts :: "document \<Rightarrow> string list" where
  "li_texts soup = map get_text_strip (find_all (is_tag ''li'') soup)"

text \<open>A fragment, parsed and flattened (\<open>" ; ".join(...)\<close>).\<close>

definition flatten :: "html_parser \<Rightarrow> json \<Rightarrow> string result" where
  "flatten parse h = (case h of JStr s \<Rightarrow> Inr (join '' ; '' (li_texts (parse s))) | _ \<Rightarrow> Inl TypeError)"

text \<open>
  One field (lines 43--49 for \<open>arpi\<close>, 52--58 for \<open>insegnamenti\<close>):
  \<open>'unimap' in data and key in data['unimap']\<close>, then the fragment if it is true.
\<close>

definition detail_field :: "html_parser \<Rightarrow> json \<Rightarrow> string \<Rightarrow> string result" where
  "detail_field parse data key =
     ebind (json_in ''unimap'' data) (\<lambda>has_unimap.
       if \<not> has_unimap then Inr ''N/A''
       else ebind (json_get data ''unimap'') (\<lambda>unimap.
         ebind (json_in key unimap) (\<lambda>has_key.
           if \<not> has_key then Inr ''N/A''
           else ebind (json_get unimap key) (\<lambda>h.
             if truthy h then flatten parse h else Inr ''N/A''))))"

definition error_pair :: "string \<times> string" where
  "error_pair = (''Error/Empty'', ''Error/Empty'')"

text \<open>\<open>get_detailed_info(api_url)\<close>: the two fields, and the request as an effect.\<close>

definition get_detailed_info ::
  "detail_api \<Rightarrow> html_parser \<Rightarrow> url \<Rightarrow> (string \<times> string) \<times> effect list" where
  "get_detailed_info api parse api_url =
     ((case api api_url of
         None \<Rightarrow> error_pair
       | Some data \<Rightarrow>
           (case ebind (detail_field parse data ''arpi'') (\<lambda>publications.
                   ebind (detail_field parse data ''insegnamenti'') (\<lambda>courses.
                     Inr (publications, courses))) of
              Inl e \<Rightarrow> error_pair
            | Inr pc \<Rightarrow> pc)),
      [Fetch api_url])"

section \<open>Reading a field\<close>

text \<open>What a field holds in the \<open>unimap\<close> dictionary, read as the specification reads it.\<close>

definition field_text :: "html_parser \<Rightarrow> (string \<times> json) list \<Rightarrow> string \<Rightarrow> string" where
  "field_text parse u key =
     (case json_lookup u key of
        Some (JStr s) \<Rightarrow> (if s = [] then ''N/A'' else join '' ; '' (li_texts (parse s)))
      | _ \<Rightarrow> ''N/A'')"

text \<open>A field that does not make the fetcher raise: absent, false, or a string.\<close>

definition field_ok :: "(string \<times> json) list \<Rightarrow> string \<Rightarrow> bool" where
  "field_ok u key =
     (case json_lookup u key of None \<Rightarrow> True | Some (JStr s) \<Rightarrow> True | Some v \<Rightarrow> \<not> truthy v)"

lemma json_lookup_simps [simp]:
  "json_lookup [] k = None"
  "json_lookup ((k', v) # kvs) k = (case json_lookup kvs k of None \<Rightarrow> (if k' = k then Some v else None) | Some w \<Rightarrow> Some w)"
  by (simp_all add: json_lookup_def map_of_append map_add_def split: option.split)

lemma detail_field_unimap:
  assumes "json_lookup kvs ''unimap'' = Some (JObj u)"
  shows "detail_field parse (JObj kvs) key =
           (if field_ok u key then Inr (field_text parse u key) else Inl TypeError)"
  using assms
  by (auto simp: detail_field_def field_ok_def field_text_def flatten_def
      split: option.split json.split)

lemma detail_field_no_unimap:
  "json_lookup kvs ''unimap'' = None \<Longrightarrow> detail_field parse (JObj kvs) key = Inr ''N/A''"
  by (simp add: detail_field_def)

text \<open>A field the fetcher reads is \<open>N/A\<close> or the flattening of a fragment.\<close>

lemma flatten_Inr: "flatten parse h = Inr v \<Longrightarrow> \<exists>s. v = join '' ; '' (li_texts (parse s))"
  by (cases h) (auto simp: flatten_def)

lemma detail_field_Inr:
  "detail_field parse data key = Inr v \<Longrightarrow> v = ''N/A'' \<or> (\<exists>s. v = join '' ; '' (li_texts (parse s)))"
  by (auto simp: detail_field_def ebind_eq_Inr split: if_splits dest: flatten_Inr)

section \<open>Properties of the fetcher\<close>

text \<open>
  C23: For a reply whose \<open>unimap\<close> dictionary holds each field absent, false or as
  an HTML string, the fetcher makes one request and returns the two fields read
  independently: the \<open>" ; "\<close>-joined texts of the fragment's \<open>li\<close> items, or
  \<open>N/A\<close> for a missing or empty field.
\<close>

theorem get_detailed_info_fields:
  assumes "api url = Some (JObj kvs)" and "json_lookup kvs ''unimap'' = Some (JObj u)"
    and "field_ok u ''arpi''" and "field_ok u ''insegnamenti''"
  shows "get_detailed_info api parse url =
           ((field_text parse u ''arpi'', field_text parse u ''insegnamenti''), [Fetch url])"
  using assms by (simp add: get_detailed_info_def detail_field_unimap)

theorem get_detailed_info_fields_witness:
  "get_detailed_info
     (\<lambda>_. Some (JObj [(''unimap'', JObj [(''arpi'', JStr ''<ul>...</ul>''), (''insegnamenti'', JNull)])]))
     (\<lambda>_. [Elem ''ul'' [] [Elem ''li'' [] [Text ''A''], Elem ''li'' [] [Text ''B'']]]) ''https://example.org/p''
   = ((''A ; B'', ''N/A''), [Fetch ''https://example.org/p''])"
proof -
  let ?u = "[(''arpi'', JStr ''<ul>...</ul>''), (''insegnamenti'', JNull)]"
  let ?p = "\<lambda>_::string. [Elem ''ul'' [] [Elem ''li'' [] [Text ''A''], Elem ''li'' [] [Text ''B'']]]"
  have "get_detailed_info (\<lambda>_. Some (JObj [(''unimap'', JObj ?u)])) ?p ''https://example.org/p'' =
          ((field_text ?p ?u ''arpi'', field_text ?p ?u ''insegnamenti''), [Fetch ''https://example.org/p''])"
    by (rule get_detailed_info_fields [where kvs = "[(''unimap'', JObj ?u)]"]) (simp_all add: field_ok_def)
  moreover have "field_text ?p ?u ''arpi'' = ''A ; B''"
    by code_simp
  ultimately show ?thesis by (simp add: field_text_def)
qed

text \<open>
  C24: Failures are confined to the record and to its two detail fields: when the
  request fails, or when either fragment is a value that cannot be parsed, both fields
  are \<open>Error/Empty\<close>, even if the other fragment was readable, and the fetcher still
  returns after its one request.
\<close>

theorem get_detailed_info_error:
  assumes "api url = None \<or>
           (api url = Some (JObj kvs) \<and> json_lookup kvs ''unimap'' = Some (JObj u) \<and>
            (\<not> field_ok u ''arpi'' \<or> \<not> field_ok u ''insegnamenti''))"
  shows "get_detailed_info api parse url = ((''Error/Empty'', ''Error/Empty''), [Fetch url])"
  using assms
  by (auto simp: get_detailed_info_def detail_field_unimap error_pair_def)

theorem get_detailed_info_error_witness:
  "get_detailed_info
     (\<lambda>_. Some (JObj [(''unimap'', JObj [(''arpi'', JStr ''<ul>...</ul>''), (''insegnamenti'', JNum 3)])]))
     (\<lambda>_. []) ''https://example.org/p''
   = ((''Error/Empty'', ''Error/Empty''), [Fetch ''https://example.org/p''])"
  by (rule get_detailed_info_error [where kvs = "[(''unimap'', JObj [(''arpi'', JStr ''<ul>...</ul>''), (''insegnamenti'', JNum 3)])]"
        and u = "[(''arpi'', JStr ''<ul>...</ul>''), (''insegnamenti'', JNum 3)]"]) (simp add: field_ok_def)

text \<open>
  C25: Whatever the endpoint answers, the fetcher makes exactly one request and
  its two fields are either both \<open>Error/Empty\<close> or each \<open>N/A\<close> or a flattened
  fragment: no other value reaches the CSV row.
\<close>

theorem get_detailed_info_sentinels:
  "snd (get_detailed_info api parse url) = [Fetch url] \<and>
   (fst (get_detailed_info api parse url) = (''Error/Empty'', ''Error/Empty'') \<or>
    ((fst (fst (get_detailed_info api parse url)) = ''N/A'' \<or>
      (\<exists>s. fst (fst (get_detailed_info api parse url)) = join '' ; '' (li_texts (parse s)))) \<and>
     (snd (fst (get_detailed_info api parse url)) = ''N/A'' \<or>
      (\<exists>s. snd (fst (get_detailed_info api parse url)) = join '' ; '' (li_texts (parse s))))))"
  by (auto simp: get_detailed_info_def error_pair_def ebind_eq_Inr
      dest!: detail_field_Inr split: option.split sum.split)

text \<open>
  A fragment that is present but lists no \<open>li\<close> item gives the empty string,
  not \<open>N/A\<close>.
\<close>

theorem get_detailed_info_no_items:
  "get_detailed_info (\<lambda>_. Some (JObj [(''unimap'', JObj [(''arpi'', JStr ''<p>none</p>'')])]))
     (\<lambda>_. [Elem ''p'' [] [Text ''none'']]) ''https://example.org/p''
   = (([], ''N/A''), [Fetch ''https://example.org/p''])"
  by (simp add: get_detailed_info_def detail_field_def flatten_def li_texts_def find_all_def)

end
