(* ===== verification/Pisa.thy ===== *)
theory Pisa
  imports Normalize Gender Detail
begin

text \<open>
  The Pisa scraper (\<open>scrape_pisa()\<close> in \<open>src/pisa_scraper.py\<close>, schema B): one
  page, one fetch; the rows are the \<open>tr\<close> elements with a \<open>data-cat\<close> attribute. A row
  with fewer than six cells is skipped; otherwise its category, names, gender (through
  the run's cache), email, website, room and phone are read, the seventh cell's
  \<open>openscheda\<close> anchor gives the detail URL, and one CSV line is written.

  The state \<open>pisa_state\<close> holds the locals of the loop: the lines written so far
  (\<open>csv_rows\<close>, the header first), \<open>count\<close>, \<open>gender_cache\<close>, and the trace of
  requests and pauses. An exception the loop does not catch (\<open>row['data-cat']\<close>,
  \<open>first_name.split()[0]\<close>, \<open>cols[6]\<close>) ends the run; the file keeps the lines
  written before it (\<open>Raised\<close>). The genderize service, the detail endpoint and the
  HTML parser are the parameters \<open>pisa_env\<close>; the listing page is given by a site
  function as in the Aarhus model (\<open>None\<close>: the request failed and the function returns
  before opening the file).
\<close>

record pisa_env =
  genderize :: genderize_api
  detail :: detail_api
  parse :: html_parser

record pisa_state =
  csv_rows :: "string list list"
  count :: nat
  gender_cache :: gender_cache
  trace :: "effect list"

definition MAIN_URL :: url where
  "MAIN_URL = ''https://di.unipi.it/en/people/''"

definition pisa_header :: "string list" where
  "pisa_header = [''Category'', ''First Name'', ''Last Name'', ''Gender'', ''Email'', ''Website'',
                  ''Room'', ''Phone'', ''Recent Publications'', ''Courses'']"

section \<open>One row\<close>

text \<open>
  The detail cell: an \<open>openscheda\<close> anchor with a \<open>data-url\<close> gives a detail
  fetch followed by a 200 ms pause; without one both fields stay \<open>N/A\<close>.
\<close>

definition row_details :: "pisa_env \<Rightarrow> node \<Rightarrow> (string \<times> string) \<times> effect list" where
  "row_details env col =
     (case find_first (tag_class ''a'' ''openscheda'') (children col) of
        Some id_card_tag \<Rightarrow>
          (if has_attr ''data-url'' id_card_tag then
             (let api_url = attr_get ''data-url'' [] id_card_tag;
                  (pc, effs) = get_detailed_info (detail env) (parse env) api_url
              in (pc, effs @ [Sleep 200]))
           else ((''N/A'', ''N/A''), []))
      | None \<Rightarrow> ((''N/A'', ''N/A''), []))"

text \<open>
  The body of \<open>for row in rows\<close>. The gender lookup updates the cache and the trace
  before \<open>cols[6]\<close> is read, so a six-cell row raises with its lookup done.
\<close>

definition pisa_row :: "pisa_env \<Rightarrow> node \<Rightarrow> pisa_state \<Rightarrow> pisa_state outcome" where
  "pisa_row env row st =
     (let cols = find_all (is_tag ''td'') (children row) in
      if length cols < 6 then Normal st
      else (case attr_req ''data-cat'' row of
        Inl e \<Rightarrow> Raised e st
      | Inr category \<Rightarrow>
          (let first_name = get_text_strip (cols ! 0);
               last_name = get_text_strip (cols ! 1)
           in case cached_gender (genderize env) (gender_cache st) first_name of
                Inl e \<Rightarrow> Raised e st
              | Inr (gender, cache', effs) \<Rightarrow>
                  (let st1 = st\<lparr>gender_cache := cache', trace := trace st @ effs\<rparr>;
                       email = pisa_email (cols ! 2);
                       website = pisa_website (cols ! 3);
                       room = get_text_strip (cols ! 4);
                       phone = pisa_phone (cols ! 5)
                   in case py_index cols 6 of
                        Inl e \<Rightarrow> Raised e st1
                      | Inr id_col \<Rightarrow>
                          (let ((publications, courses), deffs) = row_details env id_col
                           in Normal (st1\<lparr>csv_rows := csv_rows st1 @
                                   [[category, first_name, last_name, gender, email, website,
                                     room, phone, publications, courses]],
                                 count := count st1 + 1,
                                 trace := trace st1 @ deffs\<rparr>))))))"

section \<open>The loop and the run\<close>

fun pisa_rows :: "pisa_env \<Rightarrow> node list \<Rightarrow> pisa_state \<Rightarrow> pisa_state outcome" where
  "pisa_rows env [] st = Normal st"
| "pisa_rows env (row # rows) st =
     (case pisa_row env row st of
        Normal st' \<Rightarrow> pisa_rows env rows st'
      | Raised e st' \<Rightarrow> Raised e st')"

definition is_person_row :: "node \<Rightarrow> bool" where
  "is_person_row n \<longleftrightarrow> is_tag ''tr'' n \<and> has_attr ''data-cat'' n"

definition pisa_init :: pisa_state where
  "pisa_init = \<lparr>csv_rows = [pisa_header], count = 0, gender_cache = Map.empty,
                trace = [Fetch MAIN_URL]\<rparr>"

definition scrape_pisa :: "(url \<Rightarrow> document option) \<Rightarrow> pisa_env \<Rightarrow> pisa_state outcome option" where
  "scrape_pisa site env =
     (case site MAIN_URL of
        None \<Rightarrow> None
      | Some soup \<Rightarrow> Some (pisa_rows env (find_all is_person_row soup) pisa_init))"

section \<open>Invariants of the loop\<close>

text \<open>
  The file: the header first, ten fields on every line, one line per counted profile.
\<close>

definition csv_ok :: "pisa_state \<Rightarrow> bool" where
  "csv_ok st \<longleftrightarrow> csv_rows st \<noteq> [] \<and> hd (csv_rows st) = pisa_header \<and>
     list_all (\<lambda>l. length l = 10) (csv_rows st) \<and> count st = length (csv_rows st) - 1"

text \<open>Every written line carries the gender the cache holds for its first name's key.\<close>

definition cache_lines :: "pisa_state \<Rightarrow> bool" where
  "cache_lines st \<longleftrightarrow> list_all (\<lambda>l. gender_cache st (name_key (l ! 1)) = Some (l ! 3)) (tl (csv_rows st))"

text \<open>
  The requests after the main page come in pairs with their pauses: a genderize request
  followed by \<open>time.sleep(0.1)\<close>, or a detail request followed by \<open>time.sleep(0.2)\<close>.
\<close>

definition is_genderize_url :: "url \<Rightarrow> bool" where
  "is_genderize_url u \<longleftrightarrow> starts_with ''https://api.genderize.io?name='' u"

fun requests_paired :: "effect list \<Rightarrow> bool" where
  "requests_paired [] = True"
| "requests_paired (Fetch u # Sleep t # es) =
     ((t = 100 \<and> is_genderize_url u \<or> t = 200) \<and> requests_paired es)"
| "requests_paired es = False"

text \<open>
  The trace is the main-page request and then request/pause pairs, and the genderize
  pairs are exactly as many as the keys cached.
\<close>

definition lookups_ok :: "pisa_state \<Rightarrow> bool" where
  "lookups_ok st \<longleftrightarrow> finite (dom (gender_cache st)) \<and>
     count_list (trace st) (Sleep 100) = card (dom (gender_cache st)) \<and>
     take 1 (trace st) = [Fetch MAIN_URL] \<and> requests_paired (drop 1 (trace st))"

section \<open>What one row does\<close>

text \<open>
  The four ways a row ends: skipped without effect (fewer than six cells); an exception
  before anything changed (no \<open>data-cat\<close>, a first name without a word); the
  \<open>IndexError\<close> of \<open>cols[6]\<close> on a six-cell row, after the gender lookup; or one line
  written, after the lookup and the detail fetch.
\<close>

lemma pisa_row_cases:
  fixes env row st
  defines "cols \<equiv> find_all (is_tag ''td'') (children row)"
  obtains (skip) "pisa_row env row st = Normal st" "length cols < 6"
  | (raise) e where "pisa_row env row st = Raised e st"
  | (six) g c' effs where "length cols = 6"
      "cached_gender (genderize env) (gender_cache st) (get_text_strip (cols ! 0)) = Inr (g, c', effs)"
      "pisa_row env row st = Raised IndexError (st\<lparr>gender_cache := c', trace := trace st @ effs\<rparr>)"
  | (written) category g c' effs pc deffs where "6 < length cols"
      "attr ''data-cat'' row = Some category"
      "cached_gender (genderize env) (gender_cache st) (get_text_strip (cols ! 0)) = Inr (g, c', effs)"
      "row_details env (cols ! 6) = (pc, deffs)"
      "pisa_row env row st =
         Normal (st\<lparr>csv_rows := csv_rows st @
                   [[category, get_text_strip (cols ! 0), get_text_strip (cols ! 1), g,
                     pisa_email (cols ! 2), pisa_website (cols ! 3), get_text_strip (cols ! 4),
                     pisa_phone (cols ! 5), fst pc, snd pc]],
                 count := Suc (count st), gender_cache := c', trace := trace st @ effs @ deffs\<rparr>)"
proof -
  note row = pisa_row_def Let_def cols_def[symmetric] attr_req_def
  show thesis
  proof (cases "length cols < 6")
    case True
    with skip show ?thesis by (simp add: row)
  next
    case long: False
    show ?thesis
    proof (cases "attr ''data-cat'' row")
      case None
      with long raise show ?thesis by (simp add: row)
    next
      case (Some category)
      show ?thesis
      proof (cases "cached_gender (genderize env) (gender_cache st) (get_text_strip (cols ! 0))")
        case (Inl e)
        with long Some raise show ?thesis by (simp add: row)
      next
        case (Inr r)
        then obtain g c' effs where r: "r = (g, c', effs)" by (cases r) blast
        show ?thesis
        proof (cases "length cols = 6")
          case True
          with Some Inr r six show ?thesis by (simp add: row)
        next
          case False
          obtain pc deffs where d: "row_details env (cols ! 6) = (pc, deffs)" by fastforce
          with long False Some Inr r written [of category g c' effs pc deffs] show ?thesis
            by (simp add: row split_def)
        qed
      qed
    qed
  qed
qed

text \<open>The detail cell adds no effect, or one request followed by the 200 ms pause.\<close>

lemma row_details_effects:
  "snd (row_details env col) = [] \<or> (\<exists>u. snd (row_details env col) = [Fetch u, Sleep 200])"
  by (auto simp: row_details_def get_detailed_info_def split_def Let_def split: option.split)

section \<open>Loop lemmas\<close>

text \<open>A property that every row keeps holds after the loop, whether it ends or raises.\<close>

lemma pisa_rows_inv:
  assumes step: "\<And>row s. P s \<Longrightarrow> P (outcome_state (pisa_row env row s))"
  shows "P st \<Longrightarrow> P (outcome_state (pisa_rows env rows st))"
proof (induction rows arbitrary: st)
  case Nil
  then show ?case by simp
next
  case (Cons row rows)
  then show ?case
    using step [OF Cons.prems, of row] by (cases "pisa_row env row st") simp_all
qed

lemma pisa_rows_rel:
  assumes refl: "\<And>s. R s s" and trans: "\<And>a b c. R a b \<Longrightarrow> R b c \<Longrightarrow> R a c"
    and step: "\<And>row s. R s (outcome_state (pisa_row env row s))"
  shows "R st (outcome_state (pisa_rows env rows st))"
proof (induction rows arbitrary: st)
  case Nil
  then show ?case by (simp add: refl)
next
  case (Cons row rows)
  then show ?case
    using step [of st row] by (cases "pisa_row env row st") (auto intro: trans)
qed

lemma pisa_header_length [simp]: "length pisa_header = 10"
  by (simp add: pisa_header_def)

lemma pisa_row_csv_ok: "csv_ok st \<Longrightarrow> csv_ok (outcome_state (pisa_row env row st))"
  by (cases rule: pisa_row_cases [of env row st]) (auto simp: csv_ok_def)

lemma pisa_row_cache_mono: "gender_cache st \<subseteq>\<^sub>m gender_cache (outcome_state (pisa_row env row st))"
  by (cases rule: pisa_row_cases [of env row st]) (auto dest!: cached_gender_Inr)

lemma cache_lines_grow:
  "cache_lines st \<Longrightarrow> csv_rows st' = csv_rows st \<Longrightarrow> gender_cache st \<subseteq>\<^sub>m gender_cache st' \<Longrightarrow>
   cache_lines st'"
  by (auto simp: cache_lines_def list_all_iff intro: map_le_Some)

lemma pisa_row_cache_lines:
  assumes "csv_ok st" and "cache_lines st"
  shows "cache_lines (outcome_state (pisa_row env row st))"
proof (cases rule: pisa_row_cases [of env row st])
  case (six g c' effs)
  with assms(2) show ?thesis
    by (auto intro: cache_lines_grow dest!: cached_gender_Inr)
next
  case (written category g c' effs pc deffs)
  from written(3) obtain w ws where "name_key (get_text_strip (find_all (is_tag ''td'') (children row) ! 0)) = lower w"
      "c' (lower w) = Some g" "gender_cache st \<subseteq>\<^sub>m c'"
    by (blast dest: cached_gender_Inr)
  with written(5) assms show ?thesis
    by (auto simp: cache_lines_def csv_ok_def list_all_iff neq_Nil_conv intro: map_le_Some)
qed (use assms in simp_all)

lemma requests_paired_append:
  "requests_paired xs \<Longrightarrow> requests_paired (xs @ ys) = requests_paired ys"
  by (induction xs rule: requests_paired.induct) auto

lemma lookups_ok_append:
  assumes "lookups_ok st" and "requests_paired effs" and "finite (dom c')"
    and "count_list effs (Sleep 100) + card (dom (gender_cache st)) = card (dom c')"
  shows "lookups_ok (st\<lparr>gender_cache := c', trace := trace st @ effs\<rparr>)"
proof -
  have "trace st \<noteq> []" using assms(1) by (auto simp: lookups_ok_def)
  then have "drop 1 (trace st @ effs) = drop 1 (trace st) @ effs" "take 1 (trace st @ effs) = take 1 (trace st)"
    by (cases "trace st"; simp)+
  then show ?thesis using assms by (auto simp: lookups_ok_def requests_paired_append)
qed

lemma cached_gender_lookups:
  assumes "cached_gender api c n = Inr (g, c', effs)" and "finite (dom c)"
  shows "requests_paired effs \<and> finite (dom c') \<and>
         count_list effs (Sleep 100) + card (dom c) = card (dom c')"
  using cached_gender_Inr [OF assms(1)] assms(2)
  by (auto simp: is_genderize_url_def genderize_url_def domIff split: if_splits)

lemma row_details_paired: "requests_paired (snd (row_details env col)) \<and> count_list (snd (row_details env col)) (Sleep 100) = 0"
  using row_details_effects [of env col] by auto

lemma pisa_row_lookups_ok:
  assumes "lookups_ok st"
  shows "lookups_ok (outcome_state (pisa_row env row st))"
proof (cases rule: pisa_row_cases [of env row st])
  case (six g c' effs)
  have "finite (dom (gender_cache st))" using assms by (simp add: lookups_ok_def)
  with six(2) have "requests_paired effs \<and> finite (dom c') \<and>
      count_list effs (Sleep 100) + card (dom (gender_cache st)) = card (dom c')"
    by (rule cached_gender_lookups)
  with six(3) assms show ?thesis by (simp add: lookups_ok_append)
next
  case (written category g c' effs pc deffs)
  have "finite (dom (gender_cache st))" using assms by (simp add: lookups_ok_def)
  with written(3) have g: "requests_paired effs \<and> finite (dom c') \<and>
      count_list effs (Sleep 100) + card (dom (gender_cache st)) = card (dom c')"
    by (rule cached_gender_lookups)
  have "requests_paired deffs \<and> count_list deffs (Sleep 100) = 0"
    using row_details_paired [of env "find_all (is_tag ''td'') (children row) ! 6"] written(4) by simp
  with g have "requests_paired (effs @ deffs) \<and>
      count_list (effs @ deffs) (Sleep 100) + card (dom (gender_cache st)) = card (dom c')"
    by (simp add: requests_paired_append)
  then have "lookups_ok (st\<lparr>gender_cache := c', trace := trace st @ (effs @ deffs)\<rparr>)"
    using assms g by (intro lookups_ok_append) simp_all
  with written(5) show ?thesis by (simp add: lookups_ok_def)
qed (use assms in simp_all)

lemma pisa_init_csv_ok: "csv_ok pisa_init"
  by (simp add: pisa_init_def csv_ok_def)

lemma pisa_init_cache_lines: "cache_lines pisa_init"
  by (simp add: pisa_init_def cache_lines_def)

lemma pisa_init_lookups_ok: "lookups_ok pisa_init"
  by (simp add: pisa_init_def lookups_ok_def MAIN_URL_def)

text \<open>A property of the initial state that every row keeps holds at the end of every run.\<close>

lemma scrape_pisa_inv:
  assumes step: "\<And>row s. P s \<Longrightarrow> P (outcome_state (pisa_row env row s))"
    and init: "P pisa_init" and run: "scrape_pisa site env = Some r"
  shows "P (outcome_state r)"
  using pisa_rows_inv [of P env, OF step init] run by (auto simp: scrape_pisa_def split: option.splits)

section \<open>Properties of the Pisa run\<close>

text \<open>
  C15: Whether the run ends normally or an exception cuts it short, the CSV file
  starts with the header, every line has the ten columns, and \<open>count\<close> is the
  number of lines after the header.
\<close>

theorem scrape_pisa_csv:
  "scrape_pisa site env = Some r \<Longrightarrow> csv_ok (outcome_state r)"
  by (rule scrape_pisa_inv [OF pisa_row_csv_ok pisa_init_csv_ok])

text \<open>
  C11: The cache makes the gender column consistent: two written lines whose first
  names have the same key (first word, lower-cased) carry the same gender.
\<close>

theorem scrape_pisa_same_key:
  assumes "scrape_pisa site env = Some r"
    and "l1 \<in> set (tl (csv_rows (outcome_state r)))" and "l2 \<in> set (tl (csv_rows (outcome_state r)))"
    and "name_key (l1 ! 1) = name_key (l2 ! 1)"
  shows "l1 ! 3 = l2 ! 3"
proof -
  let ?c = "gender_cache (outcome_state r)"
  have "list_all (\<lambda>l. ?c (name_key (l ! 1)) = Some (l ! 3)) (tl (csv_rows (outcome_state r)))"
    using scrape_pisa_inv [where P = "\<lambda>s. csv_ok s \<and> cache_lines s", OF _ _ assms(1)]
      pisa_row_csv_ok pisa_row_cache_lines pisa_init_csv_ok pisa_init_cache_lines
    by (simp add: cache_lines_def)
  then have "?c (name_key (l1 ! 1)) = Some (l1 ! 3)" and "?c (name_key (l2 ! 1)) = Some (l2 ! 3)"
    using assms(2,3) by (simp_all add: list_all_iff)
  with assms(4) show ?thesis by simp
qed

text \<open>
  C12: The genderize service is asked once per distinct name key, and a cache hit sends
  no request: in every run the trace is the main-page request followed by request/pause
  pairs only (a genderize request with its 100 ms pause, or a detail request with its
  200 ms pause), and the genderize pairs are exactly as many as the keys in the cache.
\<close>

theorem scrape_pisa_lookups:
  assumes "scrape_pisa site env = Some r"
  shows "take 1 (trace (outcome_state r)) = [Fetch MAIN_URL] \<and>
         requests_paired (drop 1 (trace (outcome_state r))) \<and>
         count_list (trace (outcome_state r)) (Sleep 100) = card (dom (gender_cache (outcome_state r)))"
  using scrape_pisa_inv [OF pisa_row_lookups_ok pisa_init_lookups_ok assms] by (simp add: lookups_ok_def)

text \<open>The cache is only ever filled: no entry is changed or dropped during a run.\<close>

theorem pisa_rows_cache_mono:
  "gender_cache st \<subseteq>\<^sub>m gender_cache (outcome_state (pisa_rows env rows st))"
  by (rule pisa_rows_rel [where R = "\<lambda>s t. gender_cache s \<subseteq>\<^sub>m gender_cache t"])
    (auto intro: map_le_trans pisa_row_cache_mono)

text \<open>
  C14: A row with exactly six cells passes the \<open>len(cols) < 6\<close> guard and then
  raises \<open>IndexError\<close> at \<open>cols[6]\<close>: the run ends there, after the row's gender
  lookup (its name key is cached), with no line written for it and the following rows
  never read.
\<close>

theorem pisa_rows_six_cells:
  assumes "length (find_all (is_tag ''td'') (children row)) = 6" and "has_attr ''data-cat'' row"
    and "split_ws (get_text_strip (find_all (is_tag ''td'') (children row) ! 0)) \<noteq> []"
  shows "\<exists>st'. pisa_rows env (row # rows) st = Raised IndexError st' \<and>
           csv_rows st' = csv_rows st \<and> count st' = count st \<and>
           gender_cache st' (name_key (get_text_strip (find_all (is_tag ''td'') (children row) ! 0))) \<noteq> None"
proof -
  obtain g c' effs where cg:
    "cached_gender (genderize env) (gender_cache st) (get_text_strip (find_all (is_tag ''td'') (children row) ! 0)) = Inr (g, c', effs)"
    using cached_gender_word [OF assms(3)] by blast
  then have "c' (name_key (get_text_strip (find_all (is_tag ''td'') (children row) ! 0))) = Some g"
    using cached_gender_Inr [OF cg] by auto
  with cg assms show ?thesis
    by (auto simp: pisa_row_def Let_def attr_req_def has_attr_def)
qed

text \<open>
  C17: A row whose first-name cell holds no word raises \<open>IndexError\<close> at
  \<open>first_name.split()[0]\<close>, which the loop does not catch: the run ends there
  with the state it had before the row.
\<close>

theorem pisa_rows_nameless:
  assumes "6 \<le> length (find_all (is_tag ''td'') (children row))" and "has_attr ''data-cat'' row"
    and "split_ws (get_text_strip (find_all (is_tag ''td'') (children row) ! 0)) = []"
  shows "pisa_rows env (row # rows) st = Raised IndexError st"
  using assms by (auto simp: pisa_row_def Let_def attr_req_def has_attr_def cached_gender_no_word)

lemma pisa_row_prefix: "prefix (csv_rows st) (csv_rows (outcome_state (pisa_row env row st)))"
  by (cases rule: pisa_row_cases [of env row st]) simp_all

lemma pisa_rows_prefix: "prefix (csv_rows st) (csv_rows (outcome_state (pisa_rows env rows st)))"
  by (rule pisa_rows_rel [where R = "\<lambda>s t. prefix (csv_rows s) (csv_rows t)"])
    (auto intro: prefix_order.trans pisa_row_prefix)

text \<open>
  C16: The run keeps the page's order and drops no row but the short ones: when it
  ends normally, the first names of the lines it wrote are those of the rows with at
  least six cells, in the order of the page.
\<close>

theorem pisa_rows_order:
  "pisa_rows env rows st = Normal st' \<Longrightarrow>
     map (\<lambda>l. l ! 1) (drop (length (csv_rows st)) (csv_rows st')) =
     map (\<lambda>row. get_text_strip (find_all (is_tag ''td'') (children row) ! 0))
       (filter (\<lambda>row. 6 \<le> length (find_all (is_tag ''td'') (children row))) rows)"
proof (induction rows arbitrary: st)
  case Nil
  then show ?case by simp
next
  case (Cons row rows)
  show ?case
  proof (cases rule: pisa_row_cases [of env row st])
    case skip
    with Cons show ?thesis by simp
  next
    case (raise e)
    with Cons.prems show ?thesis by simp
  next
    case (six g c' effs)
    with Cons.prems show ?thesis by simp
  next
    case (written category g c' effs pc deffs)
    let ?st2 = "outcome_state (pisa_row env row st)"
    have run: "pisa_rows env rows ?st2 = Normal st'"
      using Cons.prems written(5) by simp
    from pisa_rows_prefix [of ?st2 env rows] run
    obtain zs where "csv_rows st' = csv_rows ?st2 @ zs" by (auto elim: prefixE)
    with Cons.IH [OF run] written show ?thesis by simp
  qed
qed

text \<open>
  C13: A failed detail request is confined to its record: the row is still written,
  with \<open>Error/Empty\<close> in its two detail columns and every other column read from the
  page as usual, and the loop goes on with the next row.
\<close>

theorem pisa_rows_detail_failed:
  assumes "6 < length (find_all (is_tag ''td'') (children row))"
    and "attr ''data-cat'' row = Some category"
    and "split_ws (get_text_strip (find_all (is_tag ''td'') (children row) ! 0)) \<noteq> []"
    and "find_first (tag_class ''a'' ''openscheda'') (children (find_all (is_tag ''td'') (children row) ! 6)) = Some t"
    and "attr ''data-url'' t = Some u" and "detail env u = None"
  shows "\<exists>st'. pisa_rows env (row # rows) st = pisa_rows env rows st' \<and>
           butlast (csv_rows st') = csv_rows st \<and>
           take 3 (last (csv_rows st')) =
             [category, get_text_strip (find_all (is_tag ''td'') (children row) ! 0),
              get_text_strip (find_all (is_tag ''td'') (children row) ! 1)] \<and>
           drop 4 (last (csv_rows st')) =
             [pisa_email (find_all (is_tag ''td'') (children row) ! 2),
              pisa_website (find_all (is_tag ''td'') (children row) ! 3),
              get_text_strip (find_all (is_tag ''td'') (children row) ! 4),
              pisa_phone (find_all (is_tag ''td'') (children row) ! 5), ''Error/Empty'', ''Error/Empty'']"
proof -
  obtain g c' effs where
    "cached_gender (genderize env) (gender_cache st) (get_text_strip (find_all (is_tag ''td'') (children row) ! 0)) =
       Inr (g, c', effs)"
    using cached_gender_word [OF assms(3)] by blast
  then have "pisa_row env row st =
      Normal (st\<lparr>csv_rows := csv_rows st @
        [[category, get_text_strip (find_all (is_tag ''td'') (children row) ! 0),
          get_text_strip (find_all (is_tag ''td'') (children row) ! 1), g,
          pisa_email (find_all (is_tag ''td'') (children row) ! 2),
          pisa_website (find_all (is_tag ''td'') (children row) ! 3),
          get_text_strip (find_all (is_tag ''td'') (children row) ! 4),
          pisa_phone (find_all (is_tag ''td'') (children row) ! 5), ''Error/Empty'', ''Error/Empty'']],
        count := Suc (count st), gender_cache := c', trace := trace st @ effs @ [Fetch u, Sleep 200]\<rparr>)"
    using assms
    by (simp add: pisa_row_def Let_def attr_req_def row_details_def has_attr_def attr_get_def
        get_detailed_info_def error_pair_def)
  then show ?thesis by (intro exI conjI) (simp, simp, simp, simp)
qed

end
