(* ===== verification/PisaRuns.thy ===== *)
theory PisaRuns
  imports Pisa
begin

text \<open>
  A small listing page in the markup of the Pisa directory, a genderize service, a
  detail endpoint and a parser, and whole runs on them: a profile with its detail
  fragments, a second profile whose first name shares the first one's key and whose
  detail request fails, and a short row.
\<close>

definition pisa_td :: "string \<Rightarrow> node" where
  "pisa_td s = Elem ''td'' [] [Text s]"

definition pisa_person ::
  "string \<Rightarrow> string \<Rightarrow> string \<Rightarrow> string \<Rightarrow> node \<Rightarrow> string \<Rightarrow> string \<Rightarrow> url \<Rightarrow> node" where
  "pisa_person cat first_name last_name email_name web room phone detail_url =
     Elem ''tr'' [(''data-cat'', cat)]
       [pisa_td first_name, pisa_td last_name,
        Elem ''td'' [] [Elem ''a'' [(''class'', ''cryptml''), (''data-name'', email_name),
                                   (''data-domain'', ''unipi''), (''data-tld'', ''it'')] [Text ''email'']],
        web, pisa_td room, pisa_td phone,
        Elem ''td'' [] [Elem ''a'' [(''class'', ''openscheda''), (''data-url'', detail_url)] [Text ''scheda'']]]"

definition detail_url1 :: url where "detail_url1 = ''https://work.di.unipi.it/api/persona/1''"

definition detail_url2 :: url where "detail_url2 = ''https://work.di.unipi.it/api/persona/2''"

definition rossi_row :: node where
  "rossi_row =
     pisa_person ''Professori'' ''Anna Maria'' ''Rossi'' ''anna.rossi''
       (Elem ''td'' [] [Elem ''a'' [(''href'', ''https://pages.di.unipi.it/rossi'')] [Text ''web'']])
       ''Room 12'' ''tel. 050 2212'' detail_url1"

definition bianchi_row :: node where
  "bianchi_row = pisa_person ''Ricercatori'' ''anna'' ''Bianchi'' [] (pisa_td []) ''Room 3'' ''tel.050 0000'' detail_url2"

definition short_row :: node where
  "short_row = Elem ''tr'' [(''data-cat'', ''Altro'')] [pisa_td ''Staff'', pisa_td ''Only'', pisa_td ''three'']"

definition pisa_page :: document where
  "pisa_page = [Elem ''table'' [] [rossi_row, bianchi_row, short_row]]"

definition pisa_site :: "url \<Rightarrow> document option" where
  "pisa_site u = (if u = MAIN_URL then Some pisa_page else None)"

definition test_env :: pisa_env where
  "test_env =
     \<lparr>genderize = (\<lambda>w. if w = ''Anna'' then Reply 200 (Some ''female'') (Some 0.97)
                       else Reply 200 (Some ''male'') (Some 0.6)),
      detail = (\<lambda>u. if u = detail_url1
                     then Some (JObj [(''unimap'', JObj [(''arpi'', JStr ''pubs''), (''insegnamenti'', JStr ''courses'')])])
                     else None),
      parse = (\<lambda>s. if s = ''pubs''
                    then [Elem ''ul'' [] [Elem ''li'' [] [Text ''Paper A''], Elem ''li'' [] [Text '' Paper B'']]]
                    else [Elem ''ul'' [] [Elem ''li'' [] [Text ''Algorithms'']]])\<rparr>"

definition expected_lines :: "string list list" where
  "expected_lines =
     [[''Professori'', ''Anna Maria'', ''Rossi'', ''female'', ''anna.rossi@unipi.it'',
       ''https://pages.di.unipi.it/rossi'', ''Room 12'', ''050 2212'', ''Paper A ; Paper B'', ''Algorithms''],
      [''Ricercatori'', ''anna'', ''Bianchi'', ''female'', ''N/A'', ''N/A'', ''Room 3'', ''050 0000'',
       ''Error/Empty'', ''Error/Empty'']]"

definition six_cell_row :: node where
  "six_cell_row =
     Elem ''tr'' [(''data-cat'', ''Professori'')]
       (map pisa_td [''Luca'', ''Verdi'', [], [], ''Room 1'', ''tel. 050 1111''])"

definition nameless_row :: node where
  "nameless_row =
     Elem ''tr'' [(''data-cat'', ''Professori'')]
       (map pisa_td [[], ''Verdi'', [], [], ''Room 1'', ''tel. 050 1111'', []])"

section \<open>What the run on the page does\<close>

lemma pisa_run_some: "scrape_pisa pisa_site test_env = Some (the (scrape_pisa pisa_site test_env))"
  by (simp add: scrape_pisa_def pisa_site_def)

lemma pisa_run_lines: "tl (csv_rows (outcome_state (the (scrape_pisa pisa_site test_env)))) = expected_lines"
  by code_simp

text \<open>
  On the sample page the run writes the header and two lines, in page order,
  and skips the three-cell row. The two first names \<open>Anna Maria\<close> and \<open>anna\<close> share
  the key \<open>anna\<close>: the genderize service is asked once, for \<open>Anna\<close>, and both lines
  carry its answer. The first profile's detail fragments are flattened; the second
  profile's detail request fails and gives \<open>Error/Empty\<close> without stopping the run.
\<close>

theorem scrape_pisa_example:
  "(case scrape_pisa pisa_site test_env of
      Some (Normal st) \<Rightarrow>
        csv_rows st = pisa_header # expected_lines \<and> count st = 2 \<and>
        gender_cache st ''anna'' = Some ''female'' \<and>
        trace st = [Fetch MAIN_URL, Fetch (genderize_url ''Anna''), Sleep 100,
                    Fetch detail_url1, Sleep 200, Fetch detail_url2, Sleep 200]
    | _ \<Rightarrow> False)"
  by code_simp

section \<open>The run properties at the sample inputs\<close>

theorem scrape_pisa_csv_witness: "csv_ok (outcome_state (the (scrape_pisa pisa_site test_env)))"
  by (rule scrape_pisa_csv [OF pisa_run_some])

theorem scrape_pisa_same_key_witness:
  "name_key (expected_lines ! 0 ! 1) = name_key (expected_lines ! 1 ! 1) \<and>
   expected_lines ! 0 ! 3 = expected_lines ! 1 ! 3"
proof
  show k: "name_key (expected_lines ! 0 ! 1) = name_key (expected_lines ! 1 ! 1)"
    by code_simp
  show "expected_lines ! 0 ! 3 = expected_lines ! 1 ! 3"
    by (rule scrape_pisa_same_key [OF pisa_run_some _ _ k]) (simp_all add: pisa_run_lines expected_lines_def)
qed

theorem scrape_pisa_lookups_witness:
  "take 1 (trace (outcome_state (the (scrape_pisa pisa_site test_env)))) = [Fetch MAIN_URL] \<and>
   requests_paired (drop 1 (trace (outcome_state (the (scrape_pisa pisa_site test_env))))) \<and>
   count_list (trace (outcome_state (the (scrape_pisa pisa_site test_env)))) (Sleep 100) =
     card (dom (gender_cache (outcome_state (the (scrape_pisa pisa_site test_env)))))"
  by (rule scrape_pisa_lookups [OF pisa_run_some])

theorem pisa_rows_six_cells_witness:
  "\<exists>st'. pisa_rows test_env [six_cell_row] pisa_init = Raised IndexError st' \<and>
     csv_rows st' = csv_rows pisa_init \<and> count st' = count pisa_init \<and>
     gender_cache st' (name_key (get_text_strip (find_all (is_tag ''td'') (children six_cell_row) ! 0))) \<noteq> None"
  by (rule pisa_rows_six_cells) code_simp+

theorem pisa_rows_nameless_witness:
  "pisa_rows test_env [nameless_row, six_cell_row] pisa_init = Raised IndexError pisa_init"
  by (rule pisa_rows_nameless) code_simp+

lemma pisa_page_rows_normal:
  "pisa_rows test_env (find_all is_person_row pisa_page) pisa_init =
     Normal (outcome_state (pisa_rows test_env (find_all is_person_row pisa_page) pisa_init))"
proof -
  have "case pisa_rows test_env (find_all is_person_row pisa_page) pisa_init of
          Normal st \<Rightarrow> True | Raised e st \<Rightarrow> False"
    by code_simp
  then show ?thesis by (simp split: outcome.splits)
qed

theorem pisa_rows_order_witness:
  "map (\<lambda>l. l ! 1)
     (drop (length (csv_rows pisa_init))
       (csv_rows (outcome_state (pisa_rows test_env (find_all is_person_row pisa_page) pisa_init)))) =
   map (\<lambda>row. get_text_strip (find_all (is_tag ''td'') (children row) ! 0))
     (filter (\<lambda>row. 6 \<le> length (find_all (is_tag ''td'') (children row))) (find_all is_person_row pisa_page))"
  by (rule pisa_rows_order [OF pisa_page_rows_normal])

theorem pisa_rows_detail_failed_witness:
  "\<exists>st'. pisa_rows test_env [bianchi_row] pisa_init = pisa_rows test_env [] st' \<and>
     butlast (csv_rows st') = csv_rows pisa_init \<and>
     take 3 (last (csv_rows st')) =
       [''Ricercatori'', get_text_strip (find_all (is_tag ''td'') (children bianchi_row) ! 0),
        get_text_strip (find_all (is_tag ''td'') (children bianchi_row) ! 1)] \<and>
     drop 4 (last (csv_rows st')) =
       [pisa_email (find_all (is_tag ''td'') (children bianchi_row) ! 2),
        pisa_website (find_all (is_tag ''td'') (children bianchi_row) ! 3),
        get_text_strip (find_all (is_tag ''td'') (children bianchi_row) ! 4),
        pisa_phone (find_all (is_tag ''td'') (children bianchi_row) ! 5), ''Error/Empty'', ''Error/Empty'']"
  by (rule pisa_rows_detail_failed
        [where t = "Elem ''a'' [(''class'', ''openscheda''), (''data-url'', detail_url2)] [Text ''scheda'']"
           and u = detail_url2])
    code_simp+

end
