(* ===== verification/Dashboard.thy ===== *)
theory Dashboard
  imports PisaRuns Frame
begin

text \<open>
  The data cleaning of the Pisa dashboard (\<open>create_dashboard()\<close> in
  \<open>src/pisa_visualizer.py\<close>) on the lines the Pisa scraper writes, read as in
  \<open>Frame\<close>. Numeric conversion of a column is not modelled: it does not change the
  values counted here, since only the whitespace-separated words of a room matter and a
  number is one word. \<open>Role\<close> removes the three label pieces from
  the category (\<open>Series.str.replace\<close>, literal and everywhere, \<open>NaN\<close> kept), which
  raises \<open>AttributeError\<close> when the column holds no string at all; \<open>Building\<close> is the
  last word of a room of two words or more (\<open>str(NaN)\<close> is \<open>nan\<close>), else
  \<open>Unknown\<close>. The charts' order and the plotting are not modelled.
\<close>

definition pisa_role :: "string \<Rightarrow> string" where
  "pisa_role c = replace_all '' - empty'' [] (replace_all ''Staff - '' [] (replace_all ''Faculty - '' [] c))"

text \<open>Lines 20--23: the \<open>Role\<close> column.\<close>

definition role_column :: "string list list \<Rightarrow> cell list result" where
  "role_column csv =
     (case column csv ''Category'' of
        Some cs \<Rightarrow>
          (if cs \<noteq> [] \<and> list_all (\<lambda>c. c = NaN) cs then Inl AttributeError
           else Inr (map (\<lambda>c. case c of Str s \<Rightarrow> Str (pisa_role s) | NaN \<Rightarrow> NaN) cs))
      | None \<Rightarrow> Inr (replicate (length (tl csv)) (Str ''Unknown'')))"

definition cell_str :: "cell \<Rightarrow> string" where
  "cell_str c = (case c of Str s \<Rightarrow> s | NaN \<Rightarrow> ''nan'')"

definition building_of :: "string \<Rightarrow> string" where
  "building_of x = (let ws = split_ws x in if 1 < length ws then last ws else ''Unknown'')"

text \<open>Line 26: the \<open>Building\<close> column (\<open>df['Room']\<close> raises \<open>KeyError\<close> without a Room column).\<close>

definition building_column :: "string list list \<Rightarrow> cell list result" where
  "building_column csv =
     (case column csv ''Room'' of
        None \<Rightarrow> Inl KeyError
      | Some rs \<Rightarrow> Inr (map (\<lambda>r. Str (building_of (cell_str r))) rs))"

record dashboard =
  gender_counts :: "string multiset"
  role_counts :: "string multiset"
  building_counts :: "string multiset"

text \<open>
  The counts behind the four charts (lines 14--52) of a file that exists: \<open>EmptyDataError\<close>
  when it is empty; the gender chart only with a Gender column.
\<close>

definition create_dashboard :: "string list list \<Rightarrow> dashboard result" where
  "create_dashboard csv =
     (if csv = [] then Inl EmptyDataError else
     ebind (role_column csv) (\<lambda>roles.
       ebind (building_column csv) (\<lambda>buildings.
         Inr \<lparr>gender_counts = (case column csv ''Gender'' of None \<Rightarrow> {#} | Some gs \<Rightarrow> value_counts gs),
              role_counts = value_counts roles,
              building_counts = value_counts buildings\<rparr>)))"

section \<open>Reading the scraper's file\<close>

lemma cell_str_read_cell: "cell_str (read_cell s) = (if s \<in> set na_values then ''nan'' else s)"
  by (simp add: cell_str_def read_cell_def)

lemma pisa_header_index:
  "col_index ''Category'' pisa_header = Some 0" "col_index ''Gender'' pisa_header = Some 3"
  "col_index ''Room'' pisa_header = Some 6"
  by (simp_all add: pisa_header_def)

text \<open>The counts of a file with the Pisa header and ten fields on every line.\<close>

lemma dashboard_of_pisa_csv:
  assumes lines: "list_all (\<lambda>l. length l = 10) lines"
  shows "case create_dashboard (pisa_header # lines) of
           Inl e \<Rightarrow> e = AttributeError \<and> lines \<noteq> [] \<and> list_all (\<lambda>l. l ! 0 \<in> set na_values) lines
         | Inr d \<Rightarrow> size (building_counts d) = length lines \<and>
             size (role_counts d) + length (filter (\<lambda>l. l ! 0 \<in> set na_values) lines) = length lines \<and>
             size (gender_counts d) + length (filter (\<lambda>l. l ! 3 \<in> set na_values) lines) = length lines"
proof -
  have len: "list_all (\<lambda>l. i < length l) lines" if "i < 10" for i
    using lines that by (auto simp: list_all_iff)
  note cols = column_header [OF pisa_header_index(1) len] column_header [OF pisa_header_index(2) len]
    column_header [OF pisa_header_index(3) len]
  have na: "length (filter (\<lambda>l. read_cell (l ! k) \<noteq> NaN) lines) + length (filter (\<lambda>l. l ! k \<in> set na_values) lines)
      = length lines" for k
    using sum_length_filter_compl [of "\<lambda>l. l ! k \<in> set na_values" lines] by simp
  show ?thesis
    using na [of 0] na [of 3]
    by (auto simp: create_dashboard_def role_column_def building_column_def cols size_value_counts
        filter_map comp_def list_all_iff)
qed

section \<open>Properties of the dashboard\<close>

text \<open>
  The dashboard on the file of any Pisa run: it fails only with
  \<open>AttributeError\<close>, when there are lines and every category is a missing marker;
  otherwise the building chart counts every written profile once, and the role and
  gender charts count every profile except those whose category, resp. gender, pandas
  reads as missing.
\<close>

theorem scrape_pisa_dashboard:
  assumes "scrape_pisa site env = Some r"
  shows "case create_dashboard (csv_rows (outcome_state r)) of
           Inl e \<Rightarrow> e = AttributeError \<and> tl (csv_rows (outcome_state r)) \<noteq> [] \<and>
                    list_all (\<lambda>l. l ! 0 \<in> set na_values) (tl (csv_rows (outcome_state r)))
         | Inr d \<Rightarrow> size (building_counts d) = length (tl (csv_rows (outcome_state r))) \<and>
             size (role_counts d) + length (filter (\<lambda>l. l ! 0 \<in> set na_values) (tl (csv_rows (outcome_state r))))
               = length (tl (csv_rows (outcome_state r))) \<and>
             size (gender_counts d) + length (filter (\<lambda>l. l ! 3 \<in> set na_values) (tl (csv_rows (outcome_state r))))
               = length (tl (csv_rows (outcome_state r)))"
proof -
  have "csv_ok (outcome_state r)"
    by (rule scrape_pisa_inv [OF pisa_row_csv_ok pisa_init_csv_ok assms])
  then obtain lines where c: "csv_rows (outcome_state r) = pisa_header # lines"
    and l: "list_all (\<lambda>l. length l = 10) lines"
    by (auto simp: csv_ok_def neq_Nil_conv)
  show ?thesis unfolding c list.sel(3) by (rule dashboard_of_pisa_csv [OF l])
qed

theorem scrape_pisa_dashboard_witness:
  "case create_dashboard (csv_rows (outcome_state (the (scrape_pisa pisa_site test_env)))) of
     Inl e \<Rightarrow> e = AttributeError \<and> tl (csv_rows (outcome_state (the (scrape_pisa pisa_site test_env)))) \<noteq> [] \<and>
              list_all (\<lambda>l. l ! 0 \<in> set na_values) (tl (csv_rows (outcome_state (the (scrape_pisa pisa_site test_env)))))
   | Inr d \<Rightarrow> size (building_counts d) = length (tl (csv_rows (outcome_state (the (scrape_pisa pisa_site test_env))))) \<and>
       size (role_counts d) + length (filter (\<lambda>l. l ! 0 \<in> set na_values) (tl (csv_rows (outcome_state (the (scrape_pisa pisa_site test_env))))))
         = length (tl (csv_rows (outcome_state (the (scrape_pisa pisa_site test_env))))) \<and>
       size (gender_counts d) + length (filter (\<lambda>l. l ! 3 \<in> set na_values) (tl (csv_rows (outcome_state (the (scrape_pisa pisa_site test_env))))))
         = length (tl (csv_rows (outcome_state (the (scrape_pisa pisa_site test_env)))))"
  by (rule scrape_pisa_dashboard [OF pisa_run_some])

text \<open>
  C34: The counts the dashboard draws, for any file with the Pisa header and ten fields
  per line: the role chart counts the cleaned categories of the lines whose category
  pandas does not read as missing (an empty or \<open>N/A\<close> category is silently left out),
  the gender chart the genders not read as missing, and the building chart one building
  per line (\<open>Unknown\<close> for a room of fewer than two words, a missing room included).
  The only failure is \<open>AttributeError\<close>, when there are lines and every category is
  missing.
\<close>

theorem dashboard_counts:
  assumes "list_all (\<lambda>l. length l = 10) lines"
  shows "case create_dashboard (pisa_header # lines) of
           Inl e \<Rightarrow> e = AttributeError \<and> lines \<noteq> [] \<and> list_all (\<lambda>l. l ! 0 \<in> set na_values) lines
         | Inr d \<Rightarrow>
             role_counts d = mset (map pisa_role (filter (\<lambda>c. c \<notin> set na_values) (map (\<lambda>l. l ! 0) lines))) \<and>
             gender_counts d = mset (filter (\<lambda>g. g \<notin> set na_values) (map (\<lambda>l. l ! 3) lines)) \<and>
             building_counts d =
               mset (map (\<lambda>l. building_of (if l ! 6 \<in> set na_values then ''nan'' else l ! 6)) lines)"
proof -
  have len: "list_all (\<lambda>l. i < length l) lines" if "i < 10" for i
    using assms that by (auto simp: list_all_iff)
  note cols = column_header [OF pisa_header_index(1) len] column_header [OF pisa_header_index(2) len]
    column_header [OF pisa_header_index(3) len]
  show ?thesis
    by (auto simp: create_dashboard_def role_column_def building_column_def cols value_counts_def list_all_iff
        comp_def present_map_cell present_map_read_cell present_map_Str cell_str_read_cell)
qed

theorem dashboard_counts_witness:
  "case create_dashboard (pisa_header # ([[[], ''Luca'', ''Verdi'', ''male'', ''N/A'', ''N/A'', ''331 O'', ''050'', ''N/A'', ''N/A''],
        [''Faculty - Professori'', ''Anna'', ''Rossi'', ''female'', ''N/A'', ''N/A'', ''12 C'', ''050'', ''N/A'', ''N/A'']])) of
           Inl e \<Rightarrow> e = AttributeError \<and> ([[[], ''Luca'', ''Verdi'', ''male'', ''N/A'', ''N/A'', ''331 O'', ''050'', ''N/A'', ''N/A''],
        [''Faculty - Professori'', ''Anna'', ''Rossi'', ''female'', ''N/A'', ''N/A'', ''12 C'', ''050'', ''N/A'', ''N/A'']]) \<noteq> [] \<and> list_all (\<lambda>l. l ! 0 \<in> set na_values) ([[[], ''Luca'', ''Verdi'', ''male'', ''N/A'', ''N/A'', ''331 O'', ''050'', ''N/A'', ''N/A''],
        [''Faculty - Professori'', ''Anna'', ''Rossi'', ''female'', ''N/A'', ''N/A'', ''12 C'', ''050'', ''N/A'', ''N/A'']])
         | Inr d \<Rightarrow>
             role_counts d = mset (map pisa_role (filter (\<lambda>c. c \<notin> set na_values) (map (\<lambda>l. l ! 0) ([[[], ''Luca'', ''Verdi'', ''male'', ''N/A'', ''N/A'', ''331 O'', ''050'', ''N/A'', ''N/A''],
        [''Faculty - Professori'', ''Anna'', ''Rossi'', ''female'', ''N/A'', ''N/A'', ''12 C'', ''050'', ''N/A'', ''N/A'']])))) \<and>
             gender_counts d = mset (filter (\<lambda>g. g \<notin> set na_values) (map (\<lambda>l. l ! 3) ([[[], ''Luca'', ''Verdi'', ''male'', ''N/A'', ''N/A'', ''331 O'', ''050'', ''N/A'', ''N/A''],
        [''Faculty - Professori'', ''Anna'', ''Rossi'', ''female'', ''N/A'', ''N/A'', ''12 C'', ''050'', ''N/A'', ''N/A'']]))) \<and>
             building_counts d =
               mset (map (\<lambda>l. building_of (if l ! 6 \<in> set na_values then ''nan'' else l ! 6)) ([[[], ''Luca'', ''Verdi'', ''male'', ''N/A'', ''N/A'', ''331 O'', ''050'', ''N/A'', ''N/A''],
        [''Faculty - Professori'', ''Anna'', ''Rossi'', ''female'', ''N/A'', ''N/A'', ''12 C'', ''050'', ''N/A'', ''N/A'']]))"
  by (rule dashboard_counts) simp

text \<open>
  \<open>Role\<close> strips the \<open>Faculty - \<close> label from a category whose rest holds none
  of the three label pieces, and leaves such a rest unchanged.
\<close>

theorem pisa_role_prefix:
  assumes "\<not> contains ''Faculty - '' x" and "\<not> contains ''Staff - '' x" and "\<not> contains '' - empty'' x"
  shows "pisa_role (''Faculty - '' @ x) = x \<and> pisa_role x = x"
  using assms by (simp add: pisa_role_def replace_all_prefix replace_all_no_occ)

theorem pisa_role_prefix_witness:
  "pisa_role (''Faculty - '' @ ''Professore Ordinario'') = ''Professore Ordinario'' \<and>
   pisa_role ''Professore Ordinario'' = ''Professore Ordinario''"
  by (rule pisa_role_prefix) code_simp+

text \<open>
  \<open>Building\<close> is \<open>Unknown\<close> or the last word of a room of at least two words:
  never empty and without whitespace.
\<close>

theorem building_of_word:
  "building_of x = ''Unknown'' \<or>
   (1 < length (split_ws x) \<and> building_of x = last (split_ws x) \<and> is_word (building_of x))"
proof (cases "1 < length (split_ws x)")
  case True
  then have "last (split_ws x) \<in> set (split_ws x)" by (intro last_in_set) auto
  with True show ?thesis by (simp add: building_of_def split_ws_is_word)
qed (simp add: building_of_def)

theorem building_of_word_witness:
  "building_of ''331 O'' = ''Unknown'' \<or>
   (1 < length (split_ws ''331 O'') \<and> building_of ''331 O'' = last (split_ws ''331 O'') \<and>
    is_word (building_of ''331 O''))"
  by (rule building_of_word)

end
