(* ===== verification/Pipeline.thy ===== *)
theory Pipeline
  imports AarhusCharts Dashboard
begin

text \<open>
  The four scripts share the file system: each scraper writes its CSV file under
  \<open>data/\<close>, each visualizer reads it back and saves a PNG under \<open>images/\<close>. This theory
  models that store (\<open>fs\<close>: the directories, the CSV files as their lines of fields, the
  PNG files as the charts they show), the paths of the four configuration blocks
  (\<open>os.path.join\<close>), \<open>os.makedirs(..., exist_ok=True)\<close> run at import, \<open>open(..., 'w')\<close>
  and \<open>savefig\<close>, and each script run as \<open>python <script>\<close>, which ends normally or
  with an uncaught exception that leaves the files as they are. A run of the Aarhus
  scraper takes the crawl's fuel; a sequence of runs may see a different web each
  time (\<open>world\<close>).
\<close>

section \<open>Paths and the file system\<close>

text \<open>\<open>posixpath.join(a, b)\<close> and \<open>posixpath.dirname(p)\<close>.\<close>

definition path_join :: "string \<Rightarrow> string \<Rightarrow> string" where
  "path_join a b =
     (if take 1 b = ''/'' then b else if a = [] \<or> last a = CHR ''/'' then a @ b else a @ ''/'' @ b)"

definition dirname :: "string \<Rightarrow> string" where
  "dirname p =
     (let head = rev (dropWhile (\<lambda>c. c \<noteq> CHR ''/'') (rev p)) in
      if list_ex (\<lambda>c. c \<noteq> CHR ''/'') head then rev (dropWhile (\<lambda>c. c = CHR ''/'') (rev head)) else head)"

datatype image = AarhusImage aarhus_charts | PisaImage dashboard

record fs =
  dirs :: "string set"
  csv_files :: "string \<rightharpoonup> string list list"
  png_files :: "string \<rightharpoonup> image"

definition empty_fs :: fs where
  "empty_fs = \<lparr>dirs = {}, csv_files = Map.empty, png_files = Map.empty\<rparr>"

text \<open>\<open>os.makedirs(d, exist_ok=True)\<close> for a one-component directory.\<close>

definition makedirs :: "string \<Rightarrow> fs \<Rightarrow> fs" where
  "makedirs d fs = fs\<lparr>dirs := insert d (dirs fs)\<rparr>"

definition dir_exists :: "fs \<Rightarrow> string \<Rightarrow> bool" where
  "dir_exists fs d \<longleftrightarrow> d = [] \<or> d \<in> dirs fs"

text \<open>A \<open>with open(p, 'w')\<close> block that writes \<open>lines\<close> and closes the file.\<close>

definition write_csv :: "string \<Rightarrow> string list list \<Rightarrow> fs \<Rightarrow> fs result" where
  "write_csv p lines fs =
     (if dir_exists fs (dirname p) then Inr (fs\<lparr>csv_files := (csv_files fs)(p \<mapsto> lines)\<rparr>)
      else Inl FileNotFoundError)"

definition savefig :: "string \<Rightarrow> image \<Rightarrow> fs \<Rightarrow> fs result" where
  "savefig p img fs =
     (if dir_exists fs (dirname p) then Inr (fs\<lparr>png_files := (png_files fs)(p \<mapsto> img)\<rparr>)
      else Inl FileNotFoundError)"

section \<open>The configuration blocks\<close>

definition AARHUS_OUTPUT_FILE :: string where
  "AARHUS_OUTPUT_FILE = path_join ''data'' ''aarhus_staff.csv''"

definition PISA_OUTPUT_FILE :: string where
  "PISA_OUTPUT_FILE = path_join ''data'' ''unipi_faculty_detailed.csv''"

definition AARHUS_INPUT_FILE :: string where
  "AARHUS_INPUT_FILE = path_join ''data'' ''aarhus_staff.csv''"

definition AARHUS_OUTPUT_IMG :: string where
  "AARHUS_OUTPUT_IMG = path_join ''images'' ''aarhus_dashboard.png''"

definition PISA_INPUT_FILE :: string where
  "PISA_INPUT_FILE = path_join ''data'' ''unipi_faculty_detailed.csv''"

definition PISA_OUTPUT_IMG :: string where
  "PISA_OUTPUT_IMG = path_join ''images'' ''pisa_dashboard.png''"

section \<open>The scripts\<close>

text \<open>The end of \<open>scrape_aarhus()\<close>: the file is written only when there are records.\<close>

definition aarhus_save :: "staff_row list \<Rightarrow> fs \<Rightarrow> fs outcome" where
  "aarhus_save rows fs =
     (case aarhus_csv rows of
        None \<Rightarrow> Normal fs
      | Some lines \<Rightarrow> (case write_csv AARHUS_OUTPUT_FILE lines fs of Inl e \<Rightarrow> Raised e fs | Inr fs' \<Rightarrow> Normal fs'))"

text \<open>\<open>python aarhus_scraper.py\<close>: \<open>os.makedirs("data")\<close> at import, then \<open>scrape_aarhus()\<close>.\<close>

definition aarhus_scraper_main :: "nat \<Rightarrow> site \<Rightarrow> detector \<Rightarrow> fs \<Rightarrow> fs outcome option" where
  "aarhus_scraper_main n site d fs =
     map_option (\<lambda>st. aarhus_save (all_staff_data st) (makedirs ''data'' fs)) (aarhus_crawl n site d aarhus_init)"

text \<open>
  \<open>python pisa_scraper.py\<close>: after a failed fetch of the main page \<open>scrape_pisa()\<close>
  returns before opening the file; otherwise the file is opened (and emptied), the loop
  writes its lines, and the \<open>with\<close> block closes the file whether the loop ends or
  raises, so the file holds the lines written before the exception.
\<close>

definition pisa_scraper_main :: "site \<Rightarrow> pisa_env \<Rightarrow> fs \<Rightarrow> fs outcome" where
  "pisa_scraper_main site env fs =
     (let fs0 = makedirs ''data'' fs in
      case scrape_pisa site env of
        None \<Rightarrow> Normal fs0
      | Some r \<Rightarrow>
          (case write_csv PISA_OUTPUT_FILE (csv_rows (outcome_state r)) fs0 of
             Inl e \<Rightarrow> Raised e fs0
           | Inr fs1 \<Rightarrow> (case r of Normal st \<Rightarrow> Normal fs1 | Raised e st \<Rightarrow> Raised e fs1)))"

text \<open>\<open>python aarhus_visualizer.py\<close>: \<open>os.makedirs("images")\<close>, then \<open>create_charts()\<close>.\<close>

definition aarhus_visualizer_main :: "fs \<Rightarrow> fs outcome" where
  "aarhus_visualizer_main fs =
     (let fs0 = makedirs ''images'' fs in
      case create_charts (csv_files fs0 AARHUS_INPUT_FILE) of
        None \<Rightarrow> Normal fs0
      | Some (Inl e) \<Rightarrow> Raised e fs0
      | Some (Inr c) \<Rightarrow>
          (case savefig AARHUS_OUTPUT_IMG (AarhusImage c) fs0 of Inl e \<Rightarrow> Raised e fs0 | Inr fs1 \<Rightarrow> Normal fs1))"

text \<open>\<open>python pisa_visualizer.py\<close>: a missing file is reported and nothing is drawn.\<close>

definition pisa_visualizer_main :: "fs \<Rightarrow> fs outcome" where
  "pisa_visualizer_main fs =
     (let fs0 = makedirs ''images'' fs in
      case csv_files fs0 PISA_INPUT_FILE of
        None \<Rightarrow> Normal fs0
      | Some csv \<Rightarrow>
          (case create_dashboard csv of
             Inl e \<Rightarrow> Raised e fs0
           | Inr db \<Rightarrow>
               (case savefig PISA_OUTPUT_IMG (PisaImage db) fs0 of Inl e \<Rightarrow> Raised e fs0 | Inr fs1 \<Rightarrow> Normal fs1)))"

section \<open>Sequences of runs\<close>

text \<open>What the web and the services answer during one run.\<close>

record world =
  w_aarhus_site :: site
  w_detector :: detector
  w_fuel :: nat
  w_pisa_site :: site
  w_pisa_env :: pisa_env

datatype program = AarhusScraper | PisaScraper | AarhusVisualizer | PisaVisualizer

fun run_program :: "world \<Rightarrow> program \<Rightarrow> fs \<Rightarrow> fs outcome option" where
  "run_program w AarhusScraper fs = aarhus_scraper_main (w_fuel w) (w_aarhus_site w) (w_detector w) fs"
| "run_program w PisaScraper fs = Some (pisa_scraper_main (w_pisa_site w) (w_pisa_env w) fs)"
| "run_program w AarhusVisualizer fs = Some (aarhus_visualizer_main fs)"
| "run_program w PisaVisualizer fs = Some (pisa_visualizer_main fs)"

text \<open>Runs one after the other; \<open>None\<close> when a crawl runs out of fuel.\<close>

fun run_seq :: "(world \<times> program) list \<Rightarrow> fs \<Rightarrow> fs option" where
  "run_seq [] fs = Some fs"
| "run_seq ((w, p) # ps) fs = (case run_program w p fs of None \<Rightarrow> None | Some r \<Rightarrow> run_seq ps (outcome_state r))"

section \<open>Well-formed files\<close>

text \<open>
  The Aarhus file as \<open>scrape_aarhus\<close> writes it: the header, at least one line, nine
  fields on each line, one line per identity (email, else name); the Pisa file: the
  header and ten fields on each line.
\<close>

definition aarhus_file_ok :: "string list list \<Rightarrow> bool" where
  "aarhus_file_ok csv \<longleftrightarrow> csv \<noteq> [] \<and> hd csv = aarhus_headers \<and> tl csv \<noteq> [] \<and>
     list_all (\<lambda>l. length l = 9) (tl csv) \<and> distinct (map (\<lambda>l. unique_id (l ! 4) (l ! 1)) (tl csv))"

definition pisa_file_ok :: "string list list \<Rightarrow> bool" where
  "pisa_file_ok csv \<longleftrightarrow> csv \<noteq> [] \<and> hd csv = pisa_header \<and> list_all (\<lambda>l. length l = 10) csv"

definition fs_ok :: "fs \<Rightarrow> bool" where
  "fs_ok fs \<longleftrightarrow>
     (case csv_files fs AARHUS_OUTPUT_FILE of None \<Rightarrow> True | Some csv \<Rightarrow> aarhus_file_ok csv) \<and>
     (case csv_files fs PISA_OUTPUT_FILE of None \<Rightarrow> True | Some csv \<Rightarrow> pisa_file_ok csv)"

text \<open>A world with the sample sites of \<open>AarhusRuns\<close> and \<open>PisaRuns\<close>.\<close>

definition test_world :: world where
  "test_world = \<lparr>w_aarhus_site = two_page_site, w_detector = test_detector, w_fuel = 3,
                  w_pisa_site = pisa_site, w_pisa_env = test_env\<rparr>"

definition all_programs :: "(world \<times> program) list" where
  "all_programs = [(test_world, AarhusVisualizer), (test_world, AarhusScraper), (test_world, PisaScraper),
                   (test_world, AarhusVisualizer), (test_world, PisaVisualizer)]"

text \<open>A file system holding the file of an earlier Aarhus run.\<close>

definition old_fs :: fs where
  "old_fs = empty_fs\<lparr>csv_files := [AARHUS_OUTPUT_FILE \<mapsto> [aarhus_headers, staff_line sample_staff]]\<rparr>"

section \<open>Lemmas\<close>

text \<open>Each visualizer reads the file its scraper writes.\<close>

lemma input_files: "AARHUS_INPUT_FILE = AARHUS_OUTPUT_FILE" "PISA_INPUT_FILE = PISA_OUTPUT_FILE"
  by (simp_all add: AARHUS_INPUT_FILE_def AARHUS_OUTPUT_FILE_def PISA_INPUT_FILE_def PISA_OUTPUT_FILE_def)

lemma paths:
  "AARHUS_OUTPUT_FILE \<noteq> PISA_OUTPUT_FILE" "PISA_OUTPUT_FILE \<noteq> AARHUS_OUTPUT_FILE"
  "dirname AARHUS_OUTPUT_FILE = ''data''" "dirname PISA_OUTPUT_FILE = ''data''"
  "dirname AARHUS_OUTPUT_IMG = ''images''" "dirname PISA_OUTPUT_IMG = ''images''"
  by (simp_all add: AARHUS_OUTPUT_FILE_def PISA_OUTPUT_FILE_def
      AARHUS_OUTPUT_IMG_def PISA_OUTPUT_IMG_def path_join_def dirname_def)

lemma makedirs_files [simp]:
  "csv_files (makedirs d fs) = csv_files fs" "png_files (makedirs d fs) = png_files fs"
  by (simp_all add: makedirs_def)

lemma write_csv_made:
  "dirname p = d \<Longrightarrow>
     write_csv p lines (makedirs d fs) = Inr ((makedirs d fs)\<lparr>csv_files := (csv_files fs)(p \<mapsto> lines)\<rparr>)"
  by (simp add: write_csv_def dir_exists_def makedirs_def)

lemma savefig_made:
  "dirname p = d \<Longrightarrow>
     savefig p img (makedirs d fs) = Inr ((makedirs d fs)\<lparr>png_files := (png_files fs)(p \<mapsto> img)\<rparr>)"
  by (simp add: savefig_def dir_exists_def makedirs_def)

lemma savefig_csv: "savefig p img fs = Inr fs' \<Longrightarrow> csv_files fs' = csv_files fs"
  by (auto simp: savefig_def split: if_splits)

lemmas pipeline_simps = paths write_csv_made [OF paths(3)] write_csv_made [OF paths(4)]
  savefig_made [OF paths(5)] savefig_made [OF paths(6)]

text \<open>The visualizers never change a CSV file.\<close>

lemma aarhus_visualizer_csv: "csv_files (outcome_state (aarhus_visualizer_main fs)) = csv_files fs"
  by (auto simp: aarhus_visualizer_main_def Let_def dest: savefig_csv
      split: option.split sum.split)

lemma pisa_visualizer_csv: "csv_files (outcome_state (pisa_visualizer_main fs)) = csv_files fs"
  by (auto simp: pisa_visualizer_main_def Let_def dest: savefig_csv
      split: option.split sum.split)

text \<open>What each scraper leaves in its file.\<close>

lemma aarhus_scraper_file:
  assumes "aarhus_crawl n site d aarhus_init = Some st"
  shows "aarhus_scraper_main n site d fs =
           Some (Normal (if all_staff_data st = [] then makedirs ''data'' fs
                         else (makedirs ''data'' fs)\<lparr>csv_files := (csv_files fs)(AARHUS_OUTPUT_FILE \<mapsto>
                                  aarhus_headers # map staff_line (all_staff_data st))\<rparr>))"
  using assms by (simp add: aarhus_scraper_main_def aarhus_save_def aarhus_csv_def pipeline_simps)

lemma pisa_scraper_file:
  assumes "scrape_pisa site env = Some r"
  shows "pisa_scraper_main site env fs =
           (let fs1 = (makedirs ''data'' fs)\<lparr>csv_files := (csv_files fs)(PISA_OUTPUT_FILE \<mapsto> csv_rows (outcome_state r))\<rparr>
            in case r of Normal st \<Rightarrow> Normal fs1 | Raised e st \<Rightarrow> Raised e fs1)"
  using assms by (simp add: pisa_scraper_main_def pipeline_simps Let_def)

lemma pisa_scraper_csv:
  "scrape_pisa site env = Some r \<Longrightarrow>
     csv_files (outcome_state (pisa_scraper_main site env fs)) = (csv_files fs)(PISA_OUTPUT_FILE \<mapsto> csv_rows (outcome_state r))"
  by (simp add: pisa_scraper_file Let_def split: outcome.split)

lemma pisa_scraper_no_page:
  "scrape_pisa site env = None \<Longrightarrow> pisa_scraper_main site env fs = Normal (makedirs ''data'' fs)"
  by (simp add: pisa_scraper_main_def)

lemma aarhus_file_ok_rows:
  "rs \<noteq> [] \<Longrightarrow> distinct (map row_uid rs) \<Longrightarrow> aarhus_file_ok (aarhus_headers # map staff_line rs)"
  by (simp add: aarhus_file_ok_def list_all_iff staff_line_def row_uid_def [abs_def] comp_def)

lemma pisa_file_ok_rows: "csv_ok st \<Longrightarrow> pisa_file_ok (csv_rows st)"
  by (simp add: csv_ok_def pisa_file_ok_def)

text \<open>Every run keeps the files well-formed.\<close>

lemma aarhus_scraper_fs_ok:
  assumes "aarhus_scraper_main n site d fs = Some r" and "fs_ok fs"
  shows "fs_ok (outcome_state r)"
proof -
  obtain st where st: "aarhus_crawl n site d aarhus_init = Some st"
    using assms(1) by (auto simp: aarhus_scraper_main_def)
  have "distinct (map row_uid (all_staff_data st))"
    using aarhus_crawl_uid_inv [OF uid_inv_init st] by (simp add: uid_inv_def)
  then show ?thesis
    using assms aarhus_scraper_file [OF st, of fs]
    by (auto simp: fs_ok_def paths aarhus_file_ok_rows)
qed

lemma pisa_scraper_fs_ok:
  assumes "fs_ok fs"
  shows "fs_ok (outcome_state (pisa_scraper_main site env fs))"
proof (cases "scrape_pisa site env")
  case None
  then show ?thesis using assms by (simp add: pisa_scraper_no_page fs_ok_def)
next
  case (Some r)
  have "pisa_file_ok (csv_rows (outcome_state r))"
    by (rule pisa_file_ok_rows, rule scrape_pisa_inv [OF pisa_row_csv_ok pisa_init_csv_ok Some])
  then show ?thesis
    using assms pisa_scraper_csv [OF Some, of fs] by (simp add: fs_ok_def paths)
qed

lemma run_program_fs_ok:
  assumes "run_program w p fs = Some r" and "fs_ok fs"
  shows "fs_ok (outcome_state r)"
proof (cases p)
  case AarhusScraper
  then show ?thesis using assms by (auto intro: aarhus_scraper_fs_ok)
next
  case PisaScraper
  then show ?thesis using assms by (auto simp: pisa_scraper_fs_ok)
next
  case AarhusVisualizer
  then show ?thesis using assms by (auto simp: fs_ok_def aarhus_visualizer_csv)
next
  case PisaVisualizer
  then show ?thesis using assms by (auto simp: fs_ok_def pisa_visualizer_csv)
qed

text \<open>The visualizers on well-formed files.\<close>

lemma aarhus_visualizer_ok:
  assumes "csv_files fs AARHUS_OUTPUT_FILE = Some csv" and "aarhus_file_ok csv"
  shows "\<exists>c. aarhus_visualizer_main fs =
           Normal ((makedirs ''images'' fs)\<lparr>png_files := (png_files fs)(AARHUS_OUTPUT_IMG \<mapsto> AarhusImage c)\<rparr>) \<and>
           gender_chart c = value_counts (map (\<lambda>l. read_cell (l ! 2)) (tl csv))"
proof -
  obtain lines where csv: "csv = aarhus_headers # lines" "list_all (\<lambda>l. length l = 9) lines"
    using assms(2) by (cases csv) (auto simp: aarhus_file_ok_def)
  obtain c where "create_charts (Some csv) = Some (Inr c)"
      "gender_chart c = value_counts (map (\<lambda>l. read_cell (l ! 2)) lines)"
    using create_charts_file [OF csv(2)] csv(1) by blast
  then show ?thesis
    using assms(1) csv(1) by (auto simp: aarhus_visualizer_main_def pipeline_simps input_files)
qed

lemma pisa_visualizer_ok:
  assumes "csv_files fs PISA_OUTPUT_FILE = Some csv" and "pisa_file_ok csv"
  shows "case pisa_visualizer_main fs of
           Raised e fs' \<Rightarrow> e = AttributeError \<and> fs' = makedirs ''images'' fs
         | Normal fs' \<Rightarrow> \<exists>db. fs' = (makedirs ''images'' fs)\<lparr>png_files := (png_files fs)(PISA_OUTPUT_IMG \<mapsto> PisaImage db)\<rparr> \<and>
             size (building_counts db) = length (tl csv)"
proof -
  obtain lines where csv: "csv = pisa_header # lines" "list_all (\<lambda>l. length l = 10) lines"
    using assms(2) by (cases csv) (auto simp: pisa_file_ok_def)
  have "case create_dashboard csv of
          Inl e \<Rightarrow> e = AttributeError \<and> lines \<noteq> [] \<and> list_all (\<lambda>l. l ! 0 \<in> set na_values) lines
        | Inr d \<Rightarrow> size (building_counts d) = length lines \<and>
             size (role_counts d) + length (filter (\<lambda>l. l ! 0 \<in> set na_values) lines) = length lines \<and>
             size (gender_counts d) + length (filter (\<lambda>l. l ! 3 \<in> set na_values) lines) = length lines"
    unfolding csv(1) by (rule dashboard_of_pisa_csv [OF csv(2)])
  then show ?thesis
    using assms(1) csv(1)
    by (auto simp: pisa_visualizer_main_def pipeline_simps input_files split: sum.splits)
qed

lemma all_programs_run: "run_seq all_programs empty_fs \<noteq> None"
  by code_simp

lemma fs_ok_empty: "fs_ok empty_fs"
  by (simp add: fs_ok_def empty_fs_def)

section \<open>Properties of the pipeline\<close>

text \<open>
  C18: Whatever the web answers and in whatever order the four scripts are run, the CSV
  files stay well-formed: the Aarhus file has its header, nine fields per line, at least
  one line and one line per identity; the Pisa file has its header and ten fields per
  line. Crashed runs included.
\<close>

theorem run_seq_fs_ok:
  assumes "fs_ok fs" and "run_seq ps fs = Some fs'"
  shows "fs_ok fs'"
  using assms
proof (induction ps arbitrary: fs)
  case Nil
  then show ?case by simp
next
  case (Cons wp ps)
  obtain w p where wp: "wp = (w, p)" by (cases wp)
  then obtain r where r: "run_program w p fs = Some r" "run_seq ps (outcome_state r) = Some fs'"
    using Cons.prems(2) by (auto split: option.splits)
  then show ?case using Cons.IH [OF run_program_fs_ok [OF r(1) Cons.prems(1)]] by simp
qed

theorem run_seq_fs_ok_witness:
  "\<exists>fs'. run_seq all_programs empty_fs = Some fs' \<and> fs_ok fs'"
proof -
  obtain fs' where fs': "run_seq all_programs empty_fs = Some fs'" using all_programs_run by blast
  then show ?thesis using run_seq_fs_ok [OF fs_ok_empty fs'] by blast
qed

text \<open>
  C19: On well-formed files the Aarhus visualizer always exits normally, saving its
  image whenever the scraper's file exists, and the Pisa visualizer raises nothing but
  \<open>AttributeError\<close> (every category read as missing): the \<open>FileNotFoundError\<close> of
  \<open>read_csv\<close> is caught, and \<open>savefig\<close> cannot fail after \<open>os.makedirs("images")\<close>.
\<close>

theorem visualizers_safe:
  assumes "fs_ok fs"
  shows "(\<exists>fs'. aarhus_visualizer_main fs = Normal fs' \<and>
            (case csv_files fs AARHUS_OUTPUT_FILE of
               None \<Rightarrow> png_files fs' = png_files fs
             | Some csv \<Rightarrow> (\<exists>c. png_files fs' AARHUS_OUTPUT_IMG = Some (AarhusImage c)))) \<and>
         (case pisa_visualizer_main fs of Raised e fs' \<Rightarrow> e = AttributeError | Normal fs' \<Rightarrow> True)"
proof
  show "\<exists>fs'. aarhus_visualizer_main fs = Normal fs' \<and>
          (case csv_files fs AARHUS_OUTPUT_FILE of
             None \<Rightarrow> png_files fs' = png_files fs
           | Some csv \<Rightarrow> (\<exists>c. png_files fs' AARHUS_OUTPUT_IMG = Some (AarhusImage c)))"
  proof (cases "csv_files fs AARHUS_OUTPUT_FILE")
    case None
    then show ?thesis by (simp add: aarhus_visualizer_main_def create_charts_def input_files)
  next
    case (Some csv)
    then have "aarhus_file_ok csv" using assms by (simp add: fs_ok_def)
    then show ?thesis using aarhus_visualizer_ok [OF Some] Some by auto
  qed
  show "case pisa_visualizer_main fs of Raised e fs' \<Rightarrow> e = AttributeError | Normal fs' \<Rightarrow> True"
  proof (cases "csv_files fs PISA_OUTPUT_FILE")
    case None
    then show ?thesis by (simp add: pisa_visualizer_main_def input_files)
  next
    case (Some csv)
    then have "pisa_file_ok csv" using assms by (simp add: fs_ok_def)
    then show ?thesis using pisa_visualizer_ok [OF Some] by (auto split: outcome.splits)
  qed
qed

theorem visualizers_safe_witness:
  "(\<exists>fs'. aarhus_visualizer_main (the (run_seq all_programs empty_fs)) = Normal fs' \<and>
      (case csv_files (the (run_seq all_programs empty_fs)) AARHUS_OUTPUT_FILE of
         None \<Rightarrow> png_files fs' = png_files (the (run_seq all_programs empty_fs))
       | Some csv \<Rightarrow> (\<exists>c. png_files fs' AARHUS_OUTPUT_IMG = Some (AarhusImage c)))) \<and>
   (case pisa_visualizer_main (the (run_seq all_programs empty_fs)) of
      Raised e fs' \<Rightarrow> e = AttributeError | Normal fs' \<Rightarrow> True)"
proof -
  have "fs_ok (the (run_seq all_programs empty_fs))" by code_simp
  then show ?thesis by (rule visualizers_safe)
qed

text \<open>
  C20: From crawl to image: when a crawl returns records, the Aarhus scraper exits
  normally, the visualizer run after it finds the file (its input path is the scraper's
  output path) and saves an image whose gender pie counts exactly the records' genders,
  each one of \<open>Male\<close>, \<open>Female\<close>, \<open>Unknown\<close>; whatever files there were before.
\<close>

theorem aarhus_pipeline:
  assumes "aarhus_crawl n site d aarhus_init = Some st" and "all_staff_data st \<noteq> []"
  shows "\<exists>fs1 fs2 c. aarhus_scraper_main n site d fs = Some (Normal fs1) \<and>
           aarhus_visualizer_main fs1 = Normal fs2 \<and>
           png_files fs2 AARHUS_OUTPUT_IMG = Some (AarhusImage c) \<and>
           gender_chart c = mset (map r_gender (all_staff_data st)) \<and>
           set_mset (gender_chart c) \<subseteq> {''Male'', ''Female'', ''Unknown''}"
proof -
  obtain c where c: "create_charts (aarhus_csv (all_staff_data st)) = Some (Inr c)"
      "gender_chart c = mset (map r_gender (all_staff_data st))"
      "set_mset (gender_chart c) \<subseteq> {''Male'', ''Female'', ''Unknown''}"
    using aarhus_crawl_charts [OF assms] by blast
  then show ?thesis
    using assms
    by (simp add: aarhus_scraper_file [OF assms(1)] aarhus_visualizer_main_def aarhus_csv_def pipeline_simps
        input_files)
qed

theorem aarhus_pipeline_witness:
  "\<exists>fs1 fs2 c. aarhus_scraper_main 3 two_page_site test_detector empty_fs = Some (Normal fs1) \<and>
     aarhus_visualizer_main fs1 = Normal fs2 \<and> png_files fs2 AARHUS_OUTPUT_IMG = Some (AarhusImage c) \<and>
     gender_chart c = mset (map r_gender (all_staff_data (the (aarhus_crawl 3 two_page_site test_detector aarhus_init)))) \<and>
     set_mset (gender_chart c) \<subseteq> {''Male'', ''Female'', ''Unknown''}"
proof -
  obtain st where st: "aarhus_crawl 3 two_page_site test_detector aarhus_init = Some st"
    using two_page_site_returns by blast
  moreover have "all_staff_data st \<noteq> []" using two_page_site_records st by simp
  ultimately show ?thesis using aarhus_pipeline [of 3 two_page_site test_detector st empty_fs] by simp
qed

text \<open>
  C21: The Pisa file survives a crash: once the main page is fetched, the file holds
  the header and every line the loop wrote, also when a row raised and ended the run,
  and the visualizer run after it either raises \<open>AttributeError\<close> or saves an image
  whose building chart counts every profile the scraper counted.
\<close>

theorem pisa_pipeline:
  assumes "scrape_pisa site env = Some r"
  shows "csv_files (outcome_state (pisa_scraper_main site env fs)) PISA_OUTPUT_FILE = Some (csv_rows (outcome_state r)) \<and>
         (case pisa_visualizer_main (outcome_state (pisa_scraper_main site env fs)) of
            Raised e fs' \<Rightarrow> e = AttributeError
          | Normal fs' \<Rightarrow> \<exists>db. png_files fs' PISA_OUTPUT_IMG = Some (PisaImage db) \<and>
                            size (building_counts db) = count (outcome_state r))"
proof -
  let ?fs1 = "outcome_state (pisa_scraper_main site env fs)"
  have written: "csv_files ?fs1 PISA_OUTPUT_FILE = Some (csv_rows (outcome_state r))"
    using pisa_scraper_csv [OF assms, of fs] by simp
  have ok: "csv_ok (outcome_state r)"
    by (rule scrape_pisa_inv [OF pisa_row_csv_ok pisa_init_csv_ok assms])
  then have "length (tl (csv_rows (outcome_state r))) = count (outcome_state r)"
    by (simp add: csv_ok_def)
  then show ?thesis
    using written pisa_visualizer_ok [OF written pisa_file_ok_rows [OF ok]]
    by (auto split: outcome.splits)
qed

theorem pisa_pipeline_witness:
  "csv_files (outcome_state (pisa_scraper_main pisa_site test_env empty_fs)) PISA_OUTPUT_FILE =
     Some (csv_rows (outcome_state (the (scrape_pisa pisa_site test_env)))) \<and>
   (case pisa_visualizer_main (outcome_state (pisa_scraper_main pisa_site test_env empty_fs)) of
      Raised e fs' \<Rightarrow> e = AttributeError
    | Normal fs' \<Rightarrow> \<exists>db. png_files fs' PISA_OUTPUT_IMG = Some (PisaImage db) \<and>
                      size (building_counts db) = count (outcome_state (the (scrape_pisa pisa_site test_env))))"
  by (rule pisa_pipeline [OF pisa_run_some])

text \<open>
  C22: A run that finds nothing keeps the previous output: when the Aarhus crawl returns
  no record, or the Pisa main page cannot be fetched, the scraper exits normally without
  opening its file: the CSV files, which the visualizers read, stay those of an
  earlier run.
\<close>

theorem scrapers_keep_old_file:
  assumes "aarhus_crawl n site d aarhus_init = Some st" and "all_staff_data st = []"
    and "site' MAIN_URL = None"
  shows "\<exists>fs1 fs2. aarhus_scraper_main n site d fs = Some (Normal fs1) \<and> csv_files fs1 = csv_files fs \<and>
           pisa_scraper_main site' env fs = Normal fs2 \<and> csv_files fs2 = csv_files fs"
  using assms by (simp add: aarhus_scraper_file pisa_scraper_no_page scrape_pisa_def)

theorem scrapers_keep_old_file_witness:
  "\<exists>fs1 fs2. aarhus_scraper_main 1 (\<lambda>u. None) test_detector old_fs = Some (Normal fs1) \<and>
     csv_files fs1 = csv_files old_fs \<and>
     pisa_scraper_main (\<lambda>u. None) test_env old_fs = Normal fs2 \<and> csv_files fs2 = csv_files old_fs"
  by (rule scrapers_keep_old_file [where st = "aarhus_init\<lparr>effects := [Fetch start_url]\<rparr>"])
    (simp_all add: aarhus_init_def start_url_def aarhus_crawl_fetch_failed)

end
