(* ===== verification/Spec2Isabelle.thy ===== *)
theory Spec2Isabelle
  imports Walker Pipeline
begin

text \<open>
  \<^bold>\<open>A verification development of the university faculty scrapers.\<close>

  The repository holds two scrapers and two chart scripts. \<open>src/aarhus_scraper.py\<close>
  (\<open>scrape_aarhus\<close>) walks the paginated Aarhus staff directory: for every page it
  extracts the person tables, takes each container's category from the nearest preceding
  header, normalises the six cells of each row, drops rows whose identity (email, else
  name) was seen before, guesses a gender from the first name with an offline detector,
  and follows the page's \<open>Next\<close> link until there is none, the link points back at the
  page, a fetch fails or the page's code raises. \<open>src/pisa_scraper.py\<close>
  (\<open>scrape_pisa\<close>) reads one page of attribute-tagged rows, rebuilds obfuscated emails,
  looks genders up at genderize.io through a per-run cache, and fetches a detail document
  per person. The visualizers read the CSV files back and draw charts.

  \<^bold>\<open>Theories.\<close>
  \<^item> \<open>Prelude\<close>: the Python exceptions as values (\<open>exc\<close>, \<open>ebind\<close>, \<open>outcome\<close>:
    a loop that raises keeps the state it reached), list indexing, the string builtins
    (\<open>split()\<close>, \<open>strip()\<close>, \<open>join\<close>, \<open>in\<close>, \<open>startswith\<close>, \<open>replace\<close>,
    \<open>lower\<close>, \<open>capitalize\<close>) on Latin-1 code points, and the effect trace (\<open>Fetch\<close>,
    \<open>Sleep\<close>).
  \<^item> \<open>Html\<close>: the page as BeautifulSoup presents it: a tree; \<open>find_all\<close>, \<open>find\<close>,
    \<open>find_previous\<close> (by position in document order), \<open>.text\<close>,
    \<open>get_text(strip=True)\<close>, \<open>.string\<close>, \<open>class_\<close> filters, attributes.
  \<^item> \<open>Normalize\<close> (RecordNormalizer): \<open>clean_text\<close>, the Aarhus profile link, the Pisa
    email, website and phone cells.
  \<^item> \<open>Dedup\<close> (Deduplicator): \<open>unique_id\<close>, \<open>admit\<close> (the \<open>seen_ids\<close> test and
    insert) and the loop \<open>dedup_run\<close>, against the reference \<open>nub_by\<close>.
  \<^item> \<open>Gender\<close> (EnrichmentResolver): the Aarhus \<open>get_gender\<close> with the detector as a
    parameter; the Pisa \<open>get_gender\<close> with the genderize.io service as a parameter
    (a function from the queried word to its reply); the Pisa cache step.
  \<^item> \<open>Aarhus\<close> (ListExtractor schema A and PaginationWalker): the state record
    \<open>aarhus_state\<close> holds the locals of \<open>scrape_aarhus\<close> and the effect trace;
    \<open>extract_row\<close>, \<open>process_rows\<close>, \<open>process_containers\<close>, \<open>aarhus_page\<close> and
    \<open>aarhus_crawl\<close> are the nested loops of the function, each exception a branch.
  \<^item> \<open>AarhusRuns\<close>: small directories in the site's markup and whole runs on them.
  \<^item> \<open>Walker\<close>: the same loop as a state machine: \<open>walker\<close> is running on a
    state or has left the loop with one, and the inductive \<open>walk_step\<close> is one
    iteration (the \<open>while current_url\<close> test, the fetch, the page, then a \<open>break\<close>
    or the move to the next URL).
  \<^item> \<open>Detail\<close> (DetailFetcher): \<open>get_detailed_info\<close> on the decoded JSON reply
    (\<open>json\<close>, with Python's \<open>in\<close>, \<open>[key]\<close> and truth value as \<open>json_in\<close>,
    \<open>json_get\<close>, \<open>truthy\<close>; a member is read by \<open>json_lookup\<close>, the last value of a
    repeated key as \<open>json.loads\<close> keeps it), the \<open>li\<close> flattening, \<open>N/A\<close> and
    \<open>Error/Empty\<close>.
  \<^item> \<open>Pisa\<close> (ListExtractor schema B and the main loop): \<open>pisa_state\<close> holds the lines
    passed to \<open>writer.writerow\<close> (\<open>csv_rows\<close>), \<open>count\<close>, \<open>gender_cache\<close> and the
    trace; \<open>pisa_row\<close> is the loop body of \<open>scrape_pisa\<close> with its uncaught exceptions,
    \<open>pisa_rows\<close> the loop, \<open>scrape_pisa\<close> the whole function. The genderize service,
    the detail endpoint and the HTML parser are the parameters \<open>pisa_env\<close>.
  \<^item> \<open>PisaRuns\<close>: a sample listing page and the run on it.
  \<^item> \<open>Frame\<close>: the part of pandas the visualizers use: \<open>read_csv\<close> with its
    default missing markers (a cell is a string or \<open>NaN\<close>), a column by header name
    (\<open>KeyError\<close> when absent), \<open>dropna\<close> and \<open>value_counts\<close> as a multiset.
  \<^item> \<open>AarhusCharts\<close> (the CSV sink of \<open>scrape_aarhus\<close> and
    \<open>src/aarhus_visualizer.py\<close>): \<open>aarhus_csv\<close> is the \<open>DictWriter\<close> output,
    \<open>create_charts\<close> reads it back and computes what the four charts show, with
    \<open>top_values\<close> for \<open>value_counts().nlargest(10)\<close>.
  \<^item> \<open>Dashboard\<close> (\<open>src/pisa_visualizer.py\<close>): \<open>create_dashboard\<close> with its
    cleaning steps \<open>pisa_role\<close> (the category prefix) and \<open>building_of\<close> (the last word
    of the room), on the file the Pisa run writes.
  \<^item> \<open>Pipeline\<close> (the four scripts together): the file system the scripts share as
    the record \<open>fs\<close> (directories, CSV files as their lines of fields, PNG files as the
    charts they show); the configuration paths (\<open>os.path.join\<close>), \<open>os.makedirs\<close> at
    import, \<open>open(..., 'w')\<close> and \<open>savefig\<close>; each script run as a process
    (\<open>aarhus_scraper_main\<close>, \<open>pisa_scraper_main\<close>, \<open>aarhus_visualizer_main\<close>,
    \<open>pisa_visualizer_main\<close>) that ends normally or with an uncaught exception and
    leaves the files as they are; and \<open>run_seq\<close>, any sequence of runs, each against
    its own \<open>world\<close> (sites, detector, services, fuel).

  The invariants of the Aarhus crawl are proved once, for any predicate of the state
  that the row loop preserves and that only depends on the records and the identities
  (\<open>process_containers_pres\<close>, \<open>aarhus_page_pres\<close>, \<open>aarhus_crawl_pres\<close>);
  uniqueness of identities and the gender labels are two instances.

  \<^bold>\<open>What is shown.\<close> Identities stay unique over a whole crawl and the row loop is the
  deduplicator applied to the rows of a container; records are only ever appended; the
  cycle guard stops at a self link; the walker terminates whenever the next links
  decrease a measure, and never stops on two pages that link to each other; a row with
  one to five cells ends the crawl instead of being skipped; the backward header search
  equals a forward pass; identities are unique in every state the loop passes through,
  by rule induction on its steps; \<open>clean_text\<close> keeps the words, spaces them singly and is
  idempotent; the email is rebuilt from its parts and can be read back; the genderize
  threshold is strict. For Pisa: the written lines keep the header and ten columns,
  follow the page order and skip only short rows; two lines whose first names share a
  key carry the same gender; the requests after the main page come only in pairs with
  their pauses, and the genderize pairs are one per cached key, so a cache hit sends
  nothing; a failed detail request gives \<open>Error/Empty\<close> and the run goes on; a
  six-cell row and an empty first name end the run with \<open>IndexError\<close>. The detail
  fetcher reads its two fields independently, answers \<open>Error/Empty\<close> for both on any
  failure, and never returns another value. From file to chart: the Aarhus file read
  back gives, under each key of the record dictionary, that field of every record in
  order; the job and building charts of \<open>create_charts\<close> meet the specification of
  \<open>nlargest(10)\<close> with the \<open>isin\<close> filter (\<open>top_chart_ok\<close>). The Pisa dashboard
  counts exactly the cleaned categories and the genders pandas does not read as missing,
  and one building per line; a file whose category column is all missing raises
  \<open>AttributeError\<close>. Across the scripts: in any sequence of runs the two CSV files
  stay well-formed; on such files the Aarhus visualizer always exits normally and the
  Pisa visualizer raises only \<open>AttributeError\<close>; each visualizer reads the file its
  scraper writes, so a crawl with records ends in an image of exactly those records;
  the Pisa file keeps the lines written before a crash; a run that finds nothing (or a
  Pisa run whose main page fails) leaves the file of an earlier run in place.

  \<^bold>\<open>Fuel.\<close> The walker's \<open>while current_url\<close> loop has no bound, so
  \<open>aarhus_crawl\<close> takes fuel (one unit per page) and returns \<open>None\<close> when it runs
  out. The fuel is justified by \<open>Walker\<close>: with fuel \<open>n\<close> the function returns a state
  exactly when the step relation leaves the loop with it within \<open>n\<close> iterations, so
  the fuel only bounds the number of pages and more fuel never changes a result. The
  termination theorem of \<open>Aarhus\<close> gives the fuel that suffices (above a decreasing
  measure of the URL); the properties of returned states hold for any fuel. In
  \<open>Pipeline\<close> a run of the Aarhus scraper carries the fuel of its world, and a
  sequence of runs is \<open>None\<close> only when one of its crawls runs out of fuel.

  \<^bold>\<open>Not modelled.\<close> HTML parsing and HTTP (a site is a function from URL to the
  parsed page, \<open>None\<close> for a failed request or an error status; a detail or genderize
  reply is given as its decoded fields); the printing of progress; the quoting and
  encoding of the \<open>csv\<close> module (a line is modelled as its list of fields, which the
  module writes and pandas reads back unchanged); the plotting of the visualizers
  (matplotlib and seaborn calls have no result the program uses, and are taken not to
  raise: the safety of the visualizers rests on that); pandas' numeric type
  inference (the columns used are text) and its order among values of equal count
  (left open: \<open>top_values\<close> fixes one, and its lemma holds for any); dot-segment
  removal in \<open>urljoin\<close>; code points above 255; the BeautifulSoup behaviour on a
  fragment that is not a string (taken to raise); file permissions, a full disk, and
  \<open>os.makedirs\<close> on a path that is a file (the scripts create one-component
  directories only); the byte content of the PNG files (an image is modelled as the
  counts it shows). The print statements, the imports and the \<open>HEADERS\<close> dictionary
  are the only lines of \<open>src/\<close> left without a model: they have no effect on any
  value the program computes or writes. The Pisa run has no loop without a bound, so
  it needs no fuel.
\<close>

end
